theory Spec2Isabelle
  imports Complex_Main "HOL-Library.Log_Nat" "HOL-Library.Char_ord" "HOL-Library.Multiset"
begin

section \<open>Go's float64\<close>

text \<open>
  Every amount, quantity and rate of the package is a Go \<^verbatim>\<open>float64\<close>: an IEEE 754
  binary64 number. A finite value is a sign and a magnitude on the binary64 grid, so that
  the two zeros are distinct values; the arithmetic rounds to nearest, ties to even.
\<close>

datatype float64 = Finite bool rat | Infinite bool | NaN

definition pow2 :: "int \<Rightarrow> rat" where
  "pow2 e = (if 0 \<le> e then 2 ^ nat e else 1 / 2 ^ nat (- e))"

text \<open>The binary exponent of a positive rational: \<open>pow2 e \<le> m < pow2 (e + 1)\<close>.\<close>

definition floor_log2 :: "rat \<Rightarrow> int" where
  "floor_log2 m = (case quotient_of m of (n, d) \<Rightarrow>
     (let e = bitlen n - bitlen d in if pow2 e \<le> m then e else e - 1))"

definition round_half_even :: "rat \<Rightarrow> int" where
  "round_half_even q = (let f = \<lfloor>q\<rfloor>; d = q - of_int f in
     if d < 1 / 2 then f else if 1 / 2 < d then f + 1 else if even f then f else f + 1)"

text \<open>
  Rounding of an exact magnitude to binary64: 53 significant bits, the least exponent
  \<open>-1022\<close> (below it the subnormal numbers, spaced \<open>pow2 (-1074)\<close>), overflow to infinity.
\<close>

definition to_binary64 :: "bool \<Rightarrow> rat \<Rightarrow> float64" where
  "to_binary64 s m = (if m = 0 then Finite s 0 else
     (let e = max (floor_log2 m) (- 1022);
          u = pow2 (e - 52);
          r = of_int (round_half_even (m / u)) * u
      in if pow2 1024 \<le> r then Infinite s else Finite s r))"

text \<open>A numeric constant of the source, converted to float64.\<close>

definition lit :: "rat \<Rightarrow> float64" where
  "lit q = to_binary64 (q < 0) \<bar>q\<bar>"

definition signed :: "bool \<Rightarrow> rat \<Rightarrow> rat" where
  "signed s m = (if s then - m else m)"

text \<open>Go's \<^verbatim>\<open>x + y\<close>, \<^verbatim>\<open>x * y\<close> and \<^verbatim>\<open>x / y\<close> on float64.\<close>

fun f64_add :: "float64 \<Rightarrow> float64 \<Rightarrow> float64" where
  "f64_add NaN _ = NaN"
| "f64_add _ NaN = NaN"
| "f64_add (Infinite s) (Infinite t) = (if s = t then Infinite s else NaN)"
| "f64_add (Infinite s) (Finite t n) = Infinite s"
| "f64_add (Finite s m) (Infinite t) = Infinite t"
| "f64_add (Finite s m) (Finite t n) =
     (let v = signed s m + signed t n in
      if v = 0 then Finite (s \<and> t) 0 else to_binary64 (v < 0) \<bar>v\<bar>)"

fun f64_mul :: "float64 \<Rightarrow> float64 \<Rightarrow> float64" where
  "f64_mul NaN _ = NaN"
| "f64_mul _ NaN = NaN"
| "f64_mul (Infinite s) (Infinite t) = Infinite (s \<noteq> t)"
| "f64_mul (Infinite s) (Finite t n) = (if n = 0 then NaN else Infinite (s \<noteq> t))"
| "f64_mul (Finite s m) (Infinite t) = (if m = 0 then NaN else Infinite (s \<noteq> t))"
| "f64_mul (Finite s m) (Finite t n) = to_binary64 (s \<noteq> t) (m * n)"

fun f64_div :: "float64 \<Rightarrow> float64 \<Rightarrow> float64" where
  "f64_div NaN _ = NaN"
| "f64_div _ NaN = NaN"
| "f64_div (Infinite s) (Infinite t) = NaN"
| "f64_div (Infinite s) (Finite t n) = Infinite (s \<noteq> t)"
| "f64_div (Finite s m) (Infinite t) = Finite (s \<noteq> t) 0"
| "f64_div (Finite s m) (Finite t n) =
     (if n = 0 then (if m = 0 then NaN else Infinite (s \<noteq> t))
      else to_binary64 (s \<noteq> t) (m / n))"

text \<open>
  Go's \<^verbatim>\<open>x == y\<close> on float64, which is also the equality of map keys: NaN equals
  nothing, itself included, and the two zeros are equal.
\<close>

fun f64_eq :: "float64 \<Rightarrow> float64 \<Rightarrow> bool" where
  "f64_eq NaN _ = False"
| "f64_eq _ NaN = False"
| "f64_eq (Finite s m) (Finite t n) = (m = n \<and> (s = t \<or> m = 0))"
| "f64_eq (Infinite s) (Infinite t) = (s = t)"
| "f64_eq _ _ = False"

text \<open>
  \<^verbatim>\<open>math.Round\<close>: the nearest integer, halves away from zero; zeros, infinities and NaN
  are returned as they are. The result of a finite argument is on the grid.
\<close>

fun math_Round :: "float64 \<Rightarrow> float64" where
  "math_Round (Finite s m) = Finite s (of_int \<lfloor>m + 1 / 2\<rfloor>)"
| "math_Round x = x"

text \<open>
  \<^verbatim>\<open>func round(amount float64) float64 { return math.Round(amount*100) / 100 }\<close>
  (named \<open>round_amount\<close>: \<open>round\<close> is a constant of HOL).
\<close>

definition round_amount :: "float64 \<Rightarrow> float64" where
  "round_amount amount = f64_div (math_Round (f64_mul amount (lit 100))) (lit 100)"

definition f64_zero :: float64 where
  "f64_zero = Finite False 0"

section \<open>The input model\<close>

text \<open>
  The structs \<^verbatim>\<open>Address\<close>, \<^verbatim>\<open>InvoiceLine\<close>, \<^verbatim>\<open>Invoice\<close> and \<^verbatim>\<open>CreditNote\<close>.
  A \<^verbatim>\<open>*time.Time\<close> or \<^verbatim>\<open>*Address\<close> field is an option (\<open>None\<close> for nil). The
  unexported field \<^verbatim>\<open>xml\<close>, the tree under construction, is threaded through the
  functions below as a value of its own. A \<^verbatim>\<open>time.Time\<close> is an instant and the name of
  its location; the calendar is not modelled, and formatting is an operation of the
  environment.
\<close>

record gotime =
  unixNano :: int
  location :: string

record Address =
  StreetName :: string
  CityName :: string
  PostalZone :: string
  CountryCode :: string

record InvoiceLine =
  Quantity :: float64
  Price :: float64
  TaxPercentage :: float64
  TaxCategoryID :: string
  TaxCategoryName :: string
  TaxExemptionReason :: string
  TaxExemptionCode :: string
  Name :: string
  Description :: string

record taxKey =
  Rate :: float64
  CategoryID :: string

record Invoice =
  ID :: string
  CustomizationID :: string
  ProfileID :: string
  SupplierName :: string
  SupplierVat :: string
  SupplierPeppolID :: string
  SupplierAddress :: Address
  CustomerName :: string
  CustomerVat :: string
  CustomerPeppolID :: string
  CustomerAddress :: Address
  DeliveryAddress :: "Address option"
  ActualDeliveryDate :: "gotime option"
  InvoicePeriodStart :: "gotime option"
  InvoicePeriodEnd :: "gotime option"
  Iban :: string
  Bic :: string
  Note :: string
  Lines :: "InvoiceLine list"
  PdfInvoiceFilename :: string
  PdfInvoiceData :: string
  PdfInvoiceDescription :: string

record CreditNote =
  ID :: string
  CustomizationID :: string
  ProfileID :: string
  SupplierName :: string
  SupplierVat :: string
  SupplierPeppolID :: string
  SupplierAddress :: Address
  CustomerName :: string
  CustomerVat :: string
  CustomerPeppolID :: string
  CustomerAddress :: Address
  DeliveryAddress :: "Address option"
  ActualDeliveryDate :: "gotime option"
  InvoicePeriodStart :: "gotime option"
  InvoicePeriodEnd :: "gotime option"
  Iban :: string
  Bic :: string
  Note :: string
  Lines :: "InvoiceLine list"
  PdfCreditNoteFilename :: string
  PdfCreditNoteData :: string
  PdfCreditNoteDescription :: string

section \<open>The output tree\<close>

text \<open>
  Modelled from the spec: the declarations of the output structs of the current
  version are not among the sources (the declarations at hand are those of an earlier
  version, without delivery, invoicing period and exemption fields). The fields below are
  those of the earlier declarations together with the fields that \<^verbatim>\<open>Generate\<close>,
  \<^verbatim>\<open>addLines\<close> and \<^verbatim>\<open>calculateTaxTotals\<close> assign: \<^verbatim>\<open>TaxExemptionReasonCode\<close> and
  \<^verbatim>\<open>TaxExemptionReason\<close> of the tax category, \<^verbatim>\<open>Delivery\<close> and \<^verbatim>\<open>InvoicePeriod\<close> of
  the document. \<^verbatim>\<open>XMLName\<close> carries only the element name and is left out.
\<close>

record xmlAmount =
  Value :: float64
  CurrencyID :: string

record xmlQuantity =
  Value :: float64
  UnitCode :: string

record xmlTaxScheme =
  ID :: string

record xmlTaxCategory =
  ID :: string
  Name :: string
  Percent :: float64
  TaxExemptionReasonCode :: string
  TaxExemptionReason :: string
  TaxScheme :: xmlTaxScheme

record xmlTaxSubtotal =
  TaxableAmount :: xmlAmount
  TaxAmount :: xmlAmount
  TaxCategory :: xmlTaxCategory

record xmlTaxTotal =
  TaxAmount :: xmlAmount
  TaxSubtotal :: "xmlTaxSubtotal list"

record xmlMonetaryTotal =
  LineExtensionAmount :: xmlAmount
  TaxExclusiveAmount :: xmlAmount
  TaxInclusiveAmount :: xmlAmount
  PayableAmount :: xmlAmount

record xmlItem =
  Description :: string
  Name :: string
  ClassifiedTaxCategory :: xmlTaxCategory

record xmlPrice =
  PriceAmount :: xmlAmount

record xmlInvoiceLine =
  ID :: string
  InvoicedQuantity :: xmlQuantity
  LineExtensionAmount :: xmlAmount
  TaxTotal :: xmlTaxTotal
  Item :: xmlItem
  Price :: xmlPrice

record xmlCreditNoteLine =
  ID :: string
  CreditedQuantity :: xmlQuantity
  LineExtensionAmount :: xmlAmount
  Item :: xmlItem
  Price :: xmlPrice

record xmlEmbeddedDocumentBinaryObject =
  Value :: string
  MimeCode :: string
  Filename :: string

record xmlAttachment =
  EmbeddedDocumentBinaryObject :: xmlEmbeddedDocumentBinaryObject

record xmlDocumentReference =
  ID :: string
  DocumentDescription :: string
  Attachment :: "xmlAttachment list"

record xmlEndpointID =
  Value :: string
  SchemeID :: string

record xmlCountry =
  IdentificationCode :: string

record xmlPostalAddress =
  StreetName :: string
  CityName :: string
  PostalZone :: string
  Country :: xmlCountry

record xmlPartyTaxScheme =
  CompanyID :: string
  TaxScheme :: xmlTaxScheme

record xmlParty =
  EndpointID :: xmlEndpointID
  PartyName :: string
  PostalAddress :: xmlPostalAddress
  PartyTaxScheme :: xmlPartyTaxScheme
  RegistrationName :: string

record xmlSupplierParty =
  Party :: xmlParty

record xmlCustomerParty =
  Party :: xmlParty

record xmlFinancialInstitutionBranch =
  ID :: string

record xmlFinancialAccount =
  ID :: string
  FinancialInstitutionBranch :: xmlFinancialInstitutionBranch

record xmlPaymentMeans =
  PaymentMeansCode :: string
  PayeeFinancialAccount :: xmlFinancialAccount

record xmlPaymentTerms =
  Note :: string

record xmlDeliveryLocation =
  Address :: xmlPostalAddress

record xmlDelivery =
  ActualDeliveryDate :: string
  DeliveryLocation :: xmlDeliveryLocation

record xmlInvoicePeriod =
  StartDate :: string
  EndDate :: string

record xmlInvoice =
  Xmlns :: string
  Cac :: string
  Cbc :: string
  CustomizationID :: string
  ProfileID :: string
  ID :: string
  IssueDate :: string
  DueDate :: string
  InvoiceTypeCode :: string
  DocumentCurrency :: string
  BuyerReference :: string
  InvoicePeriod :: "xmlInvoicePeriod option"
  OrderReference :: string
  AdditionalDocumentReference :: "xmlDocumentReference list"
  SupplierParty :: xmlSupplierParty
  CustomerParty :: xmlCustomerParty
  Delivery :: "xmlDelivery option"
  PaymentMeans :: xmlPaymentMeans
  PaymentTerms :: xmlPaymentTerms
  TaxTotal :: xmlTaxTotal
  LegalMonetaryTotal :: xmlMonetaryTotal
  InvoiceLines :: "xmlInvoiceLine list"

record xmlCreditNote =
  Xmlns :: string
  Cac :: string
  Cbc :: string
  CustomizationID :: string
  ProfileID :: string
  ID :: string
  IssueDate :: string
  CreditNoteTypeCode :: string
  DocumentCurrency :: string
  InvoicePeriod :: "xmlInvoicePeriod option"
  OrderReference :: string
  AdditionalDocumentReference :: "xmlDocumentReference list"
  SupplierParty :: xmlSupplierParty
  CustomerParty :: xmlCustomerParty
  Delivery :: "xmlDelivery option"
  PaymentMeans :: xmlPaymentMeans
  PaymentTerms :: xmlPaymentTerms
  TaxTotal :: xmlTaxTotal
  LegalMonetaryTotal :: xmlMonetaryTotal
  CreditNoteLines :: "xmlCreditNoteLine list"

section \<open>The VAT identifier normalizer\<close>

text \<open>
  The loop of \<^verbatim>\<open>cleanVATIdentifier\<close> that drops leading ASCII digits:
  \<^verbatim>\<open>for len(vatID) > 0 && vatID[0] >= '0' && vatID[0] <= '9' { vatID = vatID[1:] }\<close>.
  A Go string is a sequence of bytes and the comparisons are on bytes.
\<close>

fun stripLeadingDigits :: "string \<Rightarrow> string" where
  "stripLeadingDigits [] = []"
| "stripLeadingDigits (c # cs) =
     (if CHR ''0'' \<le> c \<and> c \<le> CHR ''9'' then stripLeadingDigits cs else c # cs)"

definition cleanVATIdentifier :: "string \<Rightarrow> string \<Rightarrow> string" where
  "cleanVATIdentifier vatID countryCode =
     (let v = stripLeadingDigits vatID in
      if 2 \<le> length v \<and> (v ! 0 < CHR ''A'' \<or> CHR ''Z'' < v ! 0) then countryCode @ v
      else if length v < 2 then countryCode @ v
      else (let vatPrefix = take 2 v in
            if vatPrefix = ''GR'' then ''EL'' @ drop 2 v else v))"

text \<open>A country code in the form of ISO 3166-1 alpha-2: two uppercase ASCII letters.\<close>

definition alpha2 :: "string \<Rightarrow> bool" where
  "alpha2 c = (length c = 2 \<and> (\<forall>ch \<in> set c. CHR ''A'' \<le> ch \<and> ch \<le> CHR ''Z''))"

section \<open>Panics, errors and the environment\<close>

text \<open>
  A run-time panic of Go is a value of \<open>panic\<close>, and a function that can panic returns
  \<open>panic + 'a\<close>. An \<^verbatim>\<open>error\<close> is the failure that a call of the operating system
  reported, or an error wrapped by \<^verbatim>\<open>fmt.Errorf("<context>: %w", err)\<close>.
\<close>

datatype panic = SliceBoundsOutOfRange | NilPointerDereference

datatype go_error = OsError string | Wrapped string go_error

text \<open>The slice expressions \<^verbatim>\<open>s[lo:]\<close> and \<^verbatim>\<open>s[lo:hi]\<close> on a string.\<close>

definition slice_from :: "string \<Rightarrow> nat \<Rightarrow> panic + string" where
  "slice_from s lo = (if lo \<le> length s then Inr (drop lo s) else Inl SliceBoundsOutOfRange)"

definition slice_range :: "string \<Rightarrow> nat \<Rightarrow> nat \<Rightarrow> panic + string" where
  "slice_range s lo hi =
     (if lo \<le> hi \<and> hi \<le> length s then Inr (take (hi - lo) (drop lo s))
      else Inl SliceBoundsOutOfRange)"

text \<open>\<^verbatim>\<open>strconv.Itoa\<close> on a number that is not negative.\<close>

fun Itoa :: "nat \<Rightarrow> string" where
  "Itoa n = (if n < 10 then [char_of (48 + n)] else Itoa (n div 10) @ [char_of (48 + n mod 10)])"

section \<open>The tax aggregator\<close>

text \<open>
  The map \<^verbatim>\<open>map[taxKey]*taxSummary\<close> is an association list. Its keys are compared as
  Go compares them: field by field with \<^verbatim>\<open>==\<close>, so that a key whose rate is NaN is never
  found. Every value is a pointer to a summary of its own, allocated when the key is
  inserted and reachable through the map alone, so that the summary stands for the
  pointer: \<open>None\<close> is the nil that indexing gives for a key that is not found.
\<close>

record taxSummary =
  key :: taxKey
  taxable :: float64
  tax :: float64
  catName :: string

type_synonym summaries = "(taxKey \<times> taxSummary) list"

definition taxKey_eq :: "taxKey \<Rightarrow> taxKey \<Rightarrow> bool" where
  "taxKey_eq a b = (f64_eq (Rate a) (Rate b) \<and> CategoryID a = CategoryID b)"

text \<open>\<^verbatim>\<open>m[k]\<close>.\<close>

fun map_index :: "summaries \<Rightarrow> taxKey \<Rightarrow> taxSummary option" where
  "map_index [] k = None"
| "map_index ((k', v) # m) k = (if taxKey_eq k' k then Some v else map_index m k)"

text \<open>\<^verbatim>\<open>m[k] = v\<close>.\<close>

fun map_assign :: "summaries \<Rightarrow> taxKey \<Rightarrow> taxSummary \<Rightarrow> summaries" where
  "map_assign [] k v = [(k, v)]"
| "map_assign ((k', v') # m) k v =
     (if taxKey_eq k' k then (k, v) # m else (k', v') # map_assign m k v)"

text \<open>
  \<^verbatim>\<open>m[k].field += x\<close>: the summary that \<^verbatim>\<open>m[k]\<close> points to is updated in place; a nil
  pointer is dereferenced when the key is not found (\<open>None\<close>).
\<close>

fun map_modify :: "summaries \<Rightarrow> taxKey \<Rightarrow> (taxSummary \<Rightarrow> taxSummary) \<Rightarrow> summaries option" where
  "map_modify [] k f = None"
| "map_modify ((k', v) # m) k f =
     (if taxKey_eq k' k then Some ((k', f v) # m)
      else map_option ((#) (k', v)) (map_modify m k f))"

text \<open>
  The locals of one iteration of the first loop of \<^verbatim>\<open>calculateTaxTotals\<close>, before the
  map is touched: \<open>(lineAmount, categoryID, categoryName, taxRate, tax)\<close>.
\<close>

definition calculateTaxTotals_line ::
    "InvoiceLine \<Rightarrow> float64 \<times> string \<times> string \<times> float64 \<times> float64" where
  "calculateTaxTotals_line line =
     (let lineAmount = round_amount (f64_mul (Quantity line) (InvoiceLine.Price line));
          categoryID = (if TaxCategoryID line = [] then ''S'' else TaxCategoryID line);
          categoryName =
            (if TaxCategoryName line = [] then ''Standard rated'' else TaxCategoryName line);
          taxRate = (if categoryID = ''K'' then lit 0 else TaxPercentage line);
          tax = round_amount (f64_div (f64_mul lineAmount taxRate) (lit 100))
      in (lineAmount, categoryID, categoryName, taxRate, tax))"

text \<open>
  One iteration of the first loop, on the state \<open>(summaries, lineTotal, taxTotal)\<close>.
\<close>

definition calculateTaxTotals_step ::
    "InvoiceLine \<Rightarrow> summaries \<times> float64 \<times> float64 \<Rightarrow> panic + summaries \<times> float64 \<times> float64" where
  "calculateTaxTotals_step line st =
     (let (summaries, lineTotal, taxTotal) = st;
          (lineAmount, categoryID, categoryName, taxRate, tax) = calculateTaxTotals_line line;
          key = \<lparr>Rate = taxRate, CategoryID = categoryID\<rparr>;
          lineTotal = f64_add lineTotal lineAmount;
          taxTotal = f64_add taxTotal tax;
          summaries =
            (if map_index summaries key = None
             then map_assign summaries key
                    \<lparr>key = key, taxable = f64_zero, tax = f64_zero, catName = categoryName\<rparr>
             else summaries)
      in (case map_modify summaries key
                 (\<lambda>s. s\<lparr>taxable := f64_add (taxSummary.taxable s) lineAmount\<rparr>) of
            None \<Rightarrow> Inl NilPointerDereference
          | Some summaries \<Rightarrow>
              (case map_modify summaries key
                      (\<lambda>s. s\<lparr>tax := f64_add (taxSummary.tax s) tax\<rparr>) of
                 None \<Rightarrow> Inl NilPointerDereference
               | Some summaries \<Rightarrow> Inr (summaries, lineTotal, taxTotal))))"

fun calculateTaxTotals_loop ::
    "InvoiceLine list \<Rightarrow> summaries \<times> float64 \<times> float64 \<Rightarrow> panic + summaries \<times> float64 \<times> float64" where
  "calculateTaxTotals_loop [] st = Inr st"
| "calculateTaxTotals_loop (line # lines) st =
     (case calculateTaxTotals_step line st of
        Inl p \<Rightarrow> Inl p
      | Inr st' \<Rightarrow> calculateTaxTotals_loop lines st')"

text \<open>The body of the second loop: the subtotal emitted for one summary.\<close>

definition calculateTaxTotals_subtotal :: "taxSummary \<Rightarrow> xmlTaxSubtotal" where
  "calculateTaxTotals_subtotal summary =
     (let taxCat = \<lparr>xmlTaxCategory.ID = CategoryID (taxSummary.key summary),
                     xmlTaxCategory.Name = catName summary,
                     Percent = Rate (taxSummary.key summary),
                     TaxExemptionReasonCode = [],
                     TaxExemptionReason = [],
                     xmlTaxCategory.TaxScheme = \<lparr>xmlTaxScheme.ID = ''VAT''\<rparr>\<rparr>;
          taxCat =
            (if CategoryID (taxSummary.key summary) = ''K''
             then taxCat\<lparr>TaxExemptionReasonCode := ''VATEX-EU-IC'',
                         TaxExemptionReason := ''Intra-community supply''\<rparr>
             else taxCat)
      in \<lparr>TaxableAmount = \<lparr>xmlAmount.Value = taxSummary.taxable summary, CurrencyID = ''EUR''\<rparr>,
          xmlTaxSubtotal.TaxAmount = \<lparr>xmlAmount.Value = taxSummary.tax summary, CurrencyID = ''EUR''\<rparr>,
          TaxCategory = taxCat\<rparr>)"

text \<open>
  \<^verbatim>\<open>for _, summary := range summaries\<close> visits every entry of the map once, in an order
  that Go leaves unspecified and that differs from run to run. The order of one run is
  the parameter \<open>rng\<close>, which maps the entries to the sequence in which they are visited;
  \<open>range_order rng\<close> says that it visits every entry exactly once.
\<close>

type_synonym map_range = "summaries \<Rightarrow> summaries"

definition range_order :: "map_range \<Rightarrow> bool" where
  "range_order rng = (\<forall>m. mset (rng m) = mset m)"

definition calculateTaxTotals ::
    "map_range \<Rightarrow> InvoiceLine list \<Rightarrow> panic + float64 \<times> float64 \<times> xmlTaxSubtotal list" where
  "calculateTaxTotals rng lines =
     (case calculateTaxTotals_loop lines ([], f64_zero, f64_zero) of
        Inl p \<Rightarrow> Inl p
      | Inr (summaries, lineTotal, taxTotal) \<Rightarrow>
          Inr (lineTotal, taxTotal, map (\<lambda>(k, summary). calculateTaxTotals_subtotal summary)
                                        (rng summaries)))"

section \<open>The line builders\<close>

text \<open>
  The body of the loop of \<^verbatim>\<open>(*Invoice).addLines\<close> for the line at index \<open>i\<close>: the
  fragment that is appended to \<^verbatim>\<open>inv.xml.InvoiceLines\<close>.
\<close>

definition Invoice_addLines_line :: "nat \<Rightarrow> InvoiceLine \<Rightarrow> xmlInvoiceLine" where
  "Invoice_addLines_line i line =
     (let lineAmount = round_amount (f64_mul (Quantity line) (InvoiceLine.Price line));
          tax = round_amount (f64_div (f64_mul lineAmount (TaxPercentage line)) (lit 100));
          categoryID = (if TaxCategoryID line = [] then ''S'' else TaxCategoryID line);
          categoryName =
            (if TaxCategoryName line = [] then ''Standard rated'' else TaxCategoryName line);
          taxRate = (if categoryID = ''K'' then lit 0 else TaxPercentage line);
          tax = (if categoryID = ''K'' then lit 0 else tax);
          taxCat = \<lparr>xmlTaxCategory.ID = categoryID,
                     xmlTaxCategory.Name = categoryName,
                     Percent = taxRate,
                     TaxExemptionReasonCode = [],
                     TaxExemptionReason = [],
                     xmlTaxCategory.TaxScheme = \<lparr>xmlTaxScheme.ID = ''VAT''\<rparr>\<rparr>;
          taxCat =
            (if categoryID = ''K''
             then taxCat\<lparr>TaxExemptionReasonCode :=
                           (if TaxExemptionCode line \<noteq> [] then TaxExemptionCode line
                            else ''VATEX-EU-IC''),
                         TaxExemptionReason :=
                           (if InvoiceLine.TaxExemptionReason line \<noteq> []
                            then InvoiceLine.TaxExemptionReason line
                            else ''Intra-community supply'')\<rparr>
             else taxCat)
      in \<lparr>xmlInvoiceLine.ID = Itoa (i + 1),
          InvoicedQuantity = \<lparr>xmlQuantity.Value = Quantity line, UnitCode = ''ZZ''\<rparr>,
          xmlInvoiceLine.LineExtensionAmount = \<lparr>xmlAmount.Value = lineAmount, CurrencyID = ''EUR''\<rparr>,
          xmlInvoiceLine.TaxTotal =
            \<lparr>xmlTaxTotal.TaxAmount = \<lparr>xmlAmount.Value = tax, CurrencyID = ''EUR''\<rparr>,
             TaxSubtotal = []\<rparr>,
          xmlInvoiceLine.Item =
            \<lparr>xmlItem.Description = InvoiceLine.Description line,
             xmlItem.Name = InvoiceLine.Name line,
             ClassifiedTaxCategory = taxCat\<rparr>,
          xmlInvoiceLine.Price =
            \<lparr>PriceAmount = \<lparr>xmlAmount.Value = InvoiceLine.Price line, CurrencyID = ''EUR''\<rparr>\<rparr>\<rparr>)"

text \<open>The same for \<^verbatim>\<open>(*CreditNote).addLines\<close>; its line fragment has no tax total.\<close>

definition CreditNote_addLines_line :: "nat \<Rightarrow> InvoiceLine \<Rightarrow> xmlCreditNoteLine" where
  "CreditNote_addLines_line i line =
     (let lineAmount = round_amount (f64_mul (Quantity line) (InvoiceLine.Price line));
          categoryID = (if TaxCategoryID line = [] then ''S'' else TaxCategoryID line);
          categoryName =
            (if TaxCategoryName line = [] then ''Standard rated'' else TaxCategoryName line);
          taxRate = (if categoryID = ''K'' then lit 0 else TaxPercentage line);
          taxCat = \<lparr>xmlTaxCategory.ID = categoryID,
                     xmlTaxCategory.Name = categoryName,
                     Percent = taxRate,
                     TaxExemptionReasonCode = [],
                     TaxExemptionReason = [],
                     xmlTaxCategory.TaxScheme = \<lparr>xmlTaxScheme.ID = ''VAT''\<rparr>\<rparr>;
          taxCat =
            (if categoryID = ''K''
             then taxCat\<lparr>TaxExemptionReasonCode :=
                           (if TaxExemptionCode line \<noteq> [] then TaxExemptionCode line
                            else ''VATEX-EU-IC''),
                         TaxExemptionReason :=
                           (if InvoiceLine.TaxExemptionReason line \<noteq> []
                            then InvoiceLine.TaxExemptionReason line
                            else ''Intra-community supply'')\<rparr>
             else taxCat)
      in \<lparr>xmlCreditNoteLine.ID = Itoa (i + 1),
          CreditedQuantity = \<lparr>xmlQuantity.Value = Quantity line, UnitCode = ''ZZ''\<rparr>,
          xmlCreditNoteLine.LineExtensionAmount =
            \<lparr>xmlAmount.Value = lineAmount, CurrencyID = ''EUR''\<rparr>,
          xmlCreditNoteLine.Item =
            \<lparr>xmlItem.Description = InvoiceLine.Description line,
             xmlItem.Name = InvoiceLine.Name line,
             ClassifiedTaxCategory = taxCat\<rparr>,
          xmlCreditNoteLine.Price =
            \<lparr>PriceAmount = \<lparr>xmlAmount.Value = InvoiceLine.Price line, CurrencyID = ''EUR''\<rparr>\<rparr>\<rparr>)"

text \<open>
  The loops \<^verbatim>\<open>for i, line := range Lines\<close>: the lines from index \<open>i\<close> on are appended
  to the fragments built so far.
\<close>

fun Invoice_addLines_loop ::
    "nat \<Rightarrow> InvoiceLine list \<Rightarrow> xmlInvoiceLine list \<Rightarrow> xmlInvoiceLine list" where
  "Invoice_addLines_loop i [] out = out"
| "Invoice_addLines_loop i (line # lines) out =
     Invoice_addLines_loop (i + 1) lines (out @ [Invoice_addLines_line i line])"

fun CreditNote_addLines_loop ::
    "nat \<Rightarrow> InvoiceLine list \<Rightarrow> xmlCreditNoteLine list \<Rightarrow> xmlCreditNoteLine list" where
  "CreditNote_addLines_loop i [] out = out"
| "CreditNote_addLines_loop i (line # lines) out =
     CreditNote_addLines_loop (i + 1) lines (out @ [CreditNote_addLines_line i line])"

text \<open>
  \<^verbatim>\<open>addLines\<close> of both kinds of document, on the tree \<open>x\<close> that \<^verbatim>\<open>inv.xml\<close>
  (\<^verbatim>\<open>cn.xml\<close>) points to: the updated tree, or the panic of the aggregator.
\<close>

definition Invoice_addLines :: "map_range \<Rightarrow> Invoice \<Rightarrow> xmlInvoice \<Rightarrow> panic + xmlInvoice" where
  "Invoice_addLines rng invoice x =
     (let x = x\<lparr>InvoiceLines := Invoice_addLines_loop 0 (Invoice.Lines invoice) (InvoiceLines x)\<rparr>
      in (case calculateTaxTotals rng (Invoice.Lines invoice) of
            Inl p \<Rightarrow> Inl p
          | Inr (lineTotal, taxTotal, subtotals) \<Rightarrow>
              (let total = round_amount (f64_add lineTotal taxTotal)
               in Inr (x\<lparr>xmlInvoice.TaxTotal :=
                            \<lparr>xmlTaxTotal.TaxAmount = \<lparr>xmlAmount.Value = taxTotal, CurrencyID = ''EUR''\<rparr>,
                             TaxSubtotal = subtotals\<rparr>,
                         xmlInvoice.LegalMonetaryTotal :=
                            \<lparr>xmlMonetaryTotal.LineExtensionAmount =
                               \<lparr>xmlAmount.Value = lineTotal, CurrencyID = ''EUR''\<rparr>,
                             TaxExclusiveAmount = \<lparr>xmlAmount.Value = lineTotal, CurrencyID = ''EUR''\<rparr>,
                             TaxInclusiveAmount = \<lparr>xmlAmount.Value = total, CurrencyID = ''EUR''\<rparr>,
                             PayableAmount = \<lparr>xmlAmount.Value = total, CurrencyID = ''EUR''\<rparr>\<rparr>\<rparr>))))"

definition CreditNote_addLines ::
    "map_range \<Rightarrow> CreditNote \<Rightarrow> xmlCreditNote \<Rightarrow> panic + xmlCreditNote" where
  "CreditNote_addLines rng cn x =
     (let x = x\<lparr>CreditNoteLines :=
                  CreditNote_addLines_loop 0 (CreditNote.Lines cn) (CreditNoteLines x)\<rparr>
      in (case calculateTaxTotals rng (CreditNote.Lines cn) of
            Inl p \<Rightarrow> Inl p
          | Inr (lineTotal, taxTotal, subtotals) \<Rightarrow>
              (let total = round_amount (f64_add lineTotal taxTotal)
               in Inr (x\<lparr>xmlCreditNote.TaxTotal :=
                            \<lparr>xmlTaxTotal.TaxAmount = \<lparr>xmlAmount.Value = taxTotal, CurrencyID = ''EUR''\<rparr>,
                             TaxSubtotal = subtotals\<rparr>,
                         xmlCreditNote.LegalMonetaryTotal :=
                            \<lparr>xmlMonetaryTotal.LineExtensionAmount =
                               \<lparr>xmlAmount.Value = lineTotal, CurrencyID = ''EUR''\<rparr>,
                             TaxExclusiveAmount = \<lparr>xmlAmount.Value = lineTotal, CurrencyID = ''EUR''\<rparr>,
                             TaxInclusiveAmount = \<lparr>xmlAmount.Value = total, CurrencyID = ''EUR''\<rparr>,
                             PayableAmount = \<lparr>xmlAmount.Value = total, CurrencyID = ''EUR''\<rparr>\<rparr>\<rparr>))))"

section \<open>Document assembly\<close>

text \<open>
  What \<^verbatim>\<open>Generate\<close> takes from outside the package: the clock (\<open>timeNow env n\<close> is
  the result of the call number \<open>n\<close> of \<^verbatim>\<open>time.Now()\<close>), \<^verbatim>\<open>Time.Format("2006-01-02")\<close>
  and \<^verbatim>\<open>Time.AddDate\<close>, \<^verbatim>\<open>os.ReadFile\<close>, \<^verbatim>\<open>http.DetectContentType\<close>,
  \<^verbatim>\<open>base64.StdEncoding.EncodeToString\<close>, \<^verbatim>\<open>xml.MarshalIndent(v, "", "  ")\<close> on the two
  kinds of tree, and the order in which the run iterates over a map.
\<close>

record env =
  timeNow :: "nat \<Rightarrow> gotime"
  formatDate :: "gotime \<Rightarrow> string"
  addDate :: "gotime \<Rightarrow> int \<Rightarrow> int \<Rightarrow> int \<Rightarrow> gotime"
  readFile :: "string \<Rightarrow> go_error + string"
  detectContentType :: "string \<Rightarrow> string"
  encodeToString :: "string \<Rightarrow> string"
  marshalIndentInvoice :: "xmlInvoice \<Rightarrow> go_error + string"
  marshalIndentCreditNote :: "xmlCreditNote \<Rightarrow> go_error + string"
  mapRange :: map_range

text \<open>The constant \<^verbatim>\<open>xml.Header\<close>.\<close>

definition xml_Header :: string where
  "xml_Header = ''<?xml version=\"1.0\" encoding=\"UTF-8\"?>'' @ [CHR 0x0A]"

text \<open>The zero values of the structs whose fields a composite literal leaves out.\<close>

definition zero_xmlAmount :: xmlAmount where
  "zero_xmlAmount = \<lparr>xmlAmount.Value = f64_zero, CurrencyID = []\<rparr>"

definition zero_xmlTaxTotal :: xmlTaxTotal where
  "zero_xmlTaxTotal = \<lparr>xmlTaxTotal.TaxAmount = zero_xmlAmount, TaxSubtotal = []\<rparr>"

definition zero_xmlMonetaryTotal :: xmlMonetaryTotal where
  "zero_xmlMonetaryTotal =
     \<lparr>xmlMonetaryTotal.LineExtensionAmount = zero_xmlAmount, TaxExclusiveAmount = zero_xmlAmount,
      TaxInclusiveAmount = zero_xmlAmount, PayableAmount = zero_xmlAmount\<rparr>"

definition zero_xmlPostalAddress :: xmlPostalAddress where
  "zero_xmlPostalAddress =
     \<lparr>xmlPostalAddress.StreetName = [], xmlPostalAddress.CityName = [],
      xmlPostalAddress.PostalZone = [], Country = \<lparr>IdentificationCode = []\<rparr>\<rparr>"

definition zero_xmlParty :: xmlParty where
  "zero_xmlParty =
     \<lparr>EndpointID = \<lparr>xmlEndpointID.Value = [], SchemeID = []\<rparr>,
      PartyName = [],
      PostalAddress = zero_xmlPostalAddress,
      PartyTaxScheme = \<lparr>CompanyID = [], xmlPartyTaxScheme.TaxScheme = \<lparr>xmlTaxScheme.ID = []\<rparr>\<rparr>,
      RegistrationName = []\<rparr>"

definition zero_xmlPaymentMeans :: xmlPaymentMeans where
  "zero_xmlPaymentMeans =
     \<lparr>PaymentMeansCode = [],
      PayeeFinancialAccount =
        \<lparr>xmlFinancialAccount.ID = [],
         FinancialInstitutionBranch = \<lparr>xmlFinancialInstitutionBranch.ID = []\<rparr>\<rparr>\<rparr>"

definition zero_xmlDelivery :: xmlDelivery where
  "zero_xmlDelivery =
     \<lparr>xmlDelivery.ActualDeliveryDate = [],
      DeliveryLocation = \<lparr>Address = zero_xmlPostalAddress\<rparr>\<rparr>"

text \<open>
  The composite literals of a party: \<^verbatim>\<open>xmlParty{EndpointID: xmlEndpointID{Value:
  id[5:], SchemeID: id[0:4]}, PartyName: name, RegistrationName: name, PartyTaxScheme:
  ...}\<close>, with the postal address that the literal gives. The two slice expressions are
  evaluated in the order of the source and either can panic.
\<close>

definition party_literal ::
    "string \<Rightarrow> string \<Rightarrow> string \<Rightarrow> xmlPostalAddress \<Rightarrow> panic + xmlParty" where
  "party_literal peppolID name vat address =
     (case slice_from peppolID 5 of
        Inl p \<Rightarrow> Inl p
      | Inr endpointValue \<Rightarrow>
          (case slice_range peppolID 0 4 of
             Inl p \<Rightarrow> Inl p
           | Inr schemeID \<Rightarrow>
               Inr \<lparr>EndpointID = \<lparr>xmlEndpointID.Value = endpointValue, SchemeID = schemeID\<rparr>,
                    PartyName = name,
                    PostalAddress = address,
                    PartyTaxScheme =
                      \<lparr>CompanyID = vat, xmlPartyTaxScheme.TaxScheme = \<lparr>xmlTaxScheme.ID = ''VAT''\<rparr>\<rparr>,
                    RegistrationName = name\<rparr>))"

definition postal_address :: "Address \<Rightarrow> xmlPostalAddress" where
  "postal_address a =
     \<lparr>xmlPostalAddress.StreetName = Address.StreetName a,
      xmlPostalAddress.CityName = Address.CityName a,
      xmlPostalAddress.PostalZone = Address.PostalZone a,
      Country = \<lparr>IdentificationCode = CountryCode a\<rparr>\<rparr>"

text \<open>
  The delivery block: created from the delivery address when there is one, created
  empty when only the date is given, and the date set when there is one.
\<close>

definition delivery_block :: "env \<Rightarrow> Address option \<Rightarrow> gotime option \<Rightarrow> xmlDelivery option" where
  "delivery_block env deliveryAddress actualDeliveryDate =
     (let delivery =
            (case deliveryAddress of
               None \<Rightarrow> None
             | Some a \<Rightarrow>
                 Some \<lparr>xmlDelivery.ActualDeliveryDate = [],
                       DeliveryLocation = \<lparr>Address = postal_address a\<rparr>\<rparr>)
      in (case actualDeliveryDate of
            None \<Rightarrow> delivery
          | Some t \<Rightarrow>
              (let d = (case delivery of None \<Rightarrow> zero_xmlDelivery | Some d \<Rightarrow> d)
               in Some (d\<lparr>xmlDelivery.ActualDeliveryDate := formatDate env t\<rparr>))))"

definition invoice_period :: "env \<Rightarrow> gotime option \<Rightarrow> gotime option \<Rightarrow> xmlInvoicePeriod option" where
  "invoice_period env periodStart periodEnd =
     (case (periodStart, periodEnd) of
        (Some s, Some e) \<Rightarrow> Some \<lparr>StartDate = formatDate env s, EndDate = formatDate env e\<rparr>
      | _ \<Rightarrow> None)"

definition payment_means :: "string \<Rightarrow> string \<Rightarrow> xmlPaymentMeans" where
  "payment_means iban bic =
     \<lparr>PaymentMeansCode = ''1'',
      PayeeFinancialAccount =
        \<lparr>xmlFinancialAccount.ID = iban,
         FinancialInstitutionBranch = \<lparr>xmlFinancialInstitutionBranch.ID = bic\<rparr>\<rparr>\<rparr>"

text \<open>The two references that \<^verbatim>\<open>addAttachmentFromData\<close> stores; it returns a nil error.\<close>

definition document_references ::
    "string \<Rightarrow> string \<Rightarrow> string \<Rightarrow> string \<Rightarrow> string \<Rightarrow> xmlDocumentReference list" where
  "document_references docID encodedData mime filename description =
     [\<lparr>xmlDocumentReference.ID = ''UBL.BE'',
       DocumentDescription = ''CommercialInvoice'',
       Attachment = []\<rparr>,
      \<lparr>xmlDocumentReference.ID = docID,
       DocumentDescription = description,
       Attachment =
         [\<lparr>EmbeddedDocumentBinaryObject =
             \<lparr>xmlEmbeddedDocumentBinaryObject.Value = encodedData,
              MimeCode = mime, Filename = filename\<rparr>\<rparr>]\<rparr>]"

subsection \<open>Invoices\<close>

definition Invoice_addAttachmentFromData ::
    "Invoice \<Rightarrow> xmlInvoice \<Rightarrow> string \<Rightarrow> string \<Rightarrow> string \<Rightarrow> string \<Rightarrow> xmlInvoice \<times> go_error option" where
  "Invoice_addAttachmentFromData invoice x encodedData mime filename description =
     (x\<lparr>xmlInvoice.AdditionalDocumentReference :=
          document_references (Invoice.ID invoice) encodedData mime filename description\<rparr>,
      None)"

definition Invoice_addAttachmentFromFile ::
    "env \<Rightarrow> Invoice \<Rightarrow> xmlInvoice \<Rightarrow> string \<Rightarrow> string \<Rightarrow> xmlInvoice \<times> go_error option" where
  "Invoice_addAttachmentFromFile env invoice x filename description =
     (case readFile env filename of
        Inl err \<Rightarrow> (x, Some err)
      | Inr data \<Rightarrow>
          (let mime = detectContentType env data;
               encoded = encodeToString env data
           in Invoice_addAttachmentFromData invoice x encoded mime filename description))"

text \<open>
  \<^verbatim>\<open>Generate\<close> up to the call of \<^verbatim>\<open>addLines\<close>: the header, the parties (where the
  routing identifiers are sliced), the optional blocks and the payment section.
\<close>

definition Generate_head :: "env \<Rightarrow> Invoice \<Rightarrow> panic + xmlInvoice" where
  "Generate_head env invoice =
     (let x = \<lparr>xmlInvoice.Xmlns = ''urn:oasis:names:specification:ubl:schema:xsd:Invoice-2'',
               xmlInvoice.Cac =
                 ''urn:oasis:names:specification:ubl:schema:xsd:CommonAggregateComponents-2'',
               xmlInvoice.Cbc =
                 ''urn:oasis:names:specification:ubl:schema:xsd:CommonBasicComponents-2'',
               xmlInvoice.CustomizationID = Invoice.CustomizationID invoice,
               xmlInvoice.ProfileID = Invoice.ProfileID invoice,
               xmlInvoice.ID = Invoice.ID invoice,
               xmlInvoice.IssueDate = formatDate env (timeNow env 0),
               DueDate = formatDate env (addDate env (timeNow env 1) 0 0 30),
               InvoiceTypeCode = ''380'',
               xmlInvoice.DocumentCurrency = ''EUR'',
               BuyerReference = [],
               xmlInvoice.InvoicePeriod = None,
               xmlInvoice.OrderReference = Invoice.ID invoice,
               xmlInvoice.AdditionalDocumentReference = [],
               xmlInvoice.SupplierParty = \<lparr>xmlSupplierParty.Party = zero_xmlParty\<rparr>,
               xmlInvoice.CustomerParty = \<lparr>xmlCustomerParty.Party = zero_xmlParty\<rparr>,
               xmlInvoice.Delivery = None,
               xmlInvoice.PaymentMeans = zero_xmlPaymentMeans,
               xmlInvoice.PaymentTerms = \<lparr>xmlPaymentTerms.Note = []\<rparr>,
               xmlInvoice.TaxTotal = zero_xmlTaxTotal,
               xmlInvoice.LegalMonetaryTotal = zero_xmlMonetaryTotal,
               InvoiceLines = []\<rparr>;
          supplierVat = cleanVATIdentifier (Invoice.SupplierVat invoice)
                          (CountryCode (Invoice.SupplierAddress invoice));
          customerVat = cleanVATIdentifier (Invoice.CustomerVat invoice)
                          (CountryCode (Invoice.CustomerAddress invoice))
      in (case party_literal (Invoice.SupplierPeppolID invoice) (Invoice.SupplierName invoice)
                 supplierVat zero_xmlPostalAddress of
            Inl p \<Rightarrow> Inl p
          | Inr supplier \<Rightarrow>
              (let x = x\<lparr>xmlInvoice.SupplierParty := \<lparr>xmlSupplierParty.Party = supplier\<rparr>\<rparr>;
                   x = x\<lparr>xmlInvoice.SupplierParty :=
                          \<lparr>xmlSupplierParty.Party =
                             (xmlSupplierParty.Party (xmlInvoice.SupplierParty x))
                               \<lparr>PostalAddress := postal_address (Invoice.SupplierAddress invoice)\<rparr>\<rparr>\<rparr>;
                   x = x\<lparr>xmlInvoice.CustomerParty :=
                          \<lparr>xmlCustomerParty.Party =
                             (xmlCustomerParty.Party (xmlInvoice.CustomerParty x))
                               \<lparr>PostalAddress := postal_address (Invoice.CustomerAddress invoice)\<rparr>\<rparr>\<rparr>
               in (case party_literal (Invoice.CustomerPeppolID invoice)
                          (Invoice.CustomerName invoice) customerVat
                          (zero_xmlPostalAddress
                             \<lparr>Country := \<lparr>IdentificationCode =
                                            CountryCode (Invoice.CustomerAddress invoice)\<rparr>\<rparr>) of
                     Inl p \<Rightarrow> Inl p
                   | Inr customer \<Rightarrow>
                       (let x = x\<lparr>xmlInvoice.CustomerParty := \<lparr>xmlCustomerParty.Party = customer\<rparr>\<rparr>;
                            x = x\<lparr>xmlInvoice.Delivery :=
                                   delivery_block env (Invoice.DeliveryAddress invoice)
                                     (Invoice.ActualDeliveryDate invoice)\<rparr>;
                            x = x\<lparr>xmlInvoice.InvoicePeriod :=
                                   invoice_period env (Invoice.InvoicePeriodStart invoice)
                                     (Invoice.InvoicePeriodEnd invoice)\<rparr>;
                            x = x\<lparr>xmlInvoice.PaymentMeans :=
                                   payment_means (Invoice.Iban invoice) (Invoice.Bic invoice)\<rparr>;
                            x = (if Invoice.Note invoice \<noteq> []
                                 then x\<lparr>xmlInvoice.PaymentTerms :=
                                          \<lparr>xmlPaymentTerms.Note = Invoice.Note invoice\<rparr>\<rparr>
                                 else x)
                        in Inr x)))))"

text \<open>
  \<^verbatim>\<open>Generate\<close> after \<^verbatim>\<open>addLines\<close>: the attachment and the serialization. The result
  is the tree that \<^verbatim>\<open>inv.xml\<close> points to at the return and the pair that is returned:
  the bytes (\<open>None\<close> for nil) and the error (\<open>None\<close> for nil).
\<close>

definition Generate_tail ::
    "env \<Rightarrow> Invoice \<Rightarrow> xmlInvoice \<Rightarrow> xmlInvoice \<times> string option \<times> go_error option" where
  "Generate_tail env invoice x =
     (let (x, err) =
            (if PdfInvoiceFilename invoice \<noteq> [] \<and> PdfInvoiceData invoice = []
             then Invoice_addAttachmentFromFile env invoice x (PdfInvoiceFilename invoice) ''Invoice''
             else (x, None))
      in (case err of
            Some e \<Rightarrow> (x, None, Some (Wrapped ''add attachment failed'' e))
          | None \<Rightarrow>
              (let (x, err) =
                     (if PdfInvoiceData invoice \<noteq> []
                      then Invoice_addAttachmentFromData invoice x (PdfInvoiceData invoice)
                             ''application/pdf'' (PdfInvoiceFilename invoice)
                             (PdfInvoiceDescription invoice)
                      else (x, None))
               in (case err of
                     Some e \<Rightarrow> (x, None, Some (Wrapped ''add attachment from data'' e))
                   | None \<Rightarrow>
                       (case marshalIndentInvoice env x of
                          Inl e \<Rightarrow> (x, None, Some (Wrapped ''xml marshal failed'' e))
                        | Inr output \<Rightarrow> (x, Some (xml_Header @ output), None))))))"

definition Generate ::
    "env \<Rightarrow> Invoice \<Rightarrow> panic + xmlInvoice \<times> string option \<times> go_error option" where
  "Generate env invoice =
     (case Generate_head env invoice of
        Inl p \<Rightarrow> Inl p
      | Inr x \<Rightarrow>
          (case Invoice_addLines (mapRange env) invoice x of
             Inl p \<Rightarrow> Inl p
           | Inr x \<Rightarrow> Inr (Generate_tail env invoice x)))"

subsection \<open>Credit notes\<close>

definition CreditNote_addAttachmentFromData ::
    "CreditNote \<Rightarrow> xmlCreditNote \<Rightarrow> string \<Rightarrow> string \<Rightarrow> string \<Rightarrow> string
      \<Rightarrow> xmlCreditNote \<times> go_error option" where
  "CreditNote_addAttachmentFromData cn x encodedData mime filename description =
     (x\<lparr>xmlCreditNote.AdditionalDocumentReference :=
          document_references (CreditNote.ID cn) encodedData mime filename description\<rparr>,
      None)"

definition CreditNote_addAttachmentFromFile ::
    "env \<Rightarrow> CreditNote \<Rightarrow> xmlCreditNote \<Rightarrow> string \<Rightarrow> string \<Rightarrow> xmlCreditNote \<times> go_error option" where
  "CreditNote_addAttachmentFromFile env cn x filename description =
     (case readFile env filename of
        Inl err \<Rightarrow> (x, Some err)
      | Inr data \<Rightarrow>
          (let mime = detectContentType env data;
               encoded = encodeToString env data
           in CreditNote_addAttachmentFromData cn x encoded mime filename description))"

definition GenerateCreditNote_head :: "env \<Rightarrow> CreditNote \<Rightarrow> panic + xmlCreditNote" where
  "GenerateCreditNote_head env cn =
     (let x = \<lparr>xmlCreditNote.Xmlns = ''urn:oasis:names:specification:ubl:schema:xsd:CreditNote-2'',
               xmlCreditNote.Cac =
                 ''urn:oasis:names:specification:ubl:schema:xsd:CommonAggregateComponents-2'',
               xmlCreditNote.Cbc =
                 ''urn:oasis:names:specification:ubl:schema:xsd:CommonBasicComponents-2'',
               xmlCreditNote.CustomizationID = CreditNote.CustomizationID cn,
               xmlCreditNote.ProfileID = CreditNote.ProfileID cn,
               xmlCreditNote.ID = CreditNote.ID cn,
               xmlCreditNote.IssueDate = formatDate env (timeNow env 0),
               CreditNoteTypeCode = ''381'',
               xmlCreditNote.DocumentCurrency = ''EUR'',
               xmlCreditNote.InvoicePeriod = None,
               xmlCreditNote.OrderReference = CreditNote.ID cn,
               xmlCreditNote.AdditionalDocumentReference = [],
               xmlCreditNote.SupplierParty = \<lparr>xmlSupplierParty.Party = zero_xmlParty\<rparr>,
               xmlCreditNote.CustomerParty = \<lparr>xmlCustomerParty.Party = zero_xmlParty\<rparr>,
               xmlCreditNote.Delivery = None,
               xmlCreditNote.PaymentMeans = zero_xmlPaymentMeans,
               xmlCreditNote.PaymentTerms = \<lparr>xmlPaymentTerms.Note = []\<rparr>,
               xmlCreditNote.TaxTotal = zero_xmlTaxTotal,
               xmlCreditNote.LegalMonetaryTotal = zero_xmlMonetaryTotal,
               CreditNoteLines = []\<rparr>;
          supplierVat = cleanVATIdentifier (CreditNote.SupplierVat cn)
                          (CountryCode (CreditNote.SupplierAddress cn));
          customerVat = cleanVATIdentifier (CreditNote.CustomerVat cn)
                          (CountryCode (CreditNote.CustomerAddress cn))
      in (case party_literal (CreditNote.SupplierPeppolID cn) (CreditNote.SupplierName cn)
                 supplierVat zero_xmlPostalAddress of
            Inl p \<Rightarrow> Inl p
          | Inr supplier \<Rightarrow>
              (let x = x\<lparr>xmlCreditNote.SupplierParty := \<lparr>xmlSupplierParty.Party = supplier\<rparr>\<rparr>;
                   x = x\<lparr>xmlCreditNote.SupplierParty :=
                          \<lparr>xmlSupplierParty.Party =
                             (xmlSupplierParty.Party (xmlCreditNote.SupplierParty x))
                               \<lparr>PostalAddress := postal_address (CreditNote.SupplierAddress cn)\<rparr>\<rparr>\<rparr>;
                   x = x\<lparr>xmlCreditNote.CustomerParty :=
                          \<lparr>xmlCustomerParty.Party =
                             (xmlCustomerParty.Party (xmlCreditNote.CustomerParty x))
                               \<lparr>PostalAddress := postal_address (CreditNote.CustomerAddress cn)\<rparr>\<rparr>\<rparr>
               in (case party_literal (CreditNote.CustomerPeppolID cn)
                          (CreditNote.CustomerName cn) customerVat
                          (zero_xmlPostalAddress
                             \<lparr>Country := \<lparr>IdentificationCode =
                                            CountryCode (CreditNote.CustomerAddress cn)\<rparr>\<rparr>) of
                     Inl p \<Rightarrow> Inl p
                   | Inr customer \<Rightarrow>
                       (let x = x\<lparr>xmlCreditNote.CustomerParty := \<lparr>xmlCustomerParty.Party = customer\<rparr>\<rparr>;
                            x = x\<lparr>xmlCreditNote.Delivery :=
                                   delivery_block env (CreditNote.DeliveryAddress cn)
                                     (CreditNote.ActualDeliveryDate cn)\<rparr>;
                            x = x\<lparr>xmlCreditNote.InvoicePeriod :=
                                   invoice_period env (CreditNote.InvoicePeriodStart cn)
                                     (CreditNote.InvoicePeriodEnd cn)\<rparr>;
                            x = x\<lparr>xmlCreditNote.PaymentMeans :=
                                   payment_means (CreditNote.Iban cn) (CreditNote.Bic cn)\<rparr>;
                            x = (if CreditNote.Note cn \<noteq> []
                                 then x\<lparr>xmlCreditNote.PaymentTerms :=
                                          \<lparr>xmlPaymentTerms.Note = CreditNote.Note cn\<rparr>\<rparr>
                                 else x)
                        in Inr x)))))"

definition GenerateCreditNote_tail ::
    "env \<Rightarrow> CreditNote \<Rightarrow> xmlCreditNote \<Rightarrow> xmlCreditNote \<times> string option \<times> go_error option" where
  "GenerateCreditNote_tail env cn x =
     (let (x, err) =
            (if PdfCreditNoteFilename cn \<noteq> [] \<and> PdfCreditNoteData cn = []
             then CreditNote_addAttachmentFromFile env cn x (PdfCreditNoteFilename cn) ''CreditNote''
             else (x, None))
      in (case err of
            Some e \<Rightarrow> (x, None, Some (Wrapped ''add attachment failed'' e))
          | None \<Rightarrow>
              (let (x, err) =
                     (if PdfCreditNoteData cn \<noteq> []
                      then CreditNote_addAttachmentFromData cn x (PdfCreditNoteData cn)
                             ''application/pdf'' (PdfCreditNoteFilename cn)
                             (PdfCreditNoteDescription cn)
                      else (x, None))
               in (case err of
                     Some e \<Rightarrow> (x, None, Some (Wrapped ''add attachment from data'' e))
                   | None \<Rightarrow>
                       (case marshalIndentCreditNote env x of
                          Inl e \<Rightarrow> (x, None, Some (Wrapped ''xml marshal failed'' e))
                        | Inr output \<Rightarrow> (x, Some (xml_Header @ output), None))))))"

definition GenerateCreditNote ::
    "env \<Rightarrow> CreditNote \<Rightarrow> panic + xmlCreditNote \<times> string option \<times> go_error option" where
  "GenerateCreditNote env cn =
     (case GenerateCreditNote_head env cn of
        Inl p \<Rightarrow> Inl p
      | Inr x \<Rightarrow>
          (case CreditNote_addLines (mapRange env) cn x of
             Inl p \<Rightarrow> Inl p
           | Inr x \<Rightarrow> Inr (GenerateCreditNote_tail env cn x)))"

section \<open>Notions used in the statements\<close>

text \<open>
  The key under which the aggregator files a line, and the amounts it adds for it: the
  components of \<open>calculateTaxTotals_line\<close>.
\<close>

definition line_key :: "InvoiceLine \<Rightarrow> taxKey" where
  "line_key line =
     (let (lineAmount, categoryID, categoryName, taxRate, tax) = calculateTaxTotals_line line
      in \<lparr>Rate = taxRate, CategoryID = categoryID\<rparr>)"

definition line_amount :: "InvoiceLine \<Rightarrow> float64" where
  "line_amount line = fst (calculateTaxTotals_line line)"

definition line_tax :: "InvoiceLine \<Rightarrow> float64" where
  "line_tax line = snd (snd (snd (snd (calculateTaxTotals_line line))))"

definition line_category_name :: "InvoiceLine \<Rightarrow> string" where
  "line_category_name line = fst (snd (snd (calculateTaxTotals_line line)))"

text \<open>The key that a subtotal of the output shows: the rate and the code of its category.\<close>

definition subtotal_key :: "xmlTaxSubtotal \<Rightarrow> taxKey" where
  "subtotal_key st =
     \<lparr>Rate = Percent (TaxCategory st), CategoryID = xmlTaxCategory.ID (TaxCategory st)\<rparr>"

text \<open>
  The float64 sum of a sequence of amounts as a Go loop accumulates it: from the zero
  value, one \<^verbatim>\<open>+=\<close> per element, front to back.
\<close>

definition f64_sum :: "float64 list \<Rightarrow> float64" where
  "f64_sum xs = foldl f64_add f64_zero xs"

text \<open>The lines that the aggregator files under the key \<open>k\<close>, in their order.\<close>

definition lines_of_key :: "taxKey \<Rightarrow> InvoiceLine list \<Rightarrow> InvoiceLine list" where
  "lines_of_key k lines = filter (\<lambda>line. taxKey_eq k (line_key line)) lines"

text \<open>No two elements of a sequence of subtotals show keys that Go holds equal.\<close>

definition unique_keys :: "xmlTaxSubtotal list \<Rightarrow> bool" where
  "unique_keys sts =
     (\<forall>i < length sts. \<forall>j < length sts.
        i \<noteq> j \<longrightarrow> \<not> taxKey_eq (subtotal_key (sts ! i)) (subtotal_key (sts ! j)))"

text \<open>
  A line makes the aggregator panic when its effective rate is NaN: the summary that is
  stored under such a key is not found again, and the nil that the lookup gives is
  dereferenced.
\<close>

definition nan_rate :: "InvoiceLine \<Rightarrow> bool" where
  "nan_rate line = (Rate (line_key line) = NaN)"

text \<open>
  The effect of one iteration of the first loop on the map, for a line whose key is
  \<open>k\<close>, whose amount is \<open>a\<close>, whose tax is \<open>t\<close> and whose category name is \<open>n\<close>; and
  the map after a sequence of lines. The loop is shown below to compute them.
\<close>

fun summaries_add :: "summaries \<Rightarrow> taxKey \<Rightarrow> float64 \<Rightarrow> float64 \<Rightarrow> string \<Rightarrow> summaries" where
  "summaries_add [] k a t n =
     [(k, \<lparr>key = k, taxable = f64_add f64_zero a, tax = f64_add f64_zero t, catName = n\<rparr>)]"
| "summaries_add ((k', s) # m) k a t n =
     (if taxKey_eq k' k
      then (k', s\<lparr>taxable := f64_add (taxSummary.taxable s) a,
                   tax := f64_add (taxSummary.tax s) t\<rparr>) # m
      else (k', s) # summaries_add m k a t n)"

fun summaries_after :: "InvoiceLine list \<Rightarrow> summaries \<Rightarrow> summaries" where
  "summaries_after [] m = m"
| "summaries_after (l # ls) m =
     summaries_after ls
       (summaries_add m (line_key l) (line_amount l) (line_tax l) (line_category_name l))"

text \<open>The summary that the lines \<open>ls\<close> give for the key \<open>k\<close>.\<close>

definition summary_of :: "InvoiceLine list \<Rightarrow> taxKey \<Rightarrow> taxSummary" where
  "summary_of ls k =
     \<lparr>key = k,
      taxable = f64_sum (map line_amount (lines_of_key k ls)),
      tax = f64_sum (map line_tax (lines_of_key k ls)),
      catName = line_category_name (hd (lines_of_key k ls))\<rparr>"

text \<open>
  The invariant of the first loop, for the lines \<open>ls\<close> processed so far: the keys of the
  map are pairwise unequal for Go, every key is the key of the first line filed under
  it and holds the summary of its lines, and every line has its key in the map.
\<close>

definition agg_inv :: "InvoiceLine list \<Rightarrow> summaries \<Rightarrow> bool" where
  "agg_inv ls m =
     (distinct (map fst m) \<and>
      (\<forall>e \<in> set m. \<forall>e' \<in> set m. taxKey_eq (fst e) (fst e') \<longrightarrow> fst e = fst e') \<and>
      (\<forall>e \<in> set m. lines_of_key (fst e) ls \<noteq> [] \<and>
                     fst e = line_key (hd (lines_of_key (fst e) ls)) \<and>
                     snd e = summary_of ls (fst e)) \<and>
      (\<forall>l \<in> set ls. \<exists>e \<in> set m. taxKey_eq (fst e) (line_key l)))"

text \<open>The five amounts of the monetary section of a document, for the statements below:
  line extension, tax exclusive, tax total, tax inclusive, payable.\<close>

definition invoice_totals :: "xmlInvoice \<Rightarrow> float64 \<times> float64 \<times> float64 \<times> float64 \<times> float64" where
  "invoice_totals x =
     (xmlAmount.Value (xmlMonetaryTotal.LineExtensionAmount (xmlInvoice.LegalMonetaryTotal x)),
      xmlAmount.Value (TaxExclusiveAmount (xmlInvoice.LegalMonetaryTotal x)),
      xmlAmount.Value (xmlTaxTotal.TaxAmount (xmlInvoice.TaxTotal x)),
      xmlAmount.Value (TaxInclusiveAmount (xmlInvoice.LegalMonetaryTotal x)),
      xmlAmount.Value (PayableAmount (xmlInvoice.LegalMonetaryTotal x)))"

definition creditnote_totals ::
    "xmlCreditNote \<Rightarrow> float64 \<times> float64 \<times> float64 \<times> float64 \<times> float64" where
  "creditnote_totals x =
     (xmlAmount.Value (xmlMonetaryTotal.LineExtensionAmount (xmlCreditNote.LegalMonetaryTotal x)),
      xmlAmount.Value (TaxExclusiveAmount (xmlCreditNote.LegalMonetaryTotal x)),
      xmlAmount.Value (xmlTaxTotal.TaxAmount (xmlCreditNote.TaxTotal x)),
      xmlAmount.Value (TaxInclusiveAmount (xmlCreditNote.LegalMonetaryTotal x)),
      xmlAmount.Value (PayableAmount (xmlCreditNote.LegalMonetaryTotal x)))"

text \<open>
  The float64 sums of the taxable amounts and of the tax amounts of a sequence of
  subtotals, added up in the order of the sequence.
\<close>

definition sum_taxable :: "xmlTaxSubtotal list \<Rightarrow> float64" where
  "sum_taxable sts = f64_sum (map (\<lambda>st. xmlAmount.Value (TaxableAmount st)) sts)"

definition sum_tax :: "xmlTaxSubtotal list \<Rightarrow> float64" where
  "sum_tax sts = f64_sum (map (\<lambda>st. xmlAmount.Value (xmlTaxSubtotal.TaxAmount st)) sts)"

text \<open>All the lines have one key, for Go's equality of keys.\<close>

definition single_key :: "InvoiceLine list \<Rightarrow> bool" where
  "single_key lines =
     (lines \<noteq> [] \<and> (\<forall>line \<in> set lines. taxKey_eq (line_key (hd lines)) (line_key line)))"

text \<open>
  The outcome of an aggregation with the order of the subtotals forgotten: the subtotals
  as a multiset.
\<close>

definition unordered ::
    "panic + float64 \<times> float64 \<times> xmlTaxSubtotal list \<Rightarrow>
     panic + float64 \<times> float64 \<times> xmlTaxSubtotal multiset" where
  "unordered r =
     (case r of
        Inl p \<Rightarrow> Inl p
      | Inr (lineTotal, taxTotal, subtotals) \<Rightarrow> Inr (lineTotal, taxTotal, mset subtotals))"

text \<open>A float64 that is neither an infinity nor NaN.\<close>

fun is_finite :: "float64 \<Rightarrow> bool" where
  "is_finite (Finite s m) = True"
| "is_finite x = False"

text \<open>
  What a tax category of the output shows for the line \<open>line\<close> of category \<open>K\<close>: the
  code \<open>K\<close>, the rate 0, and the exemption code and text of the line, or the default
  ones where the line leaves them empty.
\<close>

definition intra_community_category :: "InvoiceLine \<Rightarrow> xmlTaxCategory \<Rightarrow> bool" where
  "intra_community_category line cat =
     (xmlTaxCategory.ID cat = ''K'' \<and> Percent cat = f64_zero \<and>
      TaxExemptionReasonCode cat =
        (if TaxExemptionCode line \<noteq> [] then TaxExemptionCode line else ''VATEX-EU-IC'') \<and>
      xmlTaxCategory.TaxExemptionReason cat =
        (if InvoiceLine.TaxExemptionReason line \<noteq> [] then InvoiceLine.TaxExemptionReason line
         else ''Intra-community supply''))"

text \<open>
  What the subtotal of the lines of category \<open>K\<close> shows: the key of rate 0 and code
  \<open>K\<close>, an exemption code and an exemption text, and, when the amounts of the lines
  of category \<open>K\<close> are all finite, a tax amount that Go holds equal to 0.
\<close>

definition intra_community_subtotal :: "InvoiceLine list \<Rightarrow> xmlTaxSubtotal \<Rightarrow> bool" where
  "intra_community_subtotal lines st =
     (subtotal_key st = \<lparr>Rate = f64_zero, CategoryID = ''K''\<rparr> \<and>
      TaxExemptionReasonCode (TaxCategory st) \<noteq> [] \<and>
      xmlTaxCategory.TaxExemptionReason (TaxCategory st) \<noteq> [] \<and>
      ((\<forall>l \<in> set lines. CategoryID (line_key l) = ''K'' \<longrightarrow> is_finite (line_amount l)) \<longrightarrow>
         f64_eq (xmlAmount.Value (xmlTaxSubtotal.TaxAmount st)) f64_zero))"

section \<open>Example documents\<close>

text \<open>
  The invoice of the package's test, with its four lines, and an environment in which
  the attachment of the test can be read and no other file can. \<open>lit q\<close> is the float64
  that the Go literal \<open>q\<close> denotes.
\<close>

definition example_line :: "rat \<Rightarrow> rat \<Rightarrow> rat \<Rightarrow> string \<Rightarrow> string \<Rightarrow> InvoiceLine" where
  "example_line quantity price percentage categoryID categoryName =
     \<lparr>Quantity = lit quantity, Price = lit price, TaxPercentage = lit percentage,
      TaxCategoryID = categoryID, TaxCategoryName = categoryName,
      TaxExemptionReason = [], TaxExemptionCode = [],
      Name = ''Product'', Description = ''Item''\<rparr>"

definition example_lines :: "InvoiceLine list" where
  "example_lines =
     [example_line 10 100 21 ''S'' [], example_line 5 50 6 ''S'' [],
      example_line 2 200 0 ''Z'' [], example_line 1 500 0 ''E'' []]"

definition example_invoice :: Invoice where
  "example_invoice =
     \<lparr>Invoice.ID = ''INV-12345'',
      Invoice.CustomizationID = [],
      Invoice.ProfileID = [],
      Invoice.SupplierName = ''ABC Supplies Ltd'',
      Invoice.SupplierVat = ''BE0123456789'',
      Invoice.SupplierPeppolID = ''9925:BE0123456789'',
      Invoice.SupplierAddress =
        \<lparr>Address.StreetName = ''123 Supplier Street'', Address.CityName = ''Supplier City'',
         Address.PostalZone = ''12345'', CountryCode = ''BE''\<rparr>,
      Invoice.CustomerName = ''XYZ Corp'',
      Invoice.CustomerVat = ''BE9876543210'',
      Invoice.CustomerPeppolID = ''9925:BE9876543210'',
      Invoice.CustomerAddress =
        \<lparr>Address.StreetName = ''789 Customer Avenue'', Address.CityName = ''Customer Town'',
         Address.PostalZone = ''67890'', CountryCode = ''BE''\<rparr>,
      Invoice.DeliveryAddress = None,
      Invoice.ActualDeliveryDate = None,
      Invoice.InvoicePeriodStart = None,
      Invoice.InvoicePeriodEnd = None,
      Invoice.Iban = ''9999999999'',
      Invoice.Bic = ''GEBABEBB'',
      Invoice.Note = ''You get a free sticker when you pay fast'',
      Invoice.Lines = example_lines,
      PdfInvoiceFilename = ''invoice_test.pdf'',
      PdfInvoiceData = [],
      PdfInvoiceDescription = []\<rparr>"

definition example_creditnote :: CreditNote where
  "example_creditnote =
     \<lparr>CreditNote.ID = ''CN-12345'',
      CreditNote.CustomizationID = [],
      CreditNote.ProfileID = [],
      CreditNote.SupplierName = ''ABC Supplies Ltd'',
      CreditNote.SupplierVat = ''BE0123456789'',
      CreditNote.SupplierPeppolID = ''9925:BE0123456789'',
      CreditNote.SupplierAddress =
        \<lparr>Address.StreetName = ''123 Supplier Street'', Address.CityName = ''Supplier City'',
         Address.PostalZone = ''12345'', CountryCode = ''BE''\<rparr>,
      CreditNote.CustomerName = ''XYZ Corp'',
      CreditNote.CustomerVat = ''BE9876543210'',
      CreditNote.CustomerPeppolID = ''9925:BE9876543210'',
      CreditNote.CustomerAddress =
        \<lparr>Address.StreetName = ''789 Customer Avenue'', Address.CityName = ''Customer Town'',
         Address.PostalZone = ''67890'', CountryCode = ''BE''\<rparr>,
      CreditNote.DeliveryAddress = None,
      CreditNote.ActualDeliveryDate = None,
      CreditNote.InvoicePeriodStart = None,
      CreditNote.InvoicePeriodEnd = None,
      CreditNote.Iban = ''9999999999'',
      CreditNote.Bic = ''GEBABEBB'',
      CreditNote.Note = [],
      CreditNote.Lines = example_lines,
      PdfCreditNoteFilename = [],
      PdfCreditNoteData = [],
      PdfCreditNoteDescription = []\<rparr>"

definition example_env :: env where
  "example_env =
     \<lparr>timeNow = (\<lambda>n. \<lparr>unixNano = 1760000000000000000, location = ''UTC''\<rparr>),
      formatDate = (\<lambda>t. if unixNano t = 1760000000000000000 then ''2025-10-09'' else ''2025-11-08''),
      addDate = (\<lambda>t years months days. t\<lparr>unixNano := unixNano t + 86400000000000 * days\<rparr>),
      readFile =
        (\<lambda>name. if name = ''invoice_test.pdf'' then Inr ''%PDF-1.4''
                else Inl (OsError ''open: no such file or directory'')),
      detectContentType = (\<lambda>data. ''application/pdf''),
      encodeToString = (\<lambda>data. ''JVBERi0xLjQ=''),
      marshalIndentInvoice = (\<lambda>x. Inr ''<Invoice></Invoice>''),
      marshalIndentCreditNote = (\<lambda>x. Inr ''<CreditNote></CreditNote>''),
      mapRange = (\<lambda>m. m)\<rparr>"

text \<open>
  A line of category \<open>K\<close> with a stated rate of 19; two lines of one key with different
  category names; three lines of two keys whose amounts are not dyadic.
\<close>

definition intra_community_line :: InvoiceLine where
  "intra_community_line = example_line 1 20 19 ''K'' ''Intra-EU supply''"

definition renamed_lines :: "InvoiceLine list" where
  "renamed_lines =
     [example_line 10 100 21 ''S'' ''Standard rated'', example_line 5 50 21 ''S'' ''Normal rate'']"

definition drifting_lines :: "InvoiceLine list" where
  "drifting_lines =
     [example_line 1 (1 / 10) 21 ''S'' [], example_line 1 (7 / 10) 6 ''S'' [],
      example_line 1 (3 / 10) 21 ''S'' []]"

text \<open>
  The subtotals of these documents, written out, in the order in which their keys first
  occur among the lines. None is of category \<open>K\<close>, so none has an exemption reason.
\<close>

definition example_subtotal ::
    "float64 \<Rightarrow> float64 \<Rightarrow> string \<Rightarrow> string \<Rightarrow> float64 \<Rightarrow> xmlTaxSubtotal" where
  "example_subtotal taxableAmount taxAmount categoryID categoryName rate =
     \<lparr>TaxableAmount = \<lparr>xmlAmount.Value = taxableAmount, CurrencyID = ''EUR''\<rparr>,
      xmlTaxSubtotal.TaxAmount = \<lparr>xmlAmount.Value = taxAmount, CurrencyID = ''EUR''\<rparr>,
      TaxCategory =
        \<lparr>xmlTaxCategory.ID = categoryID, xmlTaxCategory.Name = categoryName, Percent = rate,
         TaxExemptionReasonCode = [], TaxExemptionReason = [],
         xmlTaxCategory.TaxScheme = \<lparr>xmlTaxScheme.ID = ''VAT''\<rparr>\<rparr>\<rparr>"

definition example_subtotals :: "xmlTaxSubtotal list" where
  "example_subtotals =
     [example_subtotal (Finite False 1000) (Finite False 210) ''S'' ''Standard rated'' (Finite False 21),
      example_subtotal (Finite False 250) (Finite False 15) ''S'' ''Standard rated'' (Finite False 6),
      example_subtotal (Finite False 400) (Finite False 0) ''Z'' ''Standard rated'' (Finite False 0),
      example_subtotal (Finite False 500) (Finite False 0) ''E'' ''Standard rated'' (Finite False 0)]"

definition renamed_subtotals :: "xmlTaxSubtotal list" where
  "renamed_subtotals =
     [example_subtotal (Finite False 1250) (Finite False (525 / 2)) ''S'' ''Standard rated''
        (Finite False 21)]"

definition drifting_subtotals :: "xmlTaxSubtotal list" where
  "drifting_subtotals =
     [example_subtotal (Finite False (3602879701896397 / 9007199254740992))
        (Finite False (5764607523034235 / 72057594037927936)) ''S'' ''Standard rated''
        (Finite False 21),
      example_subtotal (Finite False (3152519739159347 / 4503599627370496))
        (Finite False (5764607523034235 / 144115188075855872)) ''S'' ''Standard rated''
        (Finite False 6)]"

text \<open>
  The subtotal of the line of category \<open>K\<close>, and that line with an exemption code and
  text of its own.
\<close>

definition intra_community_subtotals :: "xmlTaxSubtotal list" where
  "intra_community_subtotals =
     [\<lparr>TaxableAmount = \<lparr>xmlAmount.Value = Finite False 20, CurrencyID = ''EUR''\<rparr>,
       xmlTaxSubtotal.TaxAmount = \<lparr>xmlAmount.Value = Finite False 0, CurrencyID = ''EUR''\<rparr>,
       TaxCategory =
         \<lparr>xmlTaxCategory.ID = ''K'', xmlTaxCategory.Name = ''Intra-EU supply'',
          Percent = Finite False 0,
          TaxExemptionReasonCode = ''VATEX-EU-IC'',
          TaxExemptionReason = ''Intra-community supply'',
          xmlTaxCategory.TaxScheme = \<lparr>xmlTaxScheme.ID = ''VAT''\<rparr>\<rparr>\<rparr>]"

definition overridden_line :: InvoiceLine where
  "overridden_line =
     intra_community_line\<lparr>TaxExemptionCode := ''VATEX-EU-O'',
                            InvoiceLine.TaxExemptionReason := ''Not subject to VAT''\<rparr>"

text \<open>
  One line of \<open>2 ^ 53\<close> in category \<open>Z\<close> followed by four lines of 1 in category \<open>S\<close>, all
  at 100 per cent, and the two subtotals of these lines; three lines of 1, 10 and 3 at
  10, 7 and 10 per cent, and their two subtotals; and a line of category \<open>K\<close> whose
  quantity and price are \<^verbatim>\<open>1e200\<close>.
\<close>

definition towering_lines :: "InvoiceLine list" where
  "towering_lines =
     [example_line 1 (2 ^ 53) 100 ''Z'' [], example_line 1 1 100 ''S'' [],
      example_line 1 1 100 ''S'' [], example_line 1 1 100 ''S'' [],
      example_line 1 1 100 ''S'' []]"

definition towering_subtotals :: "xmlTaxSubtotal list" where
  "towering_subtotals =
     [example_subtotal (Finite False 9007199254740992) (Finite False 9007199254740992) ''Z''
        ''Standard rated'' (Finite False 100),
      example_subtotal (Finite False 4) (Finite False 4) ''S'' ''Standard rated''
        (Finite False 100)]"

definition taxdrift_lines :: "InvoiceLine list" where
  "taxdrift_lines =
     [example_line 1 1 10 ''S'' [], example_line 1 10 7 ''S'' [], example_line 1 3 10 ''S'' []]"

definition taxdrift_subtotals :: "xmlTaxSubtotal list" where
  "taxdrift_subtotals =
     [example_subtotal (Finite False 4) (Finite False (3602879701896397 / 9007199254740992))
        ''S'' ''Standard rated'' (Finite False 10),
      example_subtotal (Finite False 10) (Finite False (3152519739159347 / 4503599627370496))
        ''S'' ''Standard rated'' (Finite False 7)]"

definition overflow_line :: InvoiceLine where
  "overflow_line = example_line (10 ^ 200) (10 ^ 200) 19 ''K'' ''Intra-EU supply''"

section \<open>Properties of float64\<close>

lemma pow2_powi: "pow2 e = 2 powi e"
  by (simp add: pow2_def power_int_def field_simps)

lemma pow2_pos: "0 < pow2 e"
  by (simp add: pow2_powi zero_less_power_int)

lemma pow2_add: "pow2 (a + b) = pow2 a * pow2 b"
  by (simp add: pow2_powi power_int_add)

lemma pow2_mono: "a \<le> b \<Longrightarrow> pow2 a \<le> pow2 b"
  by (simp add: pow2_powi power_int_increasing)

lemma pow2_strict_mono: "a < b \<Longrightarrow> pow2 a < pow2 b"
  by (simp add: pow2_powi power_int_strict_increasing)

lemma pow2_nat: "pow2 (int n) = 2 ^ n"
  by (simp add: pow2_def)

lemma pow2_unique:
  assumes "pow2 e \<le> m" "m < pow2 (e + 1)" "pow2 e' \<le> m" "m < pow2 (e' + 1)"
  shows "e = e'"
proof (rule ccontr)
  assume "e \<noteq> e'"
  then consider "e + 1 \<le> e'" | "e' + 1 \<le> e" by linarith
  then show False
  proof cases
    case 1
    then have "pow2 (e + 1) \<le> pow2 e'" by (rule pow2_mono)
    with assms show False by linarith
  next
    case 2
    then have "pow2 (e' + 1) \<le> pow2 e" by (rule pow2_mono)
    with assms show False by linarith
  qed
qed

lemma bitlen_pow2_bounds:
  assumes "0 < n"
  shows "pow2 (bitlen n - 1) \<le> of_int n" and "of_int n < pow2 (bitlen n)"
proof -
  from assms have b: "1 \<le> bitlen n" by (auto simp: bitlen_alt_def)
  from bitlen_bounds [OF assms] have l: "2 ^ nat (bitlen n - 1) \<le> n" and u: "n < 2 ^ nat (bitlen n)"
    by auto
  from l have "(of_int (2 ^ nat (bitlen n - 1)) :: rat) \<le> of_int n"
    by (simp only: of_int_le_iff)
  with b show "pow2 (bitlen n - 1) \<le> of_int n"
    by (simp add: pow2_def)
  from u have "(of_int n :: rat) < of_int (2 ^ nat (bitlen n))"
    by (simp only: of_int_less_iff)
  with b show "of_int n < pow2 (bitlen n)"
    by (simp add: pow2_def)
qed

lemma floor_log2_bounds:
  assumes "0 < m"
  shows "pow2 (floor_log2 m) \<le> m \<and> m < pow2 (floor_log2 m + 1)"
proof -
  obtain n d where q: "quotient_of m = (n, d)" by (cases "quotient_of m") auto
  then have d: "0 < d" and m: "m = of_int n / of_int d"
    using quotient_of_denom_pos quotient_of_div by auto
  from assms d m have n: "0 < n"
    by (simp add: zero_less_divide_iff)
  define E where "E = bitlen n - bitlen d"
  note bn = bitlen_pow2_bounds [OF n] and bd = bitlen_pow2_bounds [OF d]
  have dpos: "(0::rat) < of_int d" using d by simp
  have "m < pow2 (bitlen n) / pow2 (bitlen d - 1)"
  proof -
    have "m < pow2 (bitlen n) / of_int d"
      unfolding m using bn(2) dpos by (simp add: divide_strict_right_mono)
    also have "\<dots> \<le> pow2 (bitlen n) / pow2 (bitlen d - 1)"
      using bd(1) pow2_pos [of "bitlen n"] pow2_pos [of "bitlen d - 1"]
      by (simp add: frac_le)
    finally show ?thesis .
  qed
  also have "\<dots> = pow2 (E + 1)"
    using pow2_add [of "E + 1" "bitlen d - 1"] pow2_pos [of "bitlen d - 1"]
    by (simp add: E_def field_simps)
  finally have up: "m < pow2 (E + 1)" .
  have "pow2 (E - 1) = pow2 (bitlen n - 1) / pow2 (bitlen d)"
    using pow2_add [of "E - 1" "bitlen d"] pow2_pos [of "bitlen d"]
    by (simp add: E_def field_simps)
  also have "\<dots> \<le> of_int n / pow2 (bitlen d)"
    using bn(1) pow2_pos [of "bitlen d"] by (simp add: divide_right_mono)
  also have "\<dots> < m"
    unfolding m using bd(2) n dpos by (simp add: divide_strict_left_mono)
  finally have lo: "pow2 (E - 1) < m" .
  have fl: "floor_log2 m = (if pow2 E \<le> m then E else E - 1)"
    by (simp add: floor_log2_def q E_def Let_def)
  show ?thesis
  proof (cases "pow2 E \<le> m")
    case True
    with up fl show ?thesis by simp
  next
    case False
    with lo fl show ?thesis by simp
  qed
qed

lemma floor_log2_eq:
  assumes "pow2 e \<le> m" "m < pow2 (e + 1)"
  shows "floor_log2 m = e"
proof -
  from assms(1) pow2_pos [of e] have "0 < m" by linarith
  from floor_log2_bounds [OF this] assms show ?thesis
    using pow2_unique by blast
qed

lemma round_half_even_eq:
  assumes "2 * \<bar>q - of_int k\<bar> < 1 \<or> (2 * \<bar>q - of_int k\<bar> = 1 \<and> even k)"
  shows "round_half_even q = k"
proof (cases "of_int k \<le> q")
  case True
  with assms have "q < of_int k + 1" by auto
  with True have f: "\<lfloor>q\<rfloor> = k" by (intro floor_unique) auto
  from assms True have "2 * (q - of_int k) < 1 \<or> (2 * (q - of_int k) = 1 \<and> even k)"
    by auto
  then show ?thesis
    by (auto simp: round_half_even_def f Let_def)
next
  case False
  with assms have "of_int (k - 1) \<le> q" "q < of_int (k - 1) + 1" by auto
  then have f: "\<lfloor>q\<rfloor> = k - 1" by (intro floor_unique)
  from assms False have "2 * (of_int k - q) < 1 \<or> (2 * (of_int k - q) = 1 \<and> even k)"
    by auto
  then show ?thesis
    by (auto simp: round_half_even_def f Let_def)
qed

lemma to_binary64_normal:
  assumes "pow2 e \<le> m" and "m < pow2 (e + 1)" and "- 1022 \<le> e" and "e < 1023"
    and "2 * \<bar>m / pow2 (e - 52) - of_int k\<bar> < 1 \<or>
         (2 * \<bar>m / pow2 (e - 52) - of_int k\<bar> = 1 \<and> even k)"
  shows "to_binary64 s m = Finite s (of_int k * pow2 (e - 52))"
proof -
  from assms(1) pow2_pos [of e] have m: "0 < m" by linarith
  have e: "floor_log2 m = e" using assms(1,2) by (rule floor_log2_eq)
  have k: "round_half_even (m / pow2 (e - 52)) = k" using assms(5) by (rule round_half_even_eq)
  have u: "0 < pow2 (e - 52)" by (rule pow2_pos)
  have "m / pow2 (e - 52) < pow2 53"
  proof -
    have "pow2 (e + 1) = pow2 53 * pow2 (e - 52)"
      using pow2_add [of 53 "e - 52"] by (simp add: algebra_simps)
    with assms(2) u show ?thesis by (simp add: pos_divide_less_eq)
  qed
  moreover have "pow2 53 = of_int (2 ^ 53)" by (simp add: pow2_def)
  ultimately have "m / pow2 (e - 52) < of_int (2 ^ 53)" by simp
  with assms(5) have "(of_int k :: rat) < of_int (2 ^ 53) + 1" by (auto simp: abs_if split: if_splits)
  then have "(of_int k :: rat) < of_int (2 ^ 53 + 1)" by simp
  then have "k < 2 ^ 53 + 1" by (simp only: of_int_less_iff)
  then have "(of_int k :: rat) \<le> of_int (2 ^ 53)" by (simp only: of_int_le_iff)
  then have "(of_int k :: rat) \<le> pow2 53" by (simp add: pow2_def)
  then have "of_int k * pow2 (e - 52) \<le> pow2 53 * pow2 (e - 52)"
    using u by (simp add: mult_right_mono)
  also have "\<dots> = pow2 (e + 1)"
    using pow2_add [of 53 "e - 52"] by (simp add: algebra_simps)
  also have "\<dots> < pow2 1024"
    using assms(4) by (intro pow2_strict_mono) simp
  finally have "\<not> pow2 1024 \<le> of_int k * pow2 (e - 52)" by simp
  with m e k assms(3) show ?thesis
    by (simp add: to_binary64_def Let_def max_def)
qed

lemma to_binary64_zero: "to_binary64 s 0 = Finite s 0"
  by (simp add: to_binary64_def)

lemma math_Round_eq:
  assumes "of_int k \<le> m + 1 / 2" and "m + 1 / 2 < of_int k + 1"
  shows "math_Round (Finite s m) = Finite s (of_int k)"
  using assms by (simp add: floor_unique)

declare math_Round.simps [simp del] f64_add.simps [simp del] f64_mul.simps [simp del]
  f64_div.simps [simp del]

lemma lit_0: "lit 0 = f64_zero"
  by (simp add: lit_def to_binary64_zero f64_zero_def)

lemma to_binary64_not_NaN: "to_binary64 s m \<noteq> NaN"
  by (simp add: to_binary64_def Let_def)

lemma lit_not_NaN: "lit q \<noteq> NaN"
  by (simp add: lit_def to_binary64_not_NaN)

subsection \<open>The float64 operations of the example documents\<close>

text \<open>
  The operations that the example documents perform, each with the exponent and the
  integer significand of its rounded result.
\<close>

lemma lit_100: "lit 100 = (Finite False 100)"
  by (simp add: lit_def to_binary64_normal [where e = 6 and k = 7036874417766400] pow2_def)

lemma lit_10: "lit 10 = (Finite False 10)"
  by (simp add: lit_def to_binary64_normal [where e = 3 and k = 5629499534213120] pow2_def)

lemma lit_21: "lit 21 = (Finite False 21)"
  by (simp add: lit_def to_binary64_normal [where e = 4 and k = 5910974510923776] pow2_def)

lemma mul_1: "f64_mul (Finite False 10) (Finite False 100) = (Finite False 1000)"
  by (simp add: f64_mul.simps to_binary64_normal [where e = 9 and k = 8796093022208000] pow2_def)

lemma mul_2: "f64_mul (Finite False 1000) (Finite False 100) = (Finite False 100000)"
  by (simp add: f64_mul.simps to_binary64_normal [where e = 16 and k = 6871947673600000] pow2_def)

lemma Round_3: "math_Round (Finite False 100000) = (Finite False 100000)"
  by (simp add: math_Round_eq [where k = 100000])

lemma div_4: "f64_div (Finite False 100000) (Finite False 100) = (Finite False 1000)"
  by (simp add: f64_div.simps to_binary64_normal [where e = 9 and k = 8796093022208000] pow2_def)

lemma mul_5: "f64_mul (Finite False 1000) (Finite False 21) = (Finite False 21000)"
  by (simp add: f64_mul.simps to_binary64_normal [where e = 14 and k = 5772436045824000] pow2_def)

lemma div_6: "f64_div (Finite False 21000) (Finite False 100) = (Finite False 210)"
  by (simp add: f64_div.simps to_binary64_normal [where e = 7 and k = 7388718138654720] pow2_def)

lemma mul_7: "f64_mul (Finite False 210) (Finite False 100) = (Finite False 21000)"
  by (simp add: f64_mul.simps to_binary64_normal [where e = 14 and k = 5772436045824000] pow2_def)

lemma Round_8: "math_Round (Finite False 21000) = (Finite False 21000)"
  by (simp add: math_Round_eq [where k = 21000])

lemma lit_5: "lit 5 = (Finite False 5)"
  by (simp add: lit_def to_binary64_normal [where e = 2 and k = 5629499534213120] pow2_def)

lemma lit_50: "lit 50 = (Finite False 50)"
  by (simp add: lit_def to_binary64_normal [where e = 5 and k = 7036874417766400] pow2_def)

lemma lit_6: "lit 6 = (Finite False 6)"
  by (simp add: lit_def to_binary64_normal [where e = 2 and k = 6755399441055744] pow2_def)

lemma mul_15: "f64_mul (Finite False 5) (Finite False 50) = (Finite False 250)"
  by (simp add: f64_mul.simps to_binary64_normal [where e = 7 and k = 8796093022208000] pow2_def)

lemma mul_16: "f64_mul (Finite False 250) (Finite False 100) = (Finite False 25000)"
  by (simp add: f64_mul.simps to_binary64_normal [where e = 14 and k = 6871947673600000] pow2_def)

lemma Round_17: "math_Round (Finite False 25000) = (Finite False 25000)"
  by (simp add: math_Round_eq [where k = 25000])

lemma div_18: "f64_div (Finite False 25000) (Finite False 100) = (Finite False 250)"
  by (simp add: f64_div.simps to_binary64_normal [where e = 7 and k = 8796093022208000] pow2_def)

lemma mul_19: "f64_mul (Finite False 250) (Finite False 6) = (Finite False 1500)"
  by (simp add: f64_mul.simps to_binary64_normal [where e = 10 and k = 6597069766656000] pow2_def)

lemma div_20: "f64_div (Finite False 1500) (Finite False 100) = (Finite False 15)"
  by (simp add: f64_div.simps to_binary64_normal [where e = 3 and k = 8444249301319680] pow2_def)

lemma mul_21: "f64_mul (Finite False 15) (Finite False 100) = (Finite False 1500)"
  by (simp add: f64_mul.simps to_binary64_normal [where e = 10 and k = 6597069766656000] pow2_def)

lemma Round_22: "math_Round (Finite False 1500) = (Finite False 1500)"
  by (simp add: math_Round_eq [where k = 1500])

lemma lit_2: "lit 2 = (Finite False 2)"
  by (simp add: lit_def to_binary64_normal [where e = 1 and k = 4503599627370496] pow2_def)

lemma lit_200: "lit 200 = (Finite False 200)"
  by (simp add: lit_def to_binary64_normal [where e = 7 and k = 7036874417766400] pow2_def)

lemma mul_29: "f64_mul (Finite False 2) (Finite False 200) = (Finite False 400)"
  by (simp add: f64_mul.simps to_binary64_normal [where e = 8 and k = 7036874417766400] pow2_def)

lemma mul_30: "f64_mul (Finite False 400) (Finite False 100) = (Finite False 40000)"
  by (simp add: f64_mul.simps to_binary64_normal [where e = 15 and k = 5497558138880000] pow2_def)

lemma Round_31: "math_Round (Finite False 40000) = (Finite False 40000)"
  by (simp add: math_Round_eq [where k = 40000])

lemma div_32: "f64_div (Finite False 40000) (Finite False 100) = (Finite False 400)"
  by (simp add: f64_div.simps to_binary64_normal [where e = 8 and k = 7036874417766400] pow2_def)

lemma mul_33: "f64_mul (Finite False 400) (Finite False 0) = (Finite False 0)"
  by (simp add: f64_mul.simps to_binary64_zero)

lemma div_34: "f64_div (Finite False 0) (Finite False 100) = (Finite False 0)"
  by (simp add: f64_div.simps to_binary64_zero)

lemma mul_35: "f64_mul (Finite False 0) (Finite False 100) = (Finite False 0)"
  by (simp add: f64_mul.simps to_binary64_zero)

lemma Round_36: "math_Round (Finite False 0) = (Finite False 0)"
  by (simp add: math_Round_eq [where k = 0])

lemma lit_1: "lit 1 = (Finite False 1)"
  by (simp add: lit_def to_binary64_normal [where e = 0 and k = 4503599627370496] pow2_def)

lemma lit_500: "lit 500 = (Finite False 500)"
  by (simp add: lit_def to_binary64_normal [where e = 8 and k = 8796093022208000] pow2_def)

lemma mul_43: "f64_mul (Finite False 1) (Finite False 500) = (Finite False 500)"
  by (simp add: f64_mul.simps to_binary64_normal [where e = 8 and k = 8796093022208000] pow2_def)

lemma mul_44: "f64_mul (Finite False 500) (Finite False 100) = (Finite False 50000)"
  by (simp add: f64_mul.simps to_binary64_normal [where e = 15 and k = 6871947673600000] pow2_def)

lemma Round_45: "math_Round (Finite False 50000) = (Finite False 50000)"
  by (simp add: math_Round_eq [where k = 50000])

lemma div_46: "f64_div (Finite False 50000) (Finite False 100) = (Finite False 500)"
  by (simp add: f64_div.simps to_binary64_normal [where e = 8 and k = 8796093022208000] pow2_def)

lemma mul_47: "f64_mul (Finite False 500) (Finite False 0) = (Finite False 0)"
  by (simp add: f64_mul.simps to_binary64_zero)

lemma add_57: "f64_add (Finite False 0) (Finite False 1000) = (Finite False 1000)"
  by (simp add: f64_add.simps signed_def to_binary64_normal [where e = 9 and k = 8796093022208000] pow2_def)

lemma add_58: "f64_add (Finite False 1000) (Finite False 250) = (Finite False 1250)"
  by (simp add: f64_add.simps signed_def to_binary64_normal [where e = 10 and k = 5497558138880000] pow2_def)

lemma add_59: "f64_add (Finite False 1250) (Finite False 400) = (Finite False 1650)"
  by (simp add: f64_add.simps signed_def to_binary64_normal [where e = 10 and k = 7256776743321600] pow2_def)

lemma add_60: "f64_add (Finite False 1650) (Finite False 500) = (Finite False 2150)"
  by (simp add: f64_add.simps signed_def to_binary64_normal [where e = 11 and k = 4727899999436800] pow2_def)

lemma add_61: "f64_add (Finite False 0) (Finite False 210) = (Finite False 210)"
  by (simp add: f64_add.simps signed_def to_binary64_normal [where e = 7 and k = 7388718138654720] pow2_def)

lemma add_62: "f64_add (Finite False 210) (Finite False 15) = (Finite False 225)"
  by (simp add: f64_add.simps signed_def to_binary64_normal [where e = 7 and k = 7916483719987200] pow2_def)

lemma add_63: "f64_add (Finite False 225) (Finite False 0) = (Finite False 225)"
  by (simp add: f64_add.simps signed_def to_binary64_normal [where e = 7 and k = 7916483719987200] pow2_def)

lemma add_67: "f64_add (Finite False 0) (Finite False 250) = (Finite False 250)"
  by (simp add: f64_add.simps signed_def to_binary64_normal [where e = 7 and k = 8796093022208000] pow2_def)

lemma add_68: "f64_add (Finite False 0) (Finite False 15) = (Finite False 15)"
  by (simp add: f64_add.simps signed_def to_binary64_normal [where e = 3 and k = 8444249301319680] pow2_def)

lemma add_69: "f64_add (Finite False 0) (Finite False 400) = (Finite False 400)"
  by (simp add: f64_add.simps signed_def to_binary64_normal [where e = 8 and k = 7036874417766400] pow2_def)

lemma add_70: "f64_add (Finite False 0) (Finite False 0) = (Finite False 0)"
  by (simp add: f64_add.simps signed_def to_binary64_zero)

lemma add_71: "f64_add (Finite False 0) (Finite False 500) = (Finite False 500)"
  by (simp add: f64_add.simps signed_def to_binary64_normal [where e = 8 and k = 8796093022208000] pow2_def)

lemma add_73: "f64_add (Finite False 2150) (Finite False 225) = (Finite False 2375)"
  by (simp add: f64_add.simps signed_def to_binary64_normal [where e = 11 and k = 5222680231936000] pow2_def)

lemma mul_74: "f64_mul (Finite False 2375) (Finite False 100) = (Finite False 237500)"
  by (simp add: f64_mul.simps to_binary64_normal [where e = 17 and k = 8160437862400000] pow2_def)

lemma Round_75: "math_Round (Finite False 237500) = (Finite False 237500)"
  by (simp add: math_Round_eq [where k = 237500])

lemma div_76: "f64_div (Finite False 237500) (Finite False 100) = (Finite False 2375)"
  by (simp add: f64_div.simps to_binary64_normal [where e = 11 and k = 5222680231936000] pow2_def)

lemma add_86: "f64_add (Finite False 500) (Finite False 400) = (Finite False 900)"
  by (simp add: f64_add.simps signed_def to_binary64_normal [where e = 9 and k = 7916483719987200] pow2_def)

lemma add_87: "f64_add (Finite False 900) (Finite False 250) = (Finite False 1150)"
  by (simp add: f64_add.simps signed_def to_binary64_normal [where e = 10 and k = 5057753487769600] pow2_def)

lemma add_88: "f64_add (Finite False 1150) (Finite False 1000) = (Finite False 2150)"
  by (simp add: f64_add.simps signed_def to_binary64_normal [where e = 11 and k = 4727899999436800] pow2_def)

lemma add_92: "f64_add (Finite False 15) (Finite False 210) = (Finite False 225)"
  by (simp add: f64_add.simps signed_def to_binary64_normal [where e = 7 and k = 7916483719987200] pow2_def)

lemma mul_111: "f64_mul (Finite False 250) (Finite False 21) = (Finite False 5250)"
  by (simp add: f64_mul.simps to_binary64_normal [where e = 12 and k = 5772436045824000] pow2_def)

lemma div_112: "f64_div (Finite False 5250) (Finite False 100) = (Finite False (105 / 2))"
  by (simp add: f64_div.simps to_binary64_normal [where e = 5 and k = 7388718138654720] pow2_def)

lemma mul_113: "f64_mul (Finite False (105 / 2)) (Finite False 100) = (Finite False 5250)"
  by (simp add: f64_mul.simps to_binary64_normal [where e = 12 and k = 5772436045824000] pow2_def)

lemma Round_114: "math_Round (Finite False 5250) = (Finite False 5250)"
  by (simp add: math_Round_eq [where k = 5250])

lemma add_124: "f64_add (Finite False 210) (Finite False (105 / 2)) = (Finite False (525 / 2))"
  by (simp add: f64_add.simps signed_def to_binary64_normal [where e = 8 and k = 4617948836659200] pow2_def)

lemma add_129: "f64_add (Finite False 1250) (Finite False (525 / 2)) = (Finite False (3025 / 2))"
  by (simp add: f64_add.simps signed_def to_binary64_normal [where e = 10 and k = 6652045348044800] pow2_def)

lemma mul_130: "f64_mul (Finite False (3025 / 2)) (Finite False 100) = (Finite False 151250)"
  by (simp add: f64_mul.simps to_binary64_normal [where e = 17 and k = 5196910428160000] pow2_def)

lemma Round_131: "math_Round (Finite False 151250) = (Finite False 151250)"
  by (simp add: math_Round_eq [where k = 151250])

lemma div_132: "f64_div (Finite False 151250) (Finite False 100) = (Finite False (3025 / 2))"
  by (simp add: f64_div.simps to_binary64_normal [where e = 10 and k = 6652045348044800] pow2_def)

lemma add_133: "f64_add (Finite False 0) (Finite False 1250) = (Finite False 1250)"
  by (simp add: f64_add.simps signed_def to_binary64_normal [where e = 10 and k = 5497558138880000] pow2_def)

lemma add_134: "f64_add (Finite False 0) (Finite False (525 / 2)) = (Finite False (525 / 2))"
  by (simp add: f64_add.simps signed_def to_binary64_normal [where e = 8 and k = 4617948836659200] pow2_def)

lemma lit_20: "lit 20 = (Finite False 20)"
  by (simp add: lit_def to_binary64_normal [where e = 4 and k = 5629499534213120] pow2_def)

lemma lit_19: "lit 19 = (Finite False 19)"
  by (simp add: lit_def to_binary64_normal [where e = 4 and k = 5348024557502464] pow2_def)

lemma mul_137: "f64_mul (Finite False 1) (Finite False 20) = (Finite False 20)"
  by (simp add: f64_mul.simps to_binary64_normal [where e = 4 and k = 5629499534213120] pow2_def)

lemma mul_138: "f64_mul (Finite False 20) (Finite False 100) = (Finite False 2000)"
  by (simp add: f64_mul.simps to_binary64_normal [where e = 10 and k = 8796093022208000] pow2_def)

lemma Round_139: "math_Round (Finite False 2000) = (Finite False 2000)"
  by (simp add: math_Round_eq [where k = 2000])

lemma div_140: "f64_div (Finite False 2000) (Finite False 100) = (Finite False 20)"
  by (simp add: f64_div.simps to_binary64_normal [where e = 4 and k = 5629499534213120] pow2_def)

lemma mul_141: "f64_mul (Finite False 20) (Finite False 0) = (Finite False 0)"
  by (simp add: f64_mul.simps to_binary64_zero)

lemma mul_146: "f64_mul (Finite False 20) (Finite False 19) = (Finite False 380)"
  by (simp add: f64_mul.simps to_binary64_normal [where e = 8 and k = 6685030696878080] pow2_def)

lemma div_147: "f64_div (Finite False 380) (Finite False 100) = (Finite False (4278419646001971 / 1125899906842624))"
  by (simp add: f64_div.simps to_binary64_normal [where e = 1 and k = 8556839292003942] pow2_def)

lemma mul_148: "f64_mul (Finite False (4278419646001971 / 1125899906842624)) (Finite False 100) = (Finite False 380)"
  by (simp add: f64_mul.simps to_binary64_normal [where e = 8 and k = 6685030696878080] pow2_def)

lemma Round_149: "math_Round (Finite False 380) = (Finite False 380)"
  by (simp add: math_Round_eq [where k = 380])

lemma add_151: "f64_add (Finite False 0) (Finite False 20) = (Finite False 20)"
  by (simp add: f64_add.simps signed_def to_binary64_normal [where e = 4 and k = 5629499534213120] pow2_def)

lemma add_155: "f64_add (Finite False 20) (Finite False 0) = (Finite False 20)"
  by (simp add: f64_add.simps signed_def to_binary64_normal [where e = 4 and k = 5629499534213120] pow2_def)

lemma lit_1_10: "lit (1 / 10) = (Finite False (3602879701896397 / 36028797018963968))"
  by (simp add: lit_def to_binary64_normal [where e = "- 4" and k = 7205759403792794] pow2_def)

lemma mul_163: "f64_mul (Finite False 1) (Finite False (3602879701896397 / 36028797018963968)) = (Finite False (3602879701896397 / 36028797018963968))"
  by (simp add: f64_mul.simps to_binary64_normal [where e = "- 4" and k = 7205759403792794] pow2_def)

lemma mul_164: "f64_mul (Finite False (3602879701896397 / 36028797018963968)) (Finite False 100) = (Finite False 10)"
  by (simp add: f64_mul.simps to_binary64_normal [where e = 3 and k = 5629499534213120] pow2_def)

lemma Round_165: "math_Round (Finite False 10) = (Finite False 10)"
  by (simp add: math_Round_eq [where k = 10])

lemma div_166: "f64_div (Finite False 10) (Finite False 100) = (Finite False (3602879701896397 / 36028797018963968))"
  by (simp add: f64_div.simps to_binary64_normal [where e = "- 4" and k = 7205759403792794] pow2_def)

lemma mul_167: "f64_mul (Finite False (3602879701896397 / 36028797018963968)) (Finite False 21) = (Finite False (4728779608739021 / 2251799813685248))"
  by (simp add: f64_mul.simps to_binary64_normal [where e = 1 and k = 4728779608739021] pow2_def)

lemma div_168: "f64_div (Finite False (4728779608739021 / 2251799813685248)) (Finite False 100) = (Finite False (6052837899185947 / 288230376151711744))"
  by (simp add: f64_div.simps to_binary64_normal [where e = "- 6" and k = 6052837899185947] pow2_def)

lemma mul_169: "f64_mul (Finite False (6052837899185947 / 288230376151711744)) (Finite False 100) = (Finite False (4728779608739021 / 2251799813685248))"
  by (simp add: f64_mul.simps to_binary64_normal [where e = 1 and k = 4728779608739021] pow2_def)

lemma Round_170: "math_Round (Finite False (4728779608739021 / 2251799813685248)) = (Finite False 2)"
  by (simp add: math_Round_eq [where k = 2])

lemma div_171: "f64_div (Finite False 2) (Finite False 100) = (Finite False (5764607523034235 / 288230376151711744))"
  by (simp add: f64_div.simps to_binary64_normal [where e = "- 6" and k = 5764607523034235] pow2_def)

lemma lit_7_10: "lit (7 / 10) = (Finite False (3152519739159347 / 4503599627370496))"
  by (simp add: lit_def to_binary64_normal [where e = "- 1" and k = 6305039478318694] pow2_def)

lemma mul_177: "f64_mul (Finite False 1) (Finite False (3152519739159347 / 4503599627370496)) = (Finite False (3152519739159347 / 4503599627370496))"
  by (simp add: f64_mul.simps to_binary64_normal [where e = "- 1" and k = 6305039478318694] pow2_def)

lemma mul_178: "f64_mul (Finite False (3152519739159347 / 4503599627370496)) (Finite False 100) = (Finite False 70)"
  by (simp add: f64_mul.simps to_binary64_normal [where e = 6 and k = 4925812092436480] pow2_def)

lemma Round_179: "math_Round (Finite False 70) = (Finite False 70)"
  by (simp add: math_Round_eq [where k = 70])

lemma div_180: "f64_div (Finite False 70) (Finite False 100) = (Finite False (3152519739159347 / 4503599627370496))"
  by (simp add: f64_div.simps to_binary64_normal [where e = "- 1" and k = 6305039478318694] pow2_def)

lemma mul_181: "f64_mul (Finite False (3152519739159347 / 4503599627370496)) (Finite False 6) = (Finite False (1182194902184755 / 281474976710656))"
  by (simp add: f64_mul.simps to_binary64_normal [where e = 2 and k = 4728779608739020] pow2_def)

lemma div_182: "f64_div (Finite False (1182194902184755 / 281474976710656)) (Finite False 100) = (Finite False (3026418949592973 / 72057594037927936))"
  by (simp add: f64_div.simps to_binary64_normal [where e = "- 5" and k = 6052837899185946] pow2_def)

lemma mul_183: "f64_mul (Finite False (3026418949592973 / 72057594037927936)) (Finite False 100) = (Finite False (1182194902184755 / 281474976710656))"
  by (simp add: f64_mul.simps to_binary64_normal [where e = 2 and k = 4728779608739020] pow2_def)

lemma Round_184: "math_Round (Finite False (1182194902184755 / 281474976710656)) = (Finite False 4)"
  by (simp add: math_Round_eq [where k = 4])

lemma div_185: "f64_div (Finite False 4) (Finite False 100) = (Finite False (5764607523034235 / 144115188075855872))"
  by (simp add: f64_div.simps to_binary64_normal [where e = "- 5" and k = 5764607523034235] pow2_def)

lemma lit_3_10: "lit (3 / 10) = (Finite False (5404319552844595 / 18014398509481984))"
  by (simp add: lit_def to_binary64_normal [where e = "- 2" and k = 5404319552844595] pow2_def)

lemma mul_191: "f64_mul (Finite False 1) (Finite False (5404319552844595 / 18014398509481984)) = (Finite False (5404319552844595 / 18014398509481984))"
  by (simp add: f64_mul.simps to_binary64_normal [where e = "- 2" and k = 5404319552844595] pow2_def)

lemma mul_192: "f64_mul (Finite False (5404319552844595 / 18014398509481984)) (Finite False 100) = (Finite False 30)"
  by (simp add: f64_mul.simps to_binary64_normal [where e = 4 and k = 8444249301319680] pow2_def)

lemma Round_193: "math_Round (Finite False 30) = (Finite False 30)"
  by (simp add: math_Round_eq [where k = 30])

lemma div_194: "f64_div (Finite False 30) (Finite False 100) = (Finite False (5404319552844595 / 18014398509481984))"
  by (simp add: f64_div.simps to_binary64_normal [where e = "- 2" and k = 5404319552844595] pow2_def)

lemma mul_195: "f64_mul (Finite False (5404319552844595 / 18014398509481984)) (Finite False 21) = (Finite False (7093169413108531 / 1125899906842624))"
  by (simp add: f64_mul.simps to_binary64_normal [where e = 2 and k = 7093169413108531] pow2_def)

lemma div_196: "f64_div (Finite False (7093169413108531 / 1125899906842624)) (Finite False 100) = (Finite False (1134907106097365 / 18014398509481984))"
  by (simp add: f64_div.simps to_binary64_normal [where e = "- 4" and k = 4539628424389460] pow2_def)

lemma mul_197: "f64_mul (Finite False (1134907106097365 / 18014398509481984)) (Finite False 100) = (Finite False (7093169413108531 / 1125899906842624))"
  by (simp add: f64_mul.simps to_binary64_normal [where e = 2 and k = 7093169413108531] pow2_def)

lemma Round_198: "math_Round (Finite False (7093169413108531 / 1125899906842624)) = (Finite False 6)"
  by (simp add: math_Round_eq [where k = 6])

lemma div_199: "f64_div (Finite False 6) (Finite False 100) = (Finite False (1080863910568919 / 18014398509481984))"
  by (simp add: f64_div.simps to_binary64_normal [where e = "- 5" and k = 8646911284551352] pow2_def)

lemma add_205: "f64_add (Finite False 0) (Finite False (3602879701896397 / 36028797018963968)) = (Finite False (3602879701896397 / 36028797018963968))"
  by (simp add: f64_add.simps signed_def to_binary64_normal [where e = "- 4" and k = 7205759403792794] pow2_def)

lemma add_206: "f64_add (Finite False (3602879701896397 / 36028797018963968)) (Finite False (3152519739159347 / 4503599627370496)) = (Finite False (7205759403792793 / 9007199254740992))"
  by (simp add: f64_add.simps signed_def to_binary64_normal [where e = "- 1" and k = 7205759403792793] pow2_def)

lemma add_207: "f64_add (Finite False (7205759403792793 / 9007199254740992)) (Finite False (5404319552844595 / 18014398509481984)) = (Finite False (4953959590107545 / 4503599627370496))"
  by (simp add: f64_add.simps signed_def to_binary64_normal [where e = 0 and k = 4953959590107545] pow2_def)

lemma add_208: "f64_add (Finite False 0) (Finite False (5764607523034235 / 288230376151711744)) = (Finite False (5764607523034235 / 288230376151711744))"
  by (simp add: f64_add.simps signed_def to_binary64_normal [where e = "- 6" and k = 5764607523034235] pow2_def)

lemma add_209: "f64_add (Finite False (5764607523034235 / 288230376151711744)) (Finite False (5764607523034235 / 144115188075855872)) = (Finite False (1080863910568919 / 18014398509481984))"
  by (simp add: f64_add.simps signed_def to_binary64_normal [where e = "- 5" and k = 8646911284551352] pow2_def)

lemma add_210: "f64_add (Finite False (1080863910568919 / 18014398509481984)) (Finite False (1080863910568919 / 18014398509481984)) = (Finite False (1080863910568919 / 9007199254740992))"
  by (simp add: f64_add.simps signed_def to_binary64_normal [where e = "- 4" and k = 8646911284551352] pow2_def)

lemma add_212: "f64_add (Finite False (3602879701896397 / 36028797018963968)) (Finite False (5404319552844595 / 18014398509481984)) = (Finite False (3602879701896397 / 9007199254740992))"
  by (simp add: f64_add.simps signed_def to_binary64_normal [where e = "- 2" and k = 7205759403792794] pow2_def)

lemma add_214: "f64_add (Finite False (5764607523034235 / 288230376151711744)) (Finite False (1080863910568919 / 18014398509481984)) = (Finite False (5764607523034235 / 72057594037927936))"
  by (simp add: f64_add.simps signed_def to_binary64_normal [where e = "- 4" and k = 5764607523034235] pow2_def)

lemma add_215: "f64_add (Finite False 0) (Finite False (3152519739159347 / 4503599627370496)) = (Finite False (3152519739159347 / 4503599627370496))"
  by (simp add: f64_add.simps signed_def to_binary64_normal [where e = "- 1" and k = 6305039478318694] pow2_def)

lemma add_216: "f64_add (Finite False 0) (Finite False (5764607523034235 / 144115188075855872)) = (Finite False (5764607523034235 / 144115188075855872))"
  by (simp add: f64_add.simps signed_def to_binary64_normal [where e = "- 5" and k = 5764607523034235] pow2_def)

lemma add_217: "f64_add (Finite False (4953959590107545 / 4503599627370496)) (Finite False (1080863910568919 / 9007199254740992)) = (Finite False (1373597886348001 / 1125899906842624))"
  by (simp add: f64_add.simps signed_def to_binary64_normal [where e = 0 and k = 5494391545392004] pow2_def)

lemma mul_218: "f64_mul (Finite False (1373597886348001 / 1125899906842624)) (Finite False 100) = (Finite False (4292493394837503 / 35184372088832))"
  by (simp add: f64_mul.simps to_binary64_normal [where e = 6 and k = 8584986789675006] pow2_def)

lemma Round_219: "math_Round (Finite False (4292493394837503 / 35184372088832)) = (Finite False 122)"
  by (simp add: math_Round_eq [where k = 122])

lemma div_220: "f64_div (Finite False 122) (Finite False 100) = (Finite False (5494391545392005 / 4503599627370496))"
  by (simp add: f64_div.simps to_binary64_normal [where e = 0 and k = 5494391545392005] pow2_def)

lemma add_221: "f64_add (Finite False 0) (Finite False (3602879701896397 / 9007199254740992)) = (Finite False (3602879701896397 / 9007199254740992))"
  by (simp add: f64_add.simps signed_def to_binary64_normal [where e = "- 2" and k = 7205759403792794] pow2_def)

lemma add_222: "f64_add (Finite False (3602879701896397 / 9007199254740992)) (Finite False (3152519739159347 / 4503599627370496)) = (Finite False (2476979795053773 / 2251799813685248))"
  by (simp add: f64_add.simps signed_def to_binary64_normal [where e = 0 and k = 4953959590107546] pow2_def)

lemma add_223: "f64_add (Finite False 0) (Finite False (5764607523034235 / 72057594037927936)) = (Finite False (5764607523034235 / 72057594037927936))"
  by (simp add: f64_add.simps signed_def to_binary64_normal [where e = "- 4" and k = 5764607523034235] pow2_def)

lemma add_224: "f64_add (Finite False (5764607523034235 / 72057594037927936)) (Finite False (5764607523034235 / 144115188075855872)) = (Finite False (1080863910568919 / 9007199254740992))"
  by (simp add: f64_add.simps signed_def to_binary64_normal [where e = "- 4" and k = 8646911284551352] pow2_def)

lemma add_226: "f64_add (Finite False (3152519739159347 / 4503599627370496)) (Finite False (3602879701896397 / 9007199254740992)) = (Finite False (2476979795053773 / 2251799813685248))"
  by (simp add: f64_add.simps signed_def to_binary64_normal [where e = 0 and k = 4953959590107546] pow2_def)

lemma add_228: "f64_add (Finite False (5764607523034235 / 144115188075855872)) (Finite False (5764607523034235 / 72057594037927936)) = (Finite False (1080863910568919 / 9007199254740992))"
  by (simp add: f64_add.simps signed_def to_binary64_normal [where e = "- 4" and k = 8646911284551352] pow2_def)

lemma lit_9007199254740992: "lit 9007199254740992 = (Finite False 9007199254740992)"
  by (simp add: lit_def to_binary64_normal [where e = 53 and k = 4503599627370496] pow2_def)

lemma mul_229: "f64_mul (Finite False 1) (Finite False 9007199254740992) = (Finite False 9007199254740992)"
  by (simp add: f64_mul.simps to_binary64_normal [where e = 53 and k = 4503599627370496] pow2_def)

lemma mul_230: "f64_mul (Finite False 9007199254740992) (Finite False 100) = (Finite False 900719925474099200)"
  by (simp add: f64_mul.simps to_binary64_normal [where e = 59 and k = 7036874417766400] pow2_def)

lemma Round_231: "math_Round (Finite False 900719925474099200) = (Finite False 900719925474099200)"
  by (simp add: math_Round_eq [where k = 900719925474099200])

lemma div_232: "f64_div (Finite False 900719925474099200) (Finite False 100) = (Finite False 9007199254740992)"
  by (simp add: f64_div.simps to_binary64_normal [where e = 53 and k = 4503599627370496] pow2_def)

lemma mul_243: "f64_mul (Finite False 1) (Finite False 1) = (Finite False 1)"
  by (simp add: f64_mul.simps to_binary64_normal [where e = 0 and k = 4503599627370496] pow2_def)

lemma mul_244: "f64_mul (Finite False 1) (Finite False 100) = (Finite False 100)"
  by (simp add: f64_mul.simps to_binary64_normal [where e = 6 and k = 7036874417766400] pow2_def)

lemma Round_245: "math_Round (Finite False 100) = (Finite False 100)"
  by (simp add: math_Round_eq [where k = 100])

lemma div_246: "f64_div (Finite False 100) (Finite False 100) = (Finite False 1)"
  by (simp add: f64_div.simps to_binary64_normal [where e = 0 and k = 4503599627370496] pow2_def)

lemma add_299: "f64_add (Finite False 0) (Finite False 9007199254740992) = (Finite False 9007199254740992)"
  by (simp add: f64_add.simps signed_def to_binary64_normal [where e = 53 and k = 4503599627370496] pow2_def)

lemma add_300: "f64_add (Finite False 9007199254740992) (Finite False 1) = (Finite False 9007199254740992)"
  by (simp add: f64_add.simps signed_def to_binary64_normal [where e = 53 and k = 4503599627370496] pow2_def)

lemma add_311: "f64_add (Finite False 0) (Finite False 1) = (Finite False 1)"
  by (simp add: f64_add.simps signed_def to_binary64_normal [where e = 0 and k = 4503599627370496] pow2_def)

lemma add_312: "f64_add (Finite False 1) (Finite False 1) = (Finite False 2)"
  by (simp add: f64_add.simps signed_def to_binary64_normal [where e = 1 and k = 4503599627370496] pow2_def)

lemma add_313: "f64_add (Finite False 2) (Finite False 1) = (Finite False 3)"
  by (simp add: f64_add.simps signed_def to_binary64_normal [where e = 1 and k = 6755399441055744] pow2_def)

lemma add_314: "f64_add (Finite False 3) (Finite False 1) = (Finite False 4)"
  by (simp add: f64_add.simps signed_def to_binary64_normal [where e = 2 and k = 4503599627370496] pow2_def)

lemma add_319: "f64_add (Finite False 9007199254740992) (Finite False 9007199254740992) = (Finite False 18014398509481984)"
  by (simp add: f64_add.simps signed_def to_binary64_normal [where e = 54 and k = 4503599627370496] pow2_def)

lemma mul_320: "f64_mul (Finite False 18014398509481984) (Finite False 100) = (Finite False 1801439850948198400)"
  by (simp add: f64_mul.simps to_binary64_normal [where e = 60 and k = 7036874417766400] pow2_def)

lemma Round_321: "math_Round (Finite False 1801439850948198400) = (Finite False 1801439850948198400)"
  by (simp add: math_Round_eq [where k = 1801439850948198400])

lemma div_322: "f64_div (Finite False 1801439850948198400) (Finite False 100) = (Finite False 18014398509481984)"
  by (simp add: f64_div.simps to_binary64_normal [where e = 54 and k = 4503599627370496] pow2_def)

lemma add_324: "f64_add (Finite False 9007199254740992) (Finite False 4) = (Finite False 9007199254740996)"
  by (simp add: f64_add.simps signed_def to_binary64_normal [where e = 53 and k = 4503599627370498] pow2_def)

lemma add_327: "f64_add (Finite False 0) (Finite False 4) = (Finite False 4)"
  by (simp add: f64_add.simps signed_def to_binary64_normal [where e = 2 and k = 4503599627370496] pow2_def)

lemma add_328: "f64_add (Finite False 4) (Finite False 9007199254740992) = (Finite False 9007199254740996)"
  by (simp add: f64_add.simps signed_def to_binary64_normal [where e = 53 and k = 4503599627370498] pow2_def)

lemma mul_335: "f64_mul (Finite False 1) (Finite False 10) = (Finite False 10)"
  by (simp add: f64_mul.simps to_binary64_normal [where e = 3 and k = 5629499534213120] pow2_def)

lemma lit_7: "lit 7 = (Finite False 7)"
  by (simp add: lit_def to_binary64_normal [where e = 2 and k = 7881299347898368] pow2_def)

lemma Round_347: "math_Round (Finite False 1000) = (Finite False 1000)"
  by (simp add: math_Round_eq [where k = 1000])

lemma div_348: "f64_div (Finite False 1000) (Finite False 100) = (Finite False 10)"
  by (simp add: f64_div.simps to_binary64_normal [where e = 3 and k = 5629499534213120] pow2_def)

lemma mul_349: "f64_mul (Finite False 10) (Finite False 7) = (Finite False 70)"
  by (simp add: f64_mul.simps to_binary64_normal [where e = 6 and k = 4925812092436480] pow2_def)

lemma lit_3: "lit 3 = (Finite False 3)"
  by (simp add: lit_def to_binary64_normal [where e = 1 and k = 6755399441055744] pow2_def)

lemma mul_359: "f64_mul (Finite False 1) (Finite False 3) = (Finite False 3)"
  by (simp add: f64_mul.simps to_binary64_normal [where e = 1 and k = 6755399441055744] pow2_def)

lemma mul_360: "f64_mul (Finite False 3) (Finite False 100) = (Finite False 300)"
  by (simp add: f64_mul.simps to_binary64_normal [where e = 8 and k = 5277655813324800] pow2_def)

lemma Round_361: "math_Round (Finite False 300) = (Finite False 300)"
  by (simp add: math_Round_eq [where k = 300])

lemma div_362: "f64_div (Finite False 300) (Finite False 100) = (Finite False 3)"
  by (simp add: f64_div.simps to_binary64_normal [where e = 1 and k = 6755399441055744] pow2_def)

lemma mul_363: "f64_mul (Finite False 3) (Finite False 10) = (Finite False 30)"
  by (simp add: f64_mul.simps to_binary64_normal [where e = 4 and k = 8444249301319680] pow2_def)

lemma add_374: "f64_add (Finite False 1) (Finite False 10) = (Finite False 11)"
  by (simp add: f64_add.simps signed_def to_binary64_normal [where e = 3 and k = 6192449487634432] pow2_def)

lemma add_375: "f64_add (Finite False 11) (Finite False 3) = (Finite False 14)"
  by (simp add: f64_add.simps signed_def to_binary64_normal [where e = 3 and k = 7881299347898368] pow2_def)

lemma add_380: "f64_add (Finite False 1) (Finite False 3) = (Finite False 4)"
  by (simp add: f64_add.simps signed_def to_binary64_normal [where e = 2 and k = 4503599627370496] pow2_def)

lemma add_383: "f64_add (Finite False 0) (Finite False 10) = (Finite False 10)"
  by (simp add: f64_add.simps signed_def to_binary64_normal [where e = 3 and k = 5629499534213120] pow2_def)

lemma add_385: "f64_add (Finite False 14) (Finite False (4953959590107545 / 4503599627370496)) = (Finite False (8500544296661811 / 562949953421312))"
  by (simp add: f64_add.simps signed_def to_binary64_normal [where e = 3 and k = 8500544296661811] pow2_def)

lemma mul_386: "f64_mul (Finite False (8500544296661811 / 562949953421312)) (Finite False 100) = (Finite False 1510)"
  by (simp add: f64_mul.simps to_binary64_normal [where e = 10 and k = 6641050231767040] pow2_def)

lemma Round_387: "math_Round (Finite False 1510) = (Finite False 1510)"
  by (simp add: math_Round_eq [where k = 1510])

lemma div_388: "f64_div (Finite False 1510) (Finite False 100) = (Finite False (8500544296661811 / 562949953421312))"
  by (simp add: f64_div.simps to_binary64_normal [where e = 3 and k = 8500544296661811] pow2_def)

lemma add_390: "f64_add (Finite False 4) (Finite False 10) = (Finite False 14)"
  by (simp add: f64_add.simps signed_def to_binary64_normal [where e = 3 and k = 7881299347898368] pow2_def)

lemma add_394: "f64_add (Finite False 10) (Finite False 4) = (Finite False 14)"
  by (simp add: f64_add.simps signed_def to_binary64_normal [where e = 3 and k = 7881299347898368] pow2_def)

lemma add_397: "f64_add (Finite False 9007199254740992) (Finite False 9007199254740996) = (Finite False 18014398509481988)"
  by (simp add: f64_add.simps signed_def to_binary64_normal [where e = 54 and k = 4503599627370497] pow2_def)

lemma mul_398: "f64_mul (Finite False 18014398509481988) (Finite False 100) = (Finite False 1801439850948198912)"
  by (simp add: f64_mul.simps to_binary64_normal [where e = 60 and k = 7036874417766402] pow2_def)

lemma Round_399: "math_Round (Finite False 1801439850948198912) = (Finite False 1801439850948198912)"
  by (simp add: math_Round_eq [where k = 1801439850948198912])

lemma div_400: "f64_div (Finite False 1801439850948198912) (Finite False 100) = (Finite False 18014398509481988)"
  by (simp add: f64_div.simps to_binary64_normal [where e = 54 and k = 4503599627370497] pow2_def)

lemma add_405: "f64_add (Finite False 14) (Finite False (2476979795053773 / 2251799813685248)) = (Finite False (8500544296661811 / 562949953421312))"
  by (simp add: f64_add.simps signed_def to_binary64_normal [where e = 3 and k = 8500544296661811] pow2_def)

lemma lit_1e200: "lit (10 ^ 200) = (Finite False 99999999999999996973312221251036165947450327545502362648241750950346848435554075534196338404706251868027512415973882408182135734368278484639385041047239877871023591066789981811181813306167128854888448)"
  by (simp add: lit_def to_binary64_normal [where e = 664 and k = 5883593420661338] pow2_def)

lemmas ev =
  lit_100 lit_10 lit_21 mul_1 mul_2 Round_3 div_4 mul_5 div_6 mul_7 Round_8 lit_5 lit_50 lit_6
  mul_15 mul_16 Round_17 div_18 mul_19 div_20 mul_21 Round_22 lit_2 lit_200 mul_29 mul_30
  Round_31 div_32 mul_33 div_34 mul_35 Round_36 lit_1 lit_500 mul_43 mul_44 Round_45 div_46
  mul_47 add_57 add_58 add_59 add_60 add_61 add_62 add_63 add_67 add_68 add_69 add_70 add_71
  add_73 mul_74 Round_75 div_76 add_86 add_87 add_88 add_92 mul_111 div_112 mul_113 Round_114
  add_124 add_129 mul_130 Round_131 div_132 add_133 add_134 lit_20 lit_19 mul_137 mul_138
  Round_139 div_140 mul_141 mul_146 div_147 mul_148 Round_149 add_151 add_155 lit_1_10 mul_163
  mul_164 Round_165 div_166 mul_167 div_168 mul_169 Round_170 div_171 lit_7_10 mul_177 mul_178
  Round_179 div_180 mul_181 div_182 mul_183 Round_184 div_185 lit_3_10 mul_191 mul_192 Round_193
  div_194 mul_195 div_196 mul_197 Round_198 div_199 add_205 add_206 add_207 add_208 add_209
  add_210 add_212 add_214 add_215 add_216 add_217 mul_218 Round_219 div_220 add_221 add_222
  add_223 add_224 add_226 add_228 lit_9007199254740992 mul_229 mul_230 Round_231 div_232 mul_243
  mul_244 Round_245 div_246 add_299 add_300 add_311 add_312 add_313 add_314 add_319 mul_320
  Round_321 div_322 add_324 add_327 add_328 mul_335 lit_7 Round_347 div_348 mul_349 lit_3
  mul_359 mul_360 Round_361 div_362 mul_363 add_374 add_375 add_380 add_383 add_385 mul_386
  Round_387 div_388 add_390 add_394 add_397 mul_398 Round_399 div_400 add_405

section \<open>Properties of the tax aggregator\<close>

lemma f64_eq_sym: "f64_eq a b = f64_eq b a"
  by (cases a; cases b) auto

lemma f64_eq_trans: "f64_eq a b \<Longrightarrow> f64_eq b c \<Longrightarrow> f64_eq a c"
  by (cases a; cases b; cases c) auto

lemma f64_eq_refl: "a \<noteq> NaN \<Longrightarrow> f64_eq a a"
  by (cases a) auto

lemma f64_eq_NaN: "f64_eq a b \<Longrightarrow> a \<noteq> NaN \<and> b \<noteq> NaN"
  by (cases a; cases b) auto

lemma taxKey_eq_sym: "taxKey_eq a b = taxKey_eq b a"
  by (auto simp: taxKey_eq_def f64_eq_sym)

lemma taxKey_eq_trans: "taxKey_eq a b \<Longrightarrow> taxKey_eq b c \<Longrightarrow> taxKey_eq a c"
  by (auto simp: taxKey_eq_def intro: f64_eq_trans)

lemma taxKey_eq_refl: "Rate a \<noteq> NaN \<Longrightarrow> taxKey_eq a a"
  by (simp add: taxKey_eq_def f64_eq_refl)

lemma taxKey_eq_NaN: "taxKey_eq a b \<Longrightarrow> Rate a \<noteq> NaN \<and> Rate b \<noteq> NaN"
  by (auto simp: taxKey_eq_def dest: f64_eq_NaN)

lemma map_index_None_iff: "map_index m k = None \<longleftrightarrow> (\<forall>e \<in> set m. \<not> taxKey_eq (fst e) k)"
  by (induction m) (auto split: if_splits)

lemma map_modify_None_iff: "map_modify m k f = None \<longleftrightarrow> (\<forall>e \<in> set m. \<not> taxKey_eq (fst e) k)"
  by (induction m) (auto split: if_splits)

lemma map_assign_fresh:
  "\<forall>e \<in> set m. \<not> taxKey_eq (fst e) k \<Longrightarrow> map_assign m k v = m @ [(k, v)]"
  by (induction m) auto

lemma map_modify_fresh:
  "\<forall>e \<in> set m. \<not> taxKey_eq (fst e) k \<Longrightarrow> taxKey_eq k k \<Longrightarrow>
   map_modify (m @ [(k, v)]) k f = Some (m @ [(k, f v)])"
  by (induction m) auto

lemma map_modify_fresh_nan:
  "\<forall>e \<in> set m. \<not> taxKey_eq (fst e) k \<Longrightarrow> \<not> taxKey_eq k k \<Longrightarrow>
   map_modify (m @ [(k, v)]) k f = None"
  by (induction m) auto

lemma map_modify_twice:
  "map_modify m k f = Some m' \<Longrightarrow> map_modify m' k g = map_modify m k (g \<circ> f)"
  by (induction m arbitrary: m') (auto split: if_splits)

lemma map_modify_found:
  "map_modify m k (\<lambda>s. s\<lparr>taxable := f64_add (taxSummary.taxable s) a,
                            tax := f64_add (taxSummary.tax s) t\<rparr>) \<noteq> None \<Longrightarrow>
   map_modify m k (\<lambda>s. s\<lparr>taxable := f64_add (taxSummary.taxable s) a,
                            tax := f64_add (taxSummary.tax s) t\<rparr>) = Some (summaries_add m k a t n)"
  by (induction m) (auto split: if_splits)

lemma summaries_add_fresh:
  "\<forall>e \<in> set m. \<not> taxKey_eq (fst e) k \<Longrightarrow>
   summaries_add m k a t n =
     m @ [(k, \<lparr>key = k, taxable = f64_add f64_zero a, tax = f64_add f64_zero t, catName = n\<rparr>)]"
  by (induction m) auto

lemma step_unfold:
  "calculateTaxTotals_step line (m, lt, tt) =
     (case map_modify
             (if map_index m (line_key line) = None
              then map_assign m (line_key line)
                     \<lparr>key = line_key line, taxable = f64_zero, tax = f64_zero,
                        catName = line_category_name line\<rparr>
              else m)
             (line_key line)
             (\<lambda>s. s\<lparr>taxable := f64_add (taxSummary.taxable s) (line_amount line)\<rparr>) of
        None \<Rightarrow> Inl NilPointerDereference
      | Some m2 \<Rightarrow>
          (case map_modify m2 (line_key line)
                  (\<lambda>s. s\<lparr>tax := f64_add (taxSummary.tax s) (line_tax line)\<rparr>) of
             None \<Rightarrow> Inl NilPointerDereference
           | Some m3 \<Rightarrow> Inr (m3, f64_add lt (line_amount line), f64_add tt (line_tax line))))"
proof -
  obtain a cid cname rate t where "calculateTaxTotals_line line = (a, cid, cname, rate, t)"
    using prod_cases5 by blast
  then show ?thesis
    by (simp add: calculateTaxTotals_step_def line_key_def line_amount_def line_tax_def
        line_category_name_def Let_def cong: option.case_cong)
qed

lemma step_nan:
  assumes "\<not> taxKey_eq (line_key line) (line_key line)"
  shows "calculateTaxTotals_step line (m, lt, tt) = Inl NilPointerDereference"
proof -
  have fresh: "\<forall>e \<in> set m. \<not> taxKey_eq (fst e) (line_key line)"
    using assms taxKey_eq_trans taxKey_eq_sym by blast
  then have "map_index m (line_key line) = None"
    by (simp add: map_index_None_iff)
  with fresh assms show ?thesis
    by (simp add: step_unfold map_assign_fresh map_modify_fresh_nan)
qed

lemma step_ok:
  assumes "taxKey_eq (line_key line) (line_key line)"
  shows "calculateTaxTotals_step line (m, lt, tt) =
     Inr (summaries_add m (line_key line) (line_amount line) (line_tax line)
            (line_category_name line),
          f64_add lt (line_amount line), f64_add tt (line_tax line))"
proof (cases "\<forall>e \<in> set m. \<not> taxKey_eq (fst e) (line_key line)")
  case True
  then have "map_index m (line_key line) = None"
    by (simp add: map_index_None_iff)
  with True assms show ?thesis
    by (simp add: step_unfold map_assign_fresh map_modify_fresh summaries_add_fresh)
next
  case False
  then have ex: "\<exists>e \<in> set m. taxKey_eq (fst e) (line_key line)" by simp
  then have i: "map_index m (line_key line) \<noteq> None"
    by (simp add: map_index_None_iff)
  from ex obtain m' where
    m': "map_modify m (line_key line)
           (\<lambda>s. s\<lparr>taxable := f64_add (taxSummary.taxable s) (line_amount line)\<rparr>) = Some m'"
    using map_modify_None_iff [of m "line_key line"] by fastforce
  have "map_modify m' (line_key line)
           (\<lambda>s. s\<lparr>tax := f64_add (taxSummary.tax s) (line_tax line)\<rparr>) =
        Some (summaries_add m (line_key line) (line_amount line) (line_tax line)
            (line_category_name line))"
    using map_modify_twice [OF m'] map_modify_found [of m "line_key line"] ex
    by (simp add: comp_def map_modify_None_iff)
  with i m' show ?thesis
    by (auto simp: step_unfold)
qed

lemma loop_snoc:
  "calculateTaxTotals_loop (ls @ [l]) st =
     (case calculateTaxTotals_loop ls st of
        Inl p \<Rightarrow> Inl p
      | Inr st' \<Rightarrow> calculateTaxTotals_step l st')"
  by (induction ls arbitrary: st) (auto split: sum.splits)

lemma nan_rate_iff: "nan_rate line \<longleftrightarrow> \<not> taxKey_eq (line_key line) (line_key line)"
  using taxKey_eq_refl taxKey_eq_NaN by (auto simp: nan_rate_def)

lemma loop_ok:
  "\<forall>l \<in> set ls. \<not> nan_rate l \<Longrightarrow>
   calculateTaxTotals_loop ls (m, lt, tt) =
     Inr (summaries_after ls m, foldl f64_add lt (map line_amount ls),
          foldl f64_add tt (map line_tax ls))"
  by (induction ls arbitrary: m lt tt) (simp_all add: step_ok nan_rate_iff)

lemma loop_nan:
  "\<exists>l \<in> set ls. nan_rate l \<Longrightarrow>
   calculateTaxTotals_loop ls st = Inl NilPointerDereference"
proof (induction ls arbitrary: st)
  case Nil
  then show ?case by simp
next
  case (Cons l ls)
  obtain m lt tt where st: "st = (m, lt, tt)" by (cases st) auto
  show ?case
  proof (cases "nan_rate l")
    case True
    then show ?thesis by (simp add: st step_nan nan_rate_iff)
  next
    case False
    with Cons.prems have "\<exists>l \<in> set ls. nan_rate l" by simp
    with False Cons.IH show ?thesis by (simp add: st step_ok nan_rate_iff)
  qed
qed


lemma lines_of_key_snoc:
  "lines_of_key k (ls @ [l]) = lines_of_key k ls @ (if taxKey_eq k (line_key l) then [l] else [])"
  by (simp add: lines_of_key_def)

lemma f64_sum_snoc: "f64_sum (xs @ [a]) = f64_add (f64_sum xs) a"
  by (simp add: f64_sum_def)

lemma summaries_after_snoc:
  "summaries_after (ls @ [l]) m =
     summaries_add (summaries_after ls m) (line_key l) (line_amount l) (line_tax l)
       (line_category_name l)"
  by (induction ls arbitrary: m) auto

lemma summaries_add_found:
  assumes "distinct (map fst m)"
    and "\<forall>e \<in> set m. \<forall>e' \<in> set m. taxKey_eq (fst e) (fst e') \<longrightarrow> fst e = fst e'"
    and "\<exists>e \<in> set m. taxKey_eq (fst e) k"
  shows "summaries_add m k a t n =
     map (\<lambda>e. if taxKey_eq (fst e) k
               then (fst e, (snd e)\<lparr>taxable := f64_add (taxSummary.taxable (snd e)) a,
                                     tax := f64_add (taxSummary.tax (snd e)) t\<rparr>)
               else e) m"
  using assms
proof (induction m)
  case Nil
  then show ?case by simp
next
  case (Cons x m)
  obtain k' s where x: "x = (k', s)" by (cases x) auto
  show ?case
  proof (cases "taxKey_eq k' k")
    case True
    have "\<not> taxKey_eq (fst e) k" if "e \<in> set m" for e
    proof
      assume "taxKey_eq (fst e) k"
      with True have "taxKey_eq k' (fst e)"
        using taxKey_eq_trans taxKey_eq_sym by blast
      with Cons.prems(2) that have "k' = fst e" by (auto simp: x)
      with Cons.prems(1) that show False by (auto simp: x)
    qed
    then have "map (\<lambda>e. if taxKey_eq (fst e) k
               then (fst e, (snd e)\<lparr>taxable := f64_add (taxSummary.taxable (snd e)) a,
                                     tax := f64_add (taxSummary.tax (snd e)) t\<rparr>)
               else e) m = m"
      by (intro map_idI) simp
    with True show ?thesis by (simp add: x)
  next
    case False
    with Cons.prems have "\<exists>e \<in> set m. taxKey_eq (fst e) k" by (auto simp: x)
    moreover from Cons.prems have "distinct (map fst m)"
      and "\<forall>e \<in> set m. \<forall>e' \<in> set m. taxKey_eq (fst e) (fst e') \<longrightarrow> fst e = fst e'"
      by auto
    ultimately show ?thesis using False Cons.IH by (simp add: x)
  qed
qed

lemma agg_inv_step:
  assumes inv: "agg_inv ls m" and ok: "taxKey_eq (line_key l) (line_key l)"
  shows "agg_inv (ls @ [l])
           (summaries_add m (line_key l) (line_amount l) (line_tax l) (line_category_name l))"
proof (cases "\<forall>e \<in> set m. \<not> taxKey_eq (fst e) (line_key l)")
  case True
  let ?m' = "m @ [(line_key l, summary_of (ls @ [l]) (line_key l))]"
  have none: "lines_of_key (line_key l) ls = []"
  proof -
    have "\<not> taxKey_eq (line_key l) (line_key l')" if "l' \<in> set ls" for l'
    proof
      assume a: "taxKey_eq (line_key l) (line_key l')"
      from inv that obtain e where "e \<in> set m" "taxKey_eq (fst e) (line_key l')"
        by (auto simp: agg_inv_def)
      with a have "taxKey_eq (fst e) (line_key l)"
        using taxKey_eq_trans taxKey_eq_sym by blast
      with True \<open>e \<in> set m\<close> show False by blast
    qed
    then show ?thesis by (simp add: lines_of_key_def filter_empty_conv)
  qed
  have old: "lines_of_key (fst e) (ls @ [l]) = lines_of_key (fst e) ls" if "e \<in> set m" for e
    using True that by (simp add: lines_of_key_snoc)
  have new: "summaries_add m (line_key l) (line_amount l) (line_tax l) (line_category_name l) = ?m'"
    using True ok
    by (simp add: summaries_add_fresh summary_of_def lines_of_key_snoc none f64_sum_def)
  have fresh': "line_key l \<notin> fst ` set m"
    using True ok by auto
  have sym: "\<forall>e \<in> set m. \<not> taxKey_eq (line_key l) (fst e)"
    using True taxKey_eq_sym by blast
  have p1: "distinct (map fst ?m')"
    using inv fresh' by (simp add: agg_inv_def)
  have p2: "\<forall>e \<in> set ?m'. \<forall>e' \<in> set ?m'. taxKey_eq (fst e) (fst e') \<longrightarrow> fst e = fst e'"
    using inv True sym by (auto simp: agg_inv_def)
  have p3: "lines_of_key (fst e) (ls @ [l]) \<noteq> [] \<and>
         fst e = line_key (hd (lines_of_key (fst e) (ls @ [l]))) \<and>
         snd e = summary_of (ls @ [l]) (fst e)" if "e \<in> set ?m'" for e
  proof -
    from that consider "e \<in> set m" | "e = (line_key l, summary_of (ls @ [l]) (line_key l))"
      by auto
    then show ?thesis
    proof cases
      case 1
      with inv old show ?thesis by (simp add: agg_inv_def summary_of_def)
    next
      case 2
      with ok show ?thesis by (simp add: lines_of_key_snoc none)
    qed
  qed
  have p4: "\<forall>l' \<in> set (ls @ [l]). \<exists>e \<in> set ?m'. taxKey_eq (fst e) (line_key l')"
    using inv ok by (auto simp: agg_inv_def)
  from p1 p2 p3 p4 show ?thesis
    unfolding new agg_inv_def by blast
next
  case False
  then have ex: "\<exists>e \<in> set m. taxKey_eq (fst e) (line_key l)" by simp
  define upd :: "taxKey \<times> taxSummary \<Rightarrow> taxKey \<times> taxSummary"
    where "upd = (\<lambda>e. if taxKey_eq (fst e) (line_key l)
               then (fst e, (snd e)\<lparr>taxable := f64_add (taxSummary.taxable (snd e)) (line_amount l),
                                     tax := f64_add (taxSummary.tax (snd e)) (line_tax l)\<rparr>)
               else e)"
  have new: "summaries_add m (line_key l) (line_amount l) (line_tax l) (line_category_name l) =
      map upd m"
    unfolding upd_def using inv ex by (intro summaries_add_found) (auto simp: agg_inv_def)
  have fst_upd: "fst (upd e) = fst e" for e by (simp add: upd_def)
  have keys: "map fst (map upd m) = map fst m"
    by (simp add: comp_def fst_upd)
  have entry: "snd (upd e) = summary_of (ls @ [l]) (fst e) \<and>
      lines_of_key (fst e) (ls @ [l]) \<noteq> [] \<and>
      fst e = line_key (hd (lines_of_key (fst e) (ls @ [l])))" if "e \<in> set m" for e
  proof -
    from inv that have e: "lines_of_key (fst e) ls \<noteq> []"
      "fst e = line_key (hd (lines_of_key (fst e) ls))" "snd e = summary_of ls (fst e)"
      by (auto simp: agg_inv_def)
    show ?thesis
    proof (cases "taxKey_eq (fst e) (line_key l)")
      case True
      with e show ?thesis
        by (simp add: upd_def lines_of_key_snoc summary_of_def f64_sum_snoc)
    next
      case False
      with e show ?thesis
        by (simp add: upd_def lines_of_key_snoc summary_of_def)
    qed
  qed
  have p1: "distinct (map fst (map upd m))"
    using inv unfolding keys by (simp add: agg_inv_def)
  have p2: "\<forall>e \<in> set (map upd m). \<forall>e' \<in> set (map upd m).
              taxKey_eq (fst e) (fst e') \<longrightarrow> fst e = fst e'"
    using inv by (auto simp: agg_inv_def fst_upd)
  have p3: "\<forall>e \<in> set (map upd m). lines_of_key (fst e) (ls @ [l]) \<noteq> [] \<and>
         fst e = line_key (hd (lines_of_key (fst e) (ls @ [l]))) \<and>
         snd e = summary_of (ls @ [l]) (fst e)"
    using entry by (auto simp: fst_upd)
  have p4: "\<forall>l' \<in> set (ls @ [l]). \<exists>e \<in> set (map upd m). taxKey_eq (fst e) (line_key l')"
    using inv ex by (auto simp: agg_inv_def fst_upd)
  from p1 p2 p3 p4 show ?thesis
    unfolding new agg_inv_def by blast
qed

lemma agg_inv_after:
  "\<forall>l \<in> set ls. \<not> nan_rate l \<Longrightarrow> agg_inv ls (summaries_after ls [])"
proof (induction ls rule: rev_induct)
  case Nil
  then show ?case by (simp add: agg_inv_def)
next
  case (snoc l ls)
  then show ?case
    by (simp add: summaries_after_snoc agg_inv_step nan_rate_iff)
qed

lemma loop_panic:
  "calculateTaxTotals_loop ls st = Inl p \<Longrightarrow> p = NilPointerDereference"
proof (cases "\<exists>l \<in> set ls. nan_rate l")
  case True
  then show "calculateTaxTotals_loop ls st = Inl p \<Longrightarrow> p = NilPointerDereference"
    by (simp add: loop_nan)
next
  case False
  obtain m lt tt where "st = (m, lt, tt)" by (cases st) auto
  with False show "calculateTaxTotals_loop ls st = Inl p \<Longrightarrow> p = NilPointerDereference"
    by (simp add: loop_ok)
qed

section \<open>Properties of the VAT identifier normalizer\<close>

lemma stripLeadingDigits_fixed:
  "v = [] \<or> \<not> (CHR ''0'' \<le> hd v \<and> hd v \<le> CHR ''9'') \<Longrightarrow> stripLeadingDigits v = v"
  by (cases v) auto

lemma stripLeadingDigits_head:
  "stripLeadingDigits x = [] \<or>
   \<not> (CHR ''0'' \<le> hd (stripLeadingDigits x) \<and> hd (stripLeadingDigits x) \<le> CHR ''9'')"
  by (induction x) auto

lemma upper_not_digit:
  "CHR ''A'' \<le> ch \<Longrightarrow> \<not> ch \<le> CHR ''9''"
  by (simp add: less_eq_char_def)

lemma clean_canonical:
  assumes "2 \<le> length r" and "CHR ''A'' \<le> r ! 0" and "r ! 0 \<le> CHR ''Z''"
    and "take 2 r \<noteq> ''GR''"
  shows "cleanVATIdentifier r c = r"
proof -
  from assms(1) obtain a r' where r: "r = a # r'" by (cases r) auto
  with assms(2) have "\<not> a \<le> CHR ''9''" by (simp add: upper_not_digit)
  with r have s: "stripLeadingDigits r = r" by simp
  from assms(2,3) have "\<not> (r ! 0 < CHR ''A'' \<or> CHR ''Z'' < r ! 0)" by auto
  with assms(1,4) s show ?thesis
    by (simp add: cleanVATIdentifier_def Let_def)
qed

text \<open>
  C6. The two equations of the specification: the routing prefix \<open>9925\<close> is stripped and
  the embedded prefix \<open>BE\<close> kept; the prefix \<open>GR\<close> is rewritten to \<open>EL\<close> and the rest of
  the identifier is unchanged.
\<close>

theorem cleanVATIdentifier_examples:
  "cleanVATIdentifier ''9925BE0123456789'' ''BE'' = ''BE0123456789'' \<and>
   cleanVATIdentifier ''GR123456789'' ''GR'' = ''EL123456789''"
  by (simp add: cleanVATIdentifier_def less_eq_char_def less_char_def)

text \<open>
  C7, as stated, fails: with the country code \<open>GR\<close> an identifier that has no uppercase
  prefix of its own (here a Greek number given by its digits alone) gets \<open>GR\<close> prepended,
  and a second pass rewrites that prefix to \<open>EL\<close>.
\<close>

theorem cleanVATIdentifier_not_idempotent:
  "cleanVATIdentifier (cleanVATIdentifier ''123456789'' ''GR'') ''GR''
     \<noteq> cleanVATIdentifier ''123456789'' ''GR''"
  by (simp add: cleanVATIdentifier_def less_eq_char_def less_char_def)

text \<open>
  C7, amended. For a country code of two uppercase ASCII letters other than \<open>GR\<close>, the
  normalizer is idempotent on every raw identifier.
\<close>

theorem cleanVATIdentifier_idempotent:
  assumes "alpha2 c" and "c \<noteq> ''GR''"
  shows "cleanVATIdentifier (cleanVATIdentifier x c) c = cleanVATIdentifier x c"
proof -
  define v where "v = stripLeadingDigits x"
  from assms(1) obtain a b where c: "c = [a, b]"
    and a: "CHR ''A'' \<le> a" "a \<le> CHR ''Z''"
    by (cases c; cases "tl c") (auto simp: alpha2_def)
  have el: "cleanVATIdentifier (''EL'' @ drop 2 v) c = ''EL'' @ drop 2 v"
    by (intro clean_canonical) (simp_all add: less_eq_char_def)
  have pre: "cleanVATIdentifier (c @ v) c = c @ v"
    using a assms(2) by (intro clean_canonical) (simp_all add: c)
  show ?thesis
  proof (cases "2 \<le> length v \<and> \<not> (v ! 0 < CHR ''A'' \<or> CHR ''Z'' < v ! 0)")
    case False
    then have "cleanVATIdentifier x c = c @ v"
      by (auto simp: cleanVATIdentifier_def Let_def v_def)
    with pre show ?thesis by simp
  next
    case True
    show ?thesis
    proof (cases "take 2 v = ''GR''")
      case greek: True
      with True have "cleanVATIdentifier x c = ''EL'' @ drop 2 v"
        by (auto simp: cleanVATIdentifier_def Let_def v_def)
      with el show ?thesis by simp
    next
      case kept: False
      with True have "cleanVATIdentifier x c = v"
        by (auto simp: cleanVATIdentifier_def Let_def v_def)
      moreover from True kept have "cleanVATIdentifier v c = v"
        by (intro clean_canonical) auto
      ultimately show ?thesis by simp
    qed
  qed
qed

theorem cleanVATIdentifier_idempotent_witness:
  "alpha2 ''BE'' \<and> ''BE'' \<noteq> ''GR'' \<and>
   cleanVATIdentifier (cleanVATIdentifier ''9925be0123'' ''BE'') ''BE''
     = cleanVATIdentifier ''9925be0123'' ''BE'' \<and>
   cleanVATIdentifier ''9925be0123'' ''BE'' = ''BEbe0123''"
proof -
  have h1: "alpha2 ''BE''" by (simp add: alpha2_def less_eq_char_def)
  have h2: "''BE'' \<noteq> ''GR''" by simp
  have "cleanVATIdentifier ''9925be0123'' ''BE'' = ''BEbe0123''"
    by (simp add: cleanVATIdentifier_def less_eq_char_def less_char_def)
  with h1 h2 cleanVATIdentifier_idempotent [OF h1 h2, of "''9925be0123''"]
  show ?thesis by simp
qed

section \<open>Properties of the document assembly\<close>

lemma calculateTaxTotals_ok:
  assumes "\<forall>l \<in> set lines. \<not> nan_rate l"
  shows "calculateTaxTotals rng lines =
     Inr (f64_sum (map line_amount lines), f64_sum (map line_tax lines),
          map (\<lambda>(k, summary). calculateTaxTotals_subtotal summary)
              (rng (summaries_after lines [])))"
  using assms by (simp add: calculateTaxTotals_def loop_ok f64_sum_def)

lemma calculateTaxTotals_nan:
  assumes "\<exists>l \<in> set lines. nan_rate l"
  shows "calculateTaxTotals rng lines = Inl NilPointerDereference"
  using assms by (simp add: calculateTaxTotals_def loop_nan)

lemma calculateTaxTotals_Inr:
  assumes "calculateTaxTotals rng lines = Inr r"
  shows "\<forall>l \<in> set lines. \<not> nan_rate l"
  using assms calculateTaxTotals_nan [of lines rng] by auto

lemma subtotal_fields:
  "subtotal_key (calculateTaxTotals_subtotal s) = taxSummary.key s"
  "xmlAmount.Value (TaxableAmount (calculateTaxTotals_subtotal s)) = taxSummary.taxable s"
  "xmlAmount.Value (xmlTaxSubtotal.TaxAmount (calculateTaxTotals_subtotal s)) = taxSummary.tax s"
  "xmlTaxCategory.Name (TaxCategory (calculateTaxTotals_subtotal s)) = catName s"
  "xmlTaxCategory.ID (TaxCategory (calculateTaxTotals_subtotal s)) = CategoryID (taxSummary.key s)"
  "Percent (TaxCategory (calculateTaxTotals_subtotal s)) = Rate (taxSummary.key s)"
  by (simp_all add: calculateTaxTotals_subtotal_def subtotal_key_def Let_def)

lemma party_literal_eq:
  "party_literal peppolID name vat address =
     (if 5 \<le> length peppolID
      then Inr \<lparr>EndpointID = \<lparr>xmlEndpointID.Value = drop 5 peppolID, SchemeID = take 4 peppolID\<rparr>,
                PartyName = name,
                PostalAddress = address,
                PartyTaxScheme =
                  \<lparr>CompanyID = vat, xmlPartyTaxScheme.TaxScheme = \<lparr>xmlTaxScheme.ID = ''VAT''\<rparr>\<rparr>,
                RegistrationName = name\<rparr>
      else Inl SliceBoundsOutOfRange)"
  by (simp add: party_literal_def slice_from_def slice_range_def)

lemma Generate_head_short:
  assumes "length (Invoice.SupplierPeppolID invoice) < 5 \<or>
           length (Invoice.CustomerPeppolID invoice) < 5"
  shows "Generate_head env invoice = Inl SliceBoundsOutOfRange"
  using assms by (auto simp: Generate_head_def party_literal_eq Let_def)

lemma Generate_head_long:
  assumes "5 \<le> length (Invoice.SupplierPeppolID invoice)"
    and "5 \<le> length (Invoice.CustomerPeppolID invoice)"
  shows "\<exists>x. Generate_head env invoice = Inr x \<and>
     EndpointID (xmlSupplierParty.Party (xmlInvoice.SupplierParty x)) =
       \<lparr>xmlEndpointID.Value = drop 5 (Invoice.SupplierPeppolID invoice),
        SchemeID = take 4 (Invoice.SupplierPeppolID invoice)\<rparr> \<and>
     EndpointID (xmlCustomerParty.Party (xmlInvoice.CustomerParty x)) =
       \<lparr>xmlEndpointID.Value = drop 5 (Invoice.CustomerPeppolID invoice),
        SchemeID = take 4 (Invoice.CustomerPeppolID invoice)\<rparr> \<and>
     InvoiceLines x = []"
  using assms by (simp add: Generate_head_def party_literal_eq Let_def)

lemma Invoice_addLines_eq:
  "Invoice_addLines rng invoice x =
     (case calculateTaxTotals rng (Invoice.Lines invoice) of
        Inl p \<Rightarrow> Inl p
      | Inr (lineTotal, taxTotal, subtotals) \<Rightarrow>
          Inr (x\<lparr>InvoiceLines := Invoice_addLines_loop 0 (Invoice.Lines invoice) (InvoiceLines x),
                 xmlInvoice.TaxTotal :=
                   \<lparr>xmlTaxTotal.TaxAmount = \<lparr>xmlAmount.Value = taxTotal, CurrencyID = ''EUR''\<rparr>,
                    TaxSubtotal = subtotals\<rparr>,
                 xmlInvoice.LegalMonetaryTotal :=
                   \<lparr>xmlMonetaryTotal.LineExtensionAmount =
                      \<lparr>xmlAmount.Value = lineTotal, CurrencyID = ''EUR''\<rparr>,
                    TaxExclusiveAmount = \<lparr>xmlAmount.Value = lineTotal, CurrencyID = ''EUR''\<rparr>,
                    TaxInclusiveAmount =
                      \<lparr>xmlAmount.Value = round_amount (f64_add lineTotal taxTotal),
                       CurrencyID = ''EUR''\<rparr>,
                    PayableAmount =
                      \<lparr>xmlAmount.Value = round_amount (f64_add lineTotal taxTotal),
                       CurrencyID = ''EUR''\<rparr>\<rparr>\<rparr>))"
  by (simp add: Invoice_addLines_def Let_def split: sum.splits)

lemma Generate_tail_cases:
  "Generate_tail env invoice x =
     (if PdfInvoiceFilename invoice \<noteq> [] \<and> PdfInvoiceData invoice = []
      then (case readFile env (PdfInvoiceFilename invoice) of
              Inl e \<Rightarrow> (x, None, Some (Wrapped ''add attachment failed'' e))
            | Inr data \<Rightarrow>
                (let y = x\<lparr>xmlInvoice.AdditionalDocumentReference :=
                             document_references (Invoice.ID invoice) (encodeToString env data)
                               (detectContentType env data) (PdfInvoiceFilename invoice) ''Invoice''\<rparr>
                 in (case marshalIndentInvoice env y of
                       Inl e \<Rightarrow> (y, None, Some (Wrapped ''xml marshal failed'' e))
                     | Inr output \<Rightarrow> (y, Some (xml_Header @ output), None))))
      else (let y = (if PdfInvoiceData invoice \<noteq> []
                     then x\<lparr>xmlInvoice.AdditionalDocumentReference :=
                             document_references (Invoice.ID invoice) (PdfInvoiceData invoice)
                               ''application/pdf'' (PdfInvoiceFilename invoice)
                               (PdfInvoiceDescription invoice)\<rparr>
                     else x)
            in (case marshalIndentInvoice env y of
                  Inl e \<Rightarrow> (y, None, Some (Wrapped ''xml marshal failed'' e))
                | Inr output \<Rightarrow> (y, Some (xml_Header @ output), None))))"
  by (cases "readFile env (PdfInvoiceFilename invoice)")
     (simp_all add: Generate_tail_def Invoice_addAttachmentFromFile_def
        Invoice_addAttachmentFromData_def Let_def cong: sum.case_cong)

lemma GenerateCreditNote_head_short:
  assumes "length (CreditNote.SupplierPeppolID cn) < 5 \<or>
           length (CreditNote.CustomerPeppolID cn) < 5"
  shows "GenerateCreditNote_head env cn = Inl SliceBoundsOutOfRange"
  using assms by (auto simp: GenerateCreditNote_head_def party_literal_eq Let_def)

lemma GenerateCreditNote_head_long:
  assumes "5 \<le> length (CreditNote.SupplierPeppolID cn)"
    and "5 \<le> length (CreditNote.CustomerPeppolID cn)"
  shows "\<exists>x. GenerateCreditNote_head env cn = Inr x \<and>
     EndpointID (xmlSupplierParty.Party (xmlCreditNote.SupplierParty x)) =
       \<lparr>xmlEndpointID.Value = drop 5 (CreditNote.SupplierPeppolID cn),
        SchemeID = take 4 (CreditNote.SupplierPeppolID cn)\<rparr> \<and>
     EndpointID (xmlCustomerParty.Party (xmlCreditNote.CustomerParty x)) =
       \<lparr>xmlEndpointID.Value = drop 5 (CreditNote.CustomerPeppolID cn),
        SchemeID = take 4 (CreditNote.CustomerPeppolID cn)\<rparr> \<and>
     CreditNoteLines x = []"
  using assms by (simp add: GenerateCreditNote_head_def party_literal_eq Let_def)

lemma CreditNote_addLines_eq:
  "CreditNote_addLines rng cn x =
     (case calculateTaxTotals rng (CreditNote.Lines cn) of
        Inl p \<Rightarrow> Inl p
      | Inr (lineTotal, taxTotal, subtotals) \<Rightarrow>
          Inr (x\<lparr>CreditNoteLines := CreditNote_addLines_loop 0 (CreditNote.Lines cn) (CreditNoteLines x),
                 xmlCreditNote.TaxTotal :=
                   \<lparr>xmlTaxTotal.TaxAmount = \<lparr>xmlAmount.Value = taxTotal, CurrencyID = ''EUR''\<rparr>,
                    TaxSubtotal = subtotals\<rparr>,
                 xmlCreditNote.LegalMonetaryTotal :=
                   \<lparr>xmlMonetaryTotal.LineExtensionAmount =
                      \<lparr>xmlAmount.Value = lineTotal, CurrencyID = ''EUR''\<rparr>,
                    TaxExclusiveAmount = \<lparr>xmlAmount.Value = lineTotal, CurrencyID = ''EUR''\<rparr>,
                    TaxInclusiveAmount =
                      \<lparr>xmlAmount.Value = round_amount (f64_add lineTotal taxTotal),
                       CurrencyID = ''EUR''\<rparr>,
                    PayableAmount =
                      \<lparr>xmlAmount.Value = round_amount (f64_add lineTotal taxTotal),
                       CurrencyID = ''EUR''\<rparr>\<rparr>\<rparr>))"
  by (simp add: CreditNote_addLines_def Let_def split: sum.splits)

lemma GenerateCreditNote_tail_cases:
  "GenerateCreditNote_tail env cn x =
     (if PdfCreditNoteFilename cn \<noteq> [] \<and> PdfCreditNoteData cn = []
      then (case readFile env (PdfCreditNoteFilename cn) of
              Inl e \<Rightarrow> (x, None, Some (Wrapped ''add attachment failed'' e))
            | Inr data \<Rightarrow>
                (let y = x\<lparr>xmlCreditNote.AdditionalDocumentReference :=
                             document_references (CreditNote.ID cn) (encodeToString env data)
                               (detectContentType env data) (PdfCreditNoteFilename cn) ''CreditNote''\<rparr>
                 in (case marshalIndentCreditNote env y of
                       Inl e \<Rightarrow> (y, None, Some (Wrapped ''xml marshal failed'' e))
                     | Inr output \<Rightarrow> (y, Some (xml_Header @ output), None))))
      else (let y = (if PdfCreditNoteData cn \<noteq> []
                     then x\<lparr>xmlCreditNote.AdditionalDocumentReference :=
                             document_references (CreditNote.ID cn) (PdfCreditNoteData cn)
                               ''application/pdf'' (PdfCreditNoteFilename cn)
                               (PdfCreditNoteDescription cn)\<rparr>
                     else x)
            in (case marshalIndentCreditNote env y of
                  Inl e \<Rightarrow> (y, None, Some (Wrapped ''xml marshal failed'' e))
                | Inr output \<Rightarrow> (y, Some (xml_Header @ output), None))))"
  by (cases "readFile env (PdfCreditNoteFilename cn)")
     (simp_all add: GenerateCreditNote_tail_def CreditNote_addAttachmentFromFile_def
        CreditNote_addAttachmentFromData_def Let_def cong: sum.case_cong)

section \<open>The generated documents\<close>

lemma Generate_tail_fields:
  "invoice_totals (fst (Generate_tail env invoice x)) = invoice_totals x"
  "InvoiceLines (fst (Generate_tail env invoice x)) = InvoiceLines x"
  "xmlInvoice.TaxTotal (fst (Generate_tail env invoice x)) = xmlInvoice.TaxTotal x"
  "xmlInvoice.SupplierParty (fst (Generate_tail env invoice x)) = xmlInvoice.SupplierParty x"
  "xmlInvoice.CustomerParty (fst (Generate_tail env invoice x)) = xmlInvoice.CustomerParty x"
  by (simp_all add: Generate_tail_cases invoice_totals_def Let_def split: sum.splits)

lemma Invoice_addLines_fields:
  assumes "Invoice_addLines rng invoice x0 = Inr x1"
  obtains lineTotal taxTotal subtotals where
    "calculateTaxTotals rng (Invoice.Lines invoice) = Inr (lineTotal, taxTotal, subtotals)"
    "invoice_totals x1 =
       (lineTotal, lineTotal, taxTotal, round_amount (f64_add lineTotal taxTotal),
        round_amount (f64_add lineTotal taxTotal))"
    "InvoiceLines x1 = Invoice_addLines_loop 0 (Invoice.Lines invoice) (InvoiceLines x0)"
    "TaxSubtotal (xmlInvoice.TaxTotal x1) = subtotals"
    "xmlInvoice.SupplierParty x1 = xmlInvoice.SupplierParty x0"
    "xmlInvoice.CustomerParty x1 = xmlInvoice.CustomerParty x0"
proof -
  from assms obtain r where
    c: "calculateTaxTotals rng (Invoice.Lines invoice) = Inr r"
    by (cases "calculateTaxTotals rng (Invoice.Lines invoice)")
       (simp_all add: Invoice_addLines_eq)
  obtain lineTotal taxTotal subtotals where r: "r = (lineTotal, taxTotal, subtotals)"
    by (cases r) auto
  from assms c r have "x1 =
      x0\<lparr>InvoiceLines := Invoice_addLines_loop 0 (Invoice.Lines invoice) (InvoiceLines x0),
         xmlInvoice.TaxTotal :=
           \<lparr>xmlTaxTotal.TaxAmount = \<lparr>xmlAmount.Value = taxTotal, CurrencyID = ''EUR''\<rparr>,
            TaxSubtotal = subtotals\<rparr>,
         xmlInvoice.LegalMonetaryTotal :=
           \<lparr>xmlMonetaryTotal.LineExtensionAmount =
              \<lparr>xmlAmount.Value = lineTotal, CurrencyID = ''EUR''\<rparr>,
            TaxExclusiveAmount = \<lparr>xmlAmount.Value = lineTotal, CurrencyID = ''EUR''\<rparr>,
            TaxInclusiveAmount =
              \<lparr>xmlAmount.Value = round_amount (f64_add lineTotal taxTotal),
               CurrencyID = ''EUR''\<rparr>,
            PayableAmount =
              \<lparr>xmlAmount.Value = round_amount (f64_add lineTotal taxTotal),
               CurrencyID = ''EUR''\<rparr>\<rparr>\<rparr>"
    by (simp add: Invoice_addLines_eq)
  then have "invoice_totals x1 =
       (lineTotal, lineTotal, taxTotal, round_amount (f64_add lineTotal taxTotal),
        round_amount (f64_add lineTotal taxTotal))"
    "InvoiceLines x1 = Invoice_addLines_loop 0 (Invoice.Lines invoice) (InvoiceLines x0)"
    "TaxSubtotal (xmlInvoice.TaxTotal x1) = subtotals"
    "xmlInvoice.SupplierParty x1 = xmlInvoice.SupplierParty x0"
    "xmlInvoice.CustomerParty x1 = xmlInvoice.CustomerParty x0"
    by (simp_all add: invoice_totals_def)
  with c r that show thesis by blast
qed

lemma Generate_Inr:
  assumes "Generate env invoice = Inr (x, out)"
  obtains x0 x1 where
    "Generate_head env invoice = Inr x0"
    "Invoice_addLines (mapRange env) invoice x0 = Inr x1"
    "(x, out) = Generate_tail env invoice x1"
  using assms by (auto simp: Generate_def split: sum.splits)

lemma Generate_returns:
  assumes "5 \<le> length (Invoice.SupplierPeppolID invoice)"
    and "5 \<le> length (Invoice.CustomerPeppolID invoice)"
    and "\<forall>l \<in> set (Invoice.Lines invoice). \<not> nan_rate l"
  obtains x0 x1 where
    "Generate_head env invoice = Inr x0"
    "Invoice_addLines (mapRange env) invoice x0 = Inr x1"
    "Generate env invoice = Inr (Generate_tail env invoice x1)"
proof -
  from Generate_head_long [OF assms(1,2), of env] obtain x0 where
    h: "Generate_head env invoice = Inr x0" by blast
  from calculateTaxTotals_ok [OF assms(3), of "mapRange env"] obtain x1 where
    a: "Invoice_addLines (mapRange env) invoice x0 = Inr x1"
    by (simp add: Invoice_addLines_eq)
  from h a have "Generate env invoice = Inr (Generate_tail env invoice x1)"
    by (simp add: Generate_def)
  with h a that show thesis by blast
qed

lemma GenerateCreditNote_tail_fields:
  "creditnote_totals (fst (GenerateCreditNote_tail env cn x)) = creditnote_totals x"
  "CreditNoteLines (fst (GenerateCreditNote_tail env cn x)) = CreditNoteLines x"
  "xmlCreditNote.TaxTotal (fst (GenerateCreditNote_tail env cn x)) = xmlCreditNote.TaxTotal x"
  "xmlCreditNote.SupplierParty (fst (GenerateCreditNote_tail env cn x)) = xmlCreditNote.SupplierParty x"
  "xmlCreditNote.CustomerParty (fst (GenerateCreditNote_tail env cn x)) = xmlCreditNote.CustomerParty x"
  by (simp_all add: GenerateCreditNote_tail_cases creditnote_totals_def Let_def split: sum.splits)

lemma CreditNote_addLines_fields:
  assumes "CreditNote_addLines rng cn x0 = Inr x1"
  obtains lineTotal taxTotal subtotals where
    "calculateTaxTotals rng (CreditNote.Lines cn) = Inr (lineTotal, taxTotal, subtotals)"
    "creditnote_totals x1 =
       (lineTotal, lineTotal, taxTotal, round_amount (f64_add lineTotal taxTotal),
        round_amount (f64_add lineTotal taxTotal))"
    "CreditNoteLines x1 = CreditNote_addLines_loop 0 (CreditNote.Lines cn) (CreditNoteLines x0)"
    "TaxSubtotal (xmlCreditNote.TaxTotal x1) = subtotals"
    "xmlCreditNote.SupplierParty x1 = xmlCreditNote.SupplierParty x0"
    "xmlCreditNote.CustomerParty x1 = xmlCreditNote.CustomerParty x0"
proof -
  from assms obtain r where
    c: "calculateTaxTotals rng (CreditNote.Lines cn) = Inr r"
    by (cases "calculateTaxTotals rng (CreditNote.Lines cn)")
       (simp_all add: CreditNote_addLines_eq)
  obtain lineTotal taxTotal subtotals where r: "r = (lineTotal, taxTotal, subtotals)"
    by (cases r) auto
  from assms c r have "x1 =
      x0\<lparr>CreditNoteLines := CreditNote_addLines_loop 0 (CreditNote.Lines cn) (CreditNoteLines x0),
         xmlCreditNote.TaxTotal :=
           \<lparr>xmlTaxTotal.TaxAmount = \<lparr>xmlAmount.Value = taxTotal, CurrencyID = ''EUR''\<rparr>,
            TaxSubtotal = subtotals\<rparr>,
         xmlCreditNote.LegalMonetaryTotal :=
           \<lparr>xmlMonetaryTotal.LineExtensionAmount =
              \<lparr>xmlAmount.Value = lineTotal, CurrencyID = ''EUR''\<rparr>,
            TaxExclusiveAmount = \<lparr>xmlAmount.Value = lineTotal, CurrencyID = ''EUR''\<rparr>,
            TaxInclusiveAmount =
              \<lparr>xmlAmount.Value = round_amount (f64_add lineTotal taxTotal),
               CurrencyID = ''EUR''\<rparr>,
            PayableAmount =
              \<lparr>xmlAmount.Value = round_amount (f64_add lineTotal taxTotal),
               CurrencyID = ''EUR''\<rparr>\<rparr>\<rparr>"
    by (simp add: CreditNote_addLines_eq)
  then have "creditnote_totals x1 =
       (lineTotal, lineTotal, taxTotal, round_amount (f64_add lineTotal taxTotal),
        round_amount (f64_add lineTotal taxTotal))"
    "CreditNoteLines x1 = CreditNote_addLines_loop 0 (CreditNote.Lines cn) (CreditNoteLines x0)"
    "TaxSubtotal (xmlCreditNote.TaxTotal x1) = subtotals"
    "xmlCreditNote.SupplierParty x1 = xmlCreditNote.SupplierParty x0"
    "xmlCreditNote.CustomerParty x1 = xmlCreditNote.CustomerParty x0"
    by (simp_all add: creditnote_totals_def)
  with c r that show thesis by blast
qed

lemma GenerateCreditNote_Inr:
  assumes "GenerateCreditNote env cn = Inr (x, out)"
  obtains x0 x1 where
    "GenerateCreditNote_head env cn = Inr x0"
    "CreditNote_addLines (mapRange env) cn x0 = Inr x1"
    "(x, out) = GenerateCreditNote_tail env cn x1"
  using assms by (auto simp: GenerateCreditNote_def split: sum.splits)

lemma GenerateCreditNote_returns:
  assumes "5 \<le> length (CreditNote.SupplierPeppolID cn)"
    and "5 \<le> length (CreditNote.CustomerPeppolID cn)"
    and "\<forall>l \<in> set (CreditNote.Lines cn). \<not> nan_rate l"
  obtains x0 x1 where
    "GenerateCreditNote_head env cn = Inr x0"
    "CreditNote_addLines (mapRange env) cn x0 = Inr x1"
    "GenerateCreditNote env cn = Inr (GenerateCreditNote_tail env cn x1)"
proof -
  from GenerateCreditNote_head_long [OF assms(1,2), of env] obtain x0 where
    h: "GenerateCreditNote_head env cn = Inr x0" by blast
  from calculateTaxTotals_ok [OF assms(3), of "mapRange env"] obtain x1 where
    a: "CreditNote_addLines (mapRange env) cn x0 = Inr x1"
    by (simp add: CreditNote_addLines_eq)
  from h a have "GenerateCreditNote env cn = Inr (GenerateCreditNote_tail env cn x1)"
    by (simp add: GenerateCreditNote_def)
  with h a that show thesis by blast
qed

lemma example_lines_not_nan: "\<forall>l \<in> set example_lines. \<not> nan_rate l"
  by (simp add: example_lines_def example_line_def nan_rate_def line_key_def
      calculateTaxTotals_line_def Let_def lit_not_NaN)

lemma example_line_values:
  "calculateTaxTotals_line (example_line 10 100 21 ''S'' []) =
     (Finite False 1000, ''S'', ''Standard rated'', Finite False 21, Finite False 210)"
  "calculateTaxTotals_line (example_line 5 50 6 ''S'' []) =
     (Finite False 250, ''S'', ''Standard rated'', Finite False 6, Finite False 15)"
  "calculateTaxTotals_line (example_line 2 200 0 ''Z'' []) =
     (Finite False 400, ''Z'', ''Standard rated'', Finite False 0, Finite False 0)"
  "calculateTaxTotals_line (example_line 1 500 0 ''E'' []) =
     (Finite False 500, ''E'', ''Standard rated'', Finite False 0, Finite False 0)"
  by (simp_all add: example_line_def calculateTaxTotals_line_def Let_def round_amount_def
      lit_0 f64_zero_def ev)

lemma example_sums:
  "f64_sum (map line_amount example_lines) = Finite False 2150"
  "f64_sum (map line_tax example_lines) = Finite False 225"
  "round_amount (f64_add (Finite False 2150) (Finite False 225)) = Finite False 2375"
  by (simp_all add: example_lines_def line_amount_def line_tax_def example_line_values
      f64_sum_def f64_zero_def round_amount_def ev)

lemma range_order_Nil: "range_order rng \<Longrightarrow> rng [] = []"
  by (auto simp: range_order_def dest: spec [of _ "[]"])

lemma round_amount_zero: "round_amount (f64_add f64_zero f64_zero) = f64_zero"
  by (simp add: f64_zero_def round_amount_def ev)

lemma calculateTaxTotals_Nil:
  "range_order rng \<Longrightarrow> calculateTaxTotals rng [] = Inr (f64_zero, f64_zero, [])"
  by (simp add: calculateTaxTotals_def range_order_Nil)

text \<open>
  C8. A supplier or customer routing identifier of fewer than 5 bytes makes \<^verbatim>\<open>Generate\<close>
  and \<^verbatim>\<open>GenerateCreditNote\<close> panic with a slice that is out of bounds, and nothing is
  returned. When both identifiers have at least 5 bytes the parties are built, no slice
  is out of bounds, and in every tree that is produced the scheme id of an endpoint is
  the first 4 bytes of the identifier and its value the bytes from index 5 on.
\<close>

theorem peppol_identifier_slicing:
  "(length (Invoice.SupplierPeppolID invoice) < 5 \<or> length (Invoice.CustomerPeppolID invoice) < 5
      \<longrightarrow> Generate env invoice = Inl SliceBoundsOutOfRange) \<and>
   (5 \<le> length (Invoice.SupplierPeppolID invoice) \<and> 5 \<le> length (Invoice.CustomerPeppolID invoice)
      \<longrightarrow> Generate env invoice \<noteq> Inl SliceBoundsOutOfRange \<and>
          (\<forall>x out. Generate env invoice = Inr (x, out) \<longrightarrow>
             EndpointID (xmlSupplierParty.Party (xmlInvoice.SupplierParty x)) =
               \<lparr>xmlEndpointID.Value = drop 5 (Invoice.SupplierPeppolID invoice),
                SchemeID = take 4 (Invoice.SupplierPeppolID invoice)\<rparr> \<and>
             EndpointID (xmlCustomerParty.Party (xmlInvoice.CustomerParty x)) =
               \<lparr>xmlEndpointID.Value = drop 5 (Invoice.CustomerPeppolID invoice),
                SchemeID = take 4 (Invoice.CustomerPeppolID invoice)\<rparr>)) \<and>
   (length (CreditNote.SupplierPeppolID cn) < 5 \<or> length (CreditNote.CustomerPeppolID cn) < 5
      \<longrightarrow> GenerateCreditNote env cn = Inl SliceBoundsOutOfRange) \<and>
   (5 \<le> length (CreditNote.SupplierPeppolID cn) \<and> 5 \<le> length (CreditNote.CustomerPeppolID cn)
      \<longrightarrow> GenerateCreditNote env cn \<noteq> Inl SliceBoundsOutOfRange \<and>
          (\<forall>x out. GenerateCreditNote env cn = Inr (x, out) \<longrightarrow>
             EndpointID (xmlSupplierParty.Party (xmlCreditNote.SupplierParty x)) =
               \<lparr>xmlEndpointID.Value = drop 5 (CreditNote.SupplierPeppolID cn),
                SchemeID = take 4 (CreditNote.SupplierPeppolID cn)\<rparr> \<and>
             EndpointID (xmlCustomerParty.Party (xmlCreditNote.CustomerParty x)) =
               \<lparr>xmlEndpointID.Value = drop 5 (CreditNote.CustomerPeppolID cn),
                SchemeID = take 4 (CreditNote.CustomerPeppolID cn)\<rparr>))"
proof (intro conjI impI allI)
  assume "length (Invoice.SupplierPeppolID invoice) < 5 \<or>
          length (Invoice.CustomerPeppolID invoice) < 5"
  then show "Generate env invoice = Inl SliceBoundsOutOfRange"
    by (simp add: Generate_def Generate_head_short)
next
  assume l: "5 \<le> length (Invoice.SupplierPeppolID invoice) \<and>
             5 \<le> length (Invoice.CustomerPeppolID invoice)"
  then obtain x0 where "Generate_head env invoice = Inr x0"
    using Generate_head_long [of invoice env] by blast
  then show "Generate env invoice \<noteq> Inl SliceBoundsOutOfRange"
    by (auto simp: Generate_def Invoice_addLines_eq calculateTaxTotals_def
        dest: loop_panic split: sum.splits)
next
  fix x out
  assume l: "5 \<le> length (Invoice.SupplierPeppolID invoice) \<and>
             5 \<le> length (Invoice.CustomerPeppolID invoice)"
    and g: "Generate env invoice = Inr (x, out)"
  from g obtain x0 x1 where h: "Generate_head env invoice = Inr x0"
    and a: "Invoice_addLines (mapRange env) invoice x0 = Inr x1"
    and t: "(x, out) = Generate_tail env invoice x1"
    by (rule Generate_Inr)
  from t have x: "x = fst (Generate_tail env invoice x1)" by (metis fst_conv)
  from a have p: "xmlInvoice.SupplierParty x1 = xmlInvoice.SupplierParty x0"
    "xmlInvoice.CustomerParty x1 = xmlInvoice.CustomerParty x0"
    by (auto elim: Invoice_addLines_fields)
  from l h Generate_head_long [of invoice env] x p
  show "EndpointID (xmlSupplierParty.Party (xmlInvoice.SupplierParty x)) =
               \<lparr>xmlEndpointID.Value = drop 5 (Invoice.SupplierPeppolID invoice),
                SchemeID = take 4 (Invoice.SupplierPeppolID invoice)\<rparr>"
    and "EndpointID (xmlCustomerParty.Party (xmlInvoice.CustomerParty x)) =
               \<lparr>xmlEndpointID.Value = drop 5 (Invoice.CustomerPeppolID invoice),
                SchemeID = take 4 (Invoice.CustomerPeppolID invoice)\<rparr>"
    by (auto simp: Generate_tail_fields)
next
  assume "length (CreditNote.SupplierPeppolID cn) < 5 \<or>
          length (CreditNote.CustomerPeppolID cn) < 5"
  then show "GenerateCreditNote env cn = Inl SliceBoundsOutOfRange"
    by (simp add: GenerateCreditNote_def GenerateCreditNote_head_short)
next
  assume l: "5 \<le> length (CreditNote.SupplierPeppolID cn) \<and>
             5 \<le> length (CreditNote.CustomerPeppolID cn)"
  then obtain x0 where "GenerateCreditNote_head env cn = Inr x0"
    using GenerateCreditNote_head_long [of cn env] by blast
  then show "GenerateCreditNote env cn \<noteq> Inl SliceBoundsOutOfRange"
    by (auto simp: GenerateCreditNote_def CreditNote_addLines_eq calculateTaxTotals_def
        dest: loop_panic split: sum.splits)
next
  fix x out
  assume l: "5 \<le> length (CreditNote.SupplierPeppolID cn) \<and>
             5 \<le> length (CreditNote.CustomerPeppolID cn)"
    and g: "GenerateCreditNote env cn = Inr (x, out)"
  from g obtain x0 x1 where h: "GenerateCreditNote_head env cn = Inr x0"
    and a: "CreditNote_addLines (mapRange env) cn x0 = Inr x1"
    and t: "(x, out) = GenerateCreditNote_tail env cn x1"
    by (rule GenerateCreditNote_Inr)
  from t have x: "x = fst (GenerateCreditNote_tail env cn x1)" by (metis fst_conv)
  from a have p: "xmlCreditNote.SupplierParty x1 = xmlCreditNote.SupplierParty x0"
    "xmlCreditNote.CustomerParty x1 = xmlCreditNote.CustomerParty x0"
    by (auto elim: CreditNote_addLines_fields)
  from l h GenerateCreditNote_head_long [of cn env] x p
  show "EndpointID (xmlSupplierParty.Party (xmlCreditNote.SupplierParty x)) =
               \<lparr>xmlEndpointID.Value = drop 5 (CreditNote.SupplierPeppolID cn),
                SchemeID = take 4 (CreditNote.SupplierPeppolID cn)\<rparr>"
    and "EndpointID (xmlCustomerParty.Party (xmlCreditNote.CustomerParty x)) =
               \<lparr>xmlEndpointID.Value = drop 5 (CreditNote.CustomerPeppolID cn),
                SchemeID = take 4 (CreditNote.CustomerPeppolID cn)\<rparr>"
    by (auto simp: GenerateCreditNote_tail_fields)
qed

theorem peppol_identifier_slicing_witness:
  "Generate example_env (example_invoice\<lparr>Invoice.SupplierPeppolID := ''9925''\<rparr>) =
     Inl SliceBoundsOutOfRange \<and>
   GenerateCreditNote example_env (example_creditnote\<lparr>CreditNote.CustomerPeppolID := ''9925''\<rparr>) =
     Inl SliceBoundsOutOfRange \<and>
   (\<exists>x out. Generate example_env example_invoice = Inr (x, out) \<and>
      EndpointID (xmlSupplierParty.Party (xmlInvoice.SupplierParty x)) =
        \<lparr>xmlEndpointID.Value = ''BE0123456789'', SchemeID = ''9925''\<rparr> \<and>
      EndpointID (xmlCustomerParty.Party (xmlInvoice.CustomerParty x)) =
        \<lparr>xmlEndpointID.Value = ''BE9876543210'', SchemeID = ''9925''\<rparr>) \<and>
   (\<exists>x out. GenerateCreditNote example_env example_creditnote = Inr (x, out) \<and>
      EndpointID (xmlSupplierParty.Party (xmlCreditNote.SupplierParty x)) =
        \<lparr>xmlEndpointID.Value = ''BE0123456789'', SchemeID = ''9925''\<rparr> \<and>
      EndpointID (xmlCustomerParty.Party (xmlCreditNote.CustomerParty x)) =
        \<lparr>xmlEndpointID.Value = ''BE9876543210'', SchemeID = ''9925''\<rparr>)"
proof (intro conjI)
  show "Generate example_env (example_invoice\<lparr>Invoice.SupplierPeppolID := ''9925''\<rparr>) =
     Inl SliceBoundsOutOfRange"
    using peppol_identifier_slicing
      [where invoice = "example_invoice\<lparr>Invoice.SupplierPeppolID := ''9925''\<rparr>"
         and env = example_env]
    by simp
next
  show "GenerateCreditNote example_env
      (example_creditnote\<lparr>CreditNote.CustomerPeppolID := ''9925''\<rparr>) = Inl SliceBoundsOutOfRange"
    using peppol_identifier_slicing
      [where cn = "example_creditnote\<lparr>CreditNote.CustomerPeppolID := ''9925''\<rparr>"
         and env = example_env]
    by simp
next
  have "\<forall>l \<in> set (Invoice.Lines example_invoice). \<not> nan_rate l"
    by (simp add: example_invoice_def example_lines_not_nan)
  then obtain x1 where
    g: "Generate example_env example_invoice = Inr (Generate_tail example_env example_invoice x1)"
    by (rule Generate_returns [rotated 2]) (simp_all add: example_invoice_def)
  obtain x out where "Generate_tail example_env example_invoice x1 = (x, out)"
    by (cases "Generate_tail example_env example_invoice x1") auto
  with g have "Generate example_env example_invoice = Inr (x, out)" by simp
  with peppol_identifier_slicing [where invoice = example_invoice and env = example_env]
  show "\<exists>x out. Generate example_env example_invoice = Inr (x, out) \<and>
      EndpointID (xmlSupplierParty.Party (xmlInvoice.SupplierParty x)) =
        \<lparr>xmlEndpointID.Value = ''BE0123456789'', SchemeID = ''9925''\<rparr> \<and>
      EndpointID (xmlCustomerParty.Party (xmlInvoice.CustomerParty x)) =
        \<lparr>xmlEndpointID.Value = ''BE9876543210'', SchemeID = ''9925''\<rparr>"
    by (simp add: example_invoice_def)
next
  have "\<forall>l \<in> set (CreditNote.Lines example_creditnote). \<not> nan_rate l"
    by (simp add: example_creditnote_def example_lines_not_nan)
  then obtain x1 where
    g: "GenerateCreditNote example_env example_creditnote =
          Inr (GenerateCreditNote_tail example_env example_creditnote x1)"
    by (rule GenerateCreditNote_returns [rotated 2]) (simp_all add: example_creditnote_def)
  obtain x out where "GenerateCreditNote_tail example_env example_creditnote x1 = (x, out)"
    by (cases "GenerateCreditNote_tail example_env example_creditnote x1") auto
  with g have "GenerateCreditNote example_env example_creditnote = Inr (x, out)" by simp
  with peppol_identifier_slicing [where cn = example_creditnote and env = example_env]
  show "\<exists>x out. GenerateCreditNote example_env example_creditnote = Inr (x, out) \<and>
      EndpointID (xmlSupplierParty.Party (xmlCreditNote.SupplierParty x)) =
        \<lparr>xmlEndpointID.Value = ''BE0123456789'', SchemeID = ''9925''\<rparr> \<and>
      EndpointID (xmlCustomerParty.Party (xmlCreditNote.CustomerParty x)) =
        \<lparr>xmlEndpointID.Value = ''BE9876543210'', SchemeID = ''9925''\<rparr>"
    by (simp add: example_creditnote_def)
qed

text \<open>
  C9, as stated, fails: an invoice whose attachment cannot be read and whose supplier
  identifier is too short to be sliced makes \<^verbatim>\<open>Generate\<close> panic before the attachment
  is looked at, and no error is returned.
\<close>

theorem attachment_error_preempted:
  "PdfInvoiceFilename (example_invoice\<lparr>Invoice.SupplierPeppolID := ''9925'',
                                      PdfInvoiceFilename := ''missing.pdf''\<rparr>) = ''missing.pdf'' \<and>
   PdfInvoiceData (example_invoice\<lparr>Invoice.SupplierPeppolID := ''9925'',
                                  PdfInvoiceFilename := ''missing.pdf''\<rparr>) = [] \<and>
   readFile example_env ''missing.pdf'' = Inl (OsError ''open: no such file or directory'') \<and>
   Generate example_env (example_invoice\<lparr>Invoice.SupplierPeppolID := ''9925'',
                                         PdfInvoiceFilename := ''missing.pdf''\<rparr>) =
     Inl SliceBoundsOutOfRange"
  by (simp add: Generate_def Generate_head_short example_invoice_def example_env_def)

text \<open>
  C9, amended. For every invoice whose routing identifiers have at least 5 bytes, none
  of whose lines has a NaN rate outside category \<open>K\<close>, and which has a non-empty
  \<^verbatim>\<open>PdfInvoiceFilename\<close> and an empty \<^verbatim>\<open>PdfInvoiceData\<close>: if reading the file fails,
  \<^verbatim>\<open>Generate\<close> returns nil bytes and the read failure wrapped with the context
  \<open>add attachment failed\<close>.
\<close>

theorem attachment_read_failure:
  assumes "5 \<le> length (Invoice.SupplierPeppolID invoice)"
    and "5 \<le> length (Invoice.CustomerPeppolID invoice)"
    and "\<forall>l \<in> set (Invoice.Lines invoice). \<not> nan_rate l"
    and "PdfInvoiceFilename invoice \<noteq> []" and "PdfInvoiceData invoice = []"
    and "readFile env (PdfInvoiceFilename invoice) = Inl e"
  shows "\<exists>x. Generate env invoice = Inr (x, None, Some (Wrapped ''add attachment failed'' e))"
proof -
  from assms(1-3) obtain x1 where
    "Generate env invoice = Inr (Generate_tail env invoice x1)"
    by (rule Generate_returns)
  with assms(4-6) show ?thesis
    by (simp add: Generate_tail_cases)
qed

theorem attachment_read_failure_witness:
  "5 \<le> length (Invoice.SupplierPeppolID (example_invoice\<lparr>PdfInvoiceFilename := ''missing.pdf''\<rparr>)) \<and>
   5 \<le> length (Invoice.CustomerPeppolID (example_invoice\<lparr>PdfInvoiceFilename := ''missing.pdf''\<rparr>)) \<and>
   PdfInvoiceFilename (example_invoice\<lparr>PdfInvoiceFilename := ''missing.pdf''\<rparr>) \<noteq> [] \<and>
   PdfInvoiceData (example_invoice\<lparr>PdfInvoiceFilename := ''missing.pdf''\<rparr>) = [] \<and>
   readFile example_env ''missing.pdf'' = Inl (OsError ''open: no such file or directory'') \<and>
   (\<exists>x. Generate example_env (example_invoice\<lparr>PdfInvoiceFilename := ''missing.pdf''\<rparr>) =
      Inr (x, None,
           Some (Wrapped ''add attachment failed'' (OsError ''open: no such file or directory''))))"
proof -
  let ?inv = "example_invoice\<lparr>PdfInvoiceFilename := ''missing.pdf''\<rparr>"
  have h1: "5 \<le> length (Invoice.SupplierPeppolID ?inv)"
    and h2: "5 \<le> length (Invoice.CustomerPeppolID ?inv)"
    and h4: "PdfInvoiceFilename ?inv \<noteq> []" and h5: "PdfInvoiceData ?inv = []"
    by (simp_all add: example_invoice_def)
  have h3: "\<forall>l \<in> set (Invoice.Lines ?inv). \<not> nan_rate l"
    by (simp add: example_invoice_def example_lines_not_nan)
  have h6: "readFile example_env (PdfInvoiceFilename ?inv) =
      Inl (OsError ''open: no such file or directory'')"
    by (simp add: example_env_def)
  from attachment_read_failure [OF h1 h2 h3 h4 h5 h6] h1 h2 h4 h5 h6
  show ?thesis by simp
qed

text \<open>
  C10, as stated, fails: an invoice without lines whose attachment cannot be read
  makes \<^verbatim>\<open>Generate\<close> return the read failure and nil bytes.
\<close>

theorem empty_invoice_attachment_fails:
  "Invoice.Lines (example_invoice\<lparr>Invoice.Lines := [], PdfInvoiceFilename := ''missing.pdf''\<rparr>) = [] \<and>
   length (Invoice.SupplierPeppolID
     (example_invoice\<lparr>Invoice.Lines := [], PdfInvoiceFilename := ''missing.pdf''\<rparr>)) = 17 \<and>
   length (Invoice.CustomerPeppolID
     (example_invoice\<lparr>Invoice.Lines := [], PdfInvoiceFilename := ''missing.pdf''\<rparr>)) = 17 \<and>
   map_sum id snd
     (Generate example_env
        (example_invoice\<lparr>Invoice.Lines := [], PdfInvoiceFilename := ''missing.pdf''\<rparr>)) =
     Inr (None, Some (Wrapped ''add attachment failed''
                        (OsError ''open: no such file or directory'')))"
proof -
  let ?inv = "example_invoice\<lparr>Invoice.Lines := [], PdfInvoiceFilename := ''missing.pdf''\<rparr>"
  have "\<forall>l \<in> set (Invoice.Lines ?inv). \<not> nan_rate l" by simp
  then obtain x1 where
    "Generate example_env ?inv = Inr (Generate_tail example_env ?inv x1)"
    by (rule Generate_returns [rotated 2]) (simp_all add: example_invoice_def)
  then have "map_sum id snd (Generate example_env ?inv) =
     Inr (None, Some (Wrapped ''add attachment failed''
                        (OsError ''open: no such file or directory'')))"
    by (simp add: Generate_tail_cases example_invoice_def example_env_def)
  then show ?thesis by (simp add: example_invoice_def)
qed

text \<open>
  C10, amended. For every invoice without lines whose routing identifiers have at
  least 5 bytes: if the attachment file, when one is asked for, can be read and the XML
  encoder accepts the tree, \<^verbatim>\<open>Generate\<close> returns bytes and a nil error, and the tree has
  no line fragment, no tax subtotal, and the five monetary totals are 0.
\<close>

theorem empty_invoice:
  assumes "Invoice.Lines invoice = []"
    and "5 \<le> length (Invoice.SupplierPeppolID invoice)"
    and "5 \<le> length (Invoice.CustomerPeppolID invoice)"
    and "range_order (mapRange env)"
    and "PdfInvoiceFilename invoice \<noteq> [] \<and> PdfInvoiceData invoice = [] \<longrightarrow>
         (\<exists>data. readFile env (PdfInvoiceFilename invoice) = Inr data)"
    and "\<forall>x. \<exists>output. marshalIndentInvoice env x = Inr output"
  shows "\<exists>x bytes. Generate env invoice = Inr (x, Some bytes, None) \<and>
     InvoiceLines x = [] \<and> TaxSubtotal (xmlInvoice.TaxTotal x) = [] \<and>
     invoice_totals x = (f64_zero, f64_zero, f64_zero, f64_zero, f64_zero)"
proof -
  from Generate_head_long [OF assms(2,3), of env] obtain x0 where
    h: "Generate_head env invoice = Inr x0" and l0: "InvoiceLines x0 = []" by blast
  define x1 where "x1 =
      x0\<lparr>InvoiceLines := [],
         xmlInvoice.TaxTotal :=
           \<lparr>xmlTaxTotal.TaxAmount = \<lparr>xmlAmount.Value = f64_zero, CurrencyID = ''EUR''\<rparr>,
            TaxSubtotal = []\<rparr>,
         xmlInvoice.LegalMonetaryTotal :=
           \<lparr>xmlMonetaryTotal.LineExtensionAmount =
              \<lparr>xmlAmount.Value = f64_zero, CurrencyID = ''EUR''\<rparr>,
            TaxExclusiveAmount = \<lparr>xmlAmount.Value = f64_zero, CurrencyID = ''EUR''\<rparr>,
            TaxInclusiveAmount = \<lparr>xmlAmount.Value = f64_zero, CurrencyID = ''EUR''\<rparr>,
            PayableAmount = \<lparr>xmlAmount.Value = f64_zero, CurrencyID = ''EUR''\<rparr>\<rparr>\<rparr>"
  have a: "Invoice_addLines (mapRange env) invoice x0 = Inr x1"
    using assms(1,4) l0
    by (simp add: Invoice_addLines_eq calculateTaxTotals_Nil round_amount_zero x1_def)
  have f: "InvoiceLines x1 = []" "TaxSubtotal (xmlInvoice.TaxTotal x1) = []"
    "invoice_totals x1 = (f64_zero, f64_zero, f64_zero, f64_zero, f64_zero)"
    by (simp_all add: x1_def invoice_totals_def)
  from h a have g: "Generate env invoice = Inr (Generate_tail env invoice x1)"
    by (simp add: Generate_def)
  obtain x out where xo: "Generate_tail env invoice x1 = (x, out)"
    by (cases "Generate_tail env invoice x1") auto
  then have x: "x = fst (Generate_tail env invoice x1)" by simp
  have "\<exists>bytes. out = (Some bytes, None)"
  proof (cases "PdfInvoiceFilename invoice \<noteq> [] \<and> PdfInvoiceData invoice = []")
    case True
    with assms(5) obtain data where r: "readFile env (PdfInvoiceFilename invoice) = Inr data"
      by blast
    define y where "y = x1\<lparr>xmlInvoice.AdditionalDocumentReference :=
                             document_references (Invoice.ID invoice) (encodeToString env data)
                               (detectContentType env data) (PdfInvoiceFilename invoice) ''Invoice''\<rparr>"
    from assms(6) obtain bs where "marshalIndentInvoice env y = Inr bs" by blast
    with True r xo show ?thesis
      by (auto simp: Generate_tail_cases Let_def y_def)
  next
    case False
    define y where "y = (if PdfInvoiceData invoice \<noteq> []
                     then x1\<lparr>xmlInvoice.AdditionalDocumentReference :=
                             document_references (Invoice.ID invoice) (PdfInvoiceData invoice)
                               ''application/pdf'' (PdfInvoiceFilename invoice)
                               (PdfInvoiceDescription invoice)\<rparr>
                     else x1)"
    from assms(6) obtain bs where "marshalIndentInvoice env y = Inr bs" by blast
    moreover from False have "Generate_tail env invoice x1 =
        (case marshalIndentInvoice env y of
           Inl e \<Rightarrow> (y, None, Some (Wrapped ''xml marshal failed'' e))
         | Inr bs \<Rightarrow> (y, Some (xml_Header @ bs), None))"
      by (auto simp: Generate_tail_cases Let_def y_def cong: sum.case_cong)
    ultimately show ?thesis using xo by simp
  qed
  then obtain bytes where "out = (Some bytes, None)" by blast
  with g xo have "Generate env invoice = Inr (x, Some bytes, None)" by simp
  moreover from x f have "InvoiceLines x = []" "TaxSubtotal (xmlInvoice.TaxTotal x) = []"
    "invoice_totals x = (f64_zero, f64_zero, f64_zero, f64_zero, f64_zero)"
    by (simp_all add: Generate_tail_fields)
  ultimately show ?thesis by blast
qed

theorem empty_invoice_witness:
  "Invoice.Lines (example_invoice\<lparr>Invoice.Lines := []\<rparr>) = [] \<and>
   5 \<le> length (Invoice.SupplierPeppolID (example_invoice\<lparr>Invoice.Lines := []\<rparr>)) \<and>
   5 \<le> length (Invoice.CustomerPeppolID (example_invoice\<lparr>Invoice.Lines := []\<rparr>)) \<and>
   range_order (mapRange example_env) \<and>
   readFile example_env (PdfInvoiceFilename (example_invoice\<lparr>Invoice.Lines := []\<rparr>)) =
     Inr ''%PDF-1.4'' \<and>
   (\<exists>x. Generate example_env (example_invoice\<lparr>Invoice.Lines := []\<rparr>) =
          Inr (x, Some (xml_Header @ ''<Invoice></Invoice>''), None) \<and>
        InvoiceLines x = [] \<and> TaxSubtotal (xmlInvoice.TaxTotal x) = [] \<and>
        invoice_totals x =
          (Finite False 0, Finite False 0, Finite False 0, Finite False 0, Finite False 0))"
proof -
  let ?inv = "example_invoice\<lparr>Invoice.Lines := []\<rparr>"
  have h1: "Invoice.Lines ?inv = []" by simp
  have h2: "5 \<le> length (Invoice.SupplierPeppolID ?inv)"
    and h3: "5 \<le> length (Invoice.CustomerPeppolID ?inv)"
    by (simp_all add: example_invoice_def)
  have h4: "range_order (mapRange example_env)"
    by (simp add: range_order_def example_env_def)
  have r: "readFile example_env (PdfInvoiceFilename ?inv) = Inr ''%PDF-1.4''"
    by (simp add: example_env_def example_invoice_def)
  then have h5: "PdfInvoiceFilename ?inv \<noteq> [] \<and> PdfInvoiceData ?inv = [] \<longrightarrow>
         (\<exists>data. readFile example_env (PdfInvoiceFilename ?inv) = Inr data)"
    by simp
  have m: "marshalIndentInvoice example_env x = Inr ''<Invoice></Invoice>''" for x
    by (simp add: example_env_def)
  then have h6: "\<forall>x. \<exists>output. marshalIndentInvoice example_env x = Inr output"
    by simp
  from empty_invoice [OF h1 h2 h3 h4 h5 h6] obtain x bytes where
    g: "Generate example_env ?inv = Inr (x, Some bytes, None)"
    and f: "InvoiceLines x = []" "TaxSubtotal (xmlInvoice.TaxTotal x) = []"
      "invoice_totals x = (f64_zero, f64_zero, f64_zero, f64_zero, f64_zero)"
    by blast
  from g obtain x0 x1 where "(x, Some bytes, None) = Generate_tail example_env ?inv x1"
    by (rule Generate_Inr)
  then have "bytes = xml_Header @ ''<Invoice></Invoice>''"
    using m r by (auto simp: Generate_tail_cases Let_def example_invoice_def split: if_splits)
  with g f h1 h2 h3 h4 r show ?thesis
    by (simp add: f64_zero_def)
qed

section \<open>The tax category of a line\<close>

lemma round_amount_signed_zero: "round_amount (Finite s 0) = Finite s 0"
  by (simp add: round_amount_def lit_100 f64_mul.simps f64_div.simps to_binary64_zero
      math_Round_eq [where k = 0])

lemma line_resolution:
  "xmlTaxCategory.ID (ClassifiedTaxCategory (xmlInvoiceLine.Item (Invoice_addLines_line i line))) =
     CategoryID (line_key line)"
  "xmlTaxCategory.Name (ClassifiedTaxCategory (xmlInvoiceLine.Item (Invoice_addLines_line i line))) =
     line_category_name line"
  "Percent (ClassifiedTaxCategory (xmlInvoiceLine.Item (Invoice_addLines_line i line))) =
     Rate (line_key line)"
  "xmlTaxCategory.ID (ClassifiedTaxCategory (xmlCreditNoteLine.Item (CreditNote_addLines_line i line))) =
     CategoryID (line_key line)"
  "xmlTaxCategory.Name (ClassifiedTaxCategory (xmlCreditNoteLine.Item (CreditNote_addLines_line i line))) =
     line_category_name line"
  "Percent (ClassifiedTaxCategory (xmlCreditNoteLine.Item (CreditNote_addLines_line i line))) =
     Rate (line_key line)"
  by (simp_all add: Invoice_addLines_line_def CreditNote_addLines_line_def line_key_def
      line_category_name_def calculateTaxTotals_line_def Let_def)

lemma intra_community_rate:
  assumes "CategoryID (line_key line) = ''K''"
  shows "Rate (line_key line) = f64_zero"
  using assms by (simp add: line_key_def calculateTaxTotals_line_def Let_def lit_0 split: if_splits)

lemma intra_community_tax:
  assumes "CategoryID (line_key line) = ''K''" and "line_amount line = Finite s m"
  shows "line_tax line = Finite s 0"
proof -
  from assms(1) have k: "(if TaxCategoryID line = [] then ''S'' else TaxCategoryID line) = ''K''"
    by (simp add: line_key_def calculateTaxTotals_line_def Let_def)
  with assms(2) have "line_tax line =
      round_amount (f64_div (f64_mul (Finite s m) (Finite False 0)) (Finite False 100))"
    by (simp add: line_tax_def line_amount_def calculateTaxTotals_line_def Let_def lit_0
        f64_zero_def lit_100)
  then show ?thesis
    by (simp add: f64_mul.simps f64_div.simps to_binary64_zero round_amount_signed_zero)
qed

lemma intra_community_fragments:
  assumes "CategoryID (line_key line) = ''K''"
  shows "intra_community_category line
           (ClassifiedTaxCategory (xmlInvoiceLine.Item (Invoice_addLines_line i line)))"
    and "intra_community_category line
           (ClassifiedTaxCategory (xmlCreditNoteLine.Item (CreditNote_addLines_line i line)))"
    and "xmlAmount.Value (xmlTaxTotal.TaxAmount (xmlInvoiceLine.TaxTotal
           (Invoice_addLines_line i line))) = f64_zero"
proof -
  from assms have k: "(if TaxCategoryID line = [] then ''S'' else TaxCategoryID line) = ''K''"
    by (simp add: line_key_def calculateTaxTotals_line_def Let_def)
  then show "intra_community_category line
           (ClassifiedTaxCategory (xmlInvoiceLine.Item (Invoice_addLines_line i line)))"
    and "intra_community_category line
           (ClassifiedTaxCategory (xmlCreditNoteLine.Item (CreditNote_addLines_line i line)))"
    and "xmlAmount.Value (xmlTaxTotal.TaxAmount (xmlInvoiceLine.TaxTotal
           (Invoice_addLines_line i line))) = f64_zero"
    by (simp_all add: intra_community_category_def Invoice_addLines_line_def
        CreditNote_addLines_line_def Let_def lit_0)
qed

lemma intra_community_line_values:
  "calculateTaxTotals_line intra_community_line =
     (Finite False 20, ''K'', ''Intra-EU supply'', Finite False 0, Finite False 0)"
  by (simp add: intra_community_line_def example_line_def calculateTaxTotals_line_def Let_def
      round_amount_def lit_0 f64_zero_def ev)

section \<open>The subtotals of a document\<close>

lemma calculateTaxTotals_Inr_inv:
  assumes "calculateTaxTotals rng lines = Inr (lineTotal, taxTotal, subtotals)"
  obtains m where "agg_inv lines m"
    and "lineTotal = f64_sum (map line_amount lines)"
    and "taxTotal = f64_sum (map line_tax lines)"
    and "subtotals = map (\<lambda>e. calculateTaxTotals_subtotal (snd e)) (rng m)"
proof -
  from assms have n: "\<forall>l \<in> set lines. \<not> nan_rate l"
    by (rule calculateTaxTotals_Inr)
  from assms calculateTaxTotals_ok [OF n, of rng]
  have "lineTotal = f64_sum (map line_amount lines)"
    and "taxTotal = f64_sum (map line_tax lines)"
    and "subtotals = map (\<lambda>e. calculateTaxTotals_subtotal (snd e)) (rng (summaries_after lines []))"
    by (simp_all add: case_prod_unfold)
  with agg_inv_after [OF n] that show thesis by blast
qed

lemma agg_inv_entry:
  assumes "agg_inv lines m" and "e \<in> set m"
  shows "subtotal_key (calculateTaxTotals_subtotal (snd e)) = fst e"
    and "xmlAmount.Value (TaxableAmount (calculateTaxTotals_subtotal (snd e))) =
           f64_sum (map line_amount (lines_of_key (fst e) lines))"
    and "xmlAmount.Value (xmlTaxSubtotal.TaxAmount (calculateTaxTotals_subtotal (snd e))) =
           f64_sum (map line_tax (lines_of_key (fst e) lines))"
    and "xmlTaxCategory.Name (TaxCategory (calculateTaxTotals_subtotal (snd e))) =
           line_category_name (hd (lines_of_key (fst e) lines))"
proof -
  from assms have "snd e = summary_of lines (fst e)"
    by (simp add: agg_inv_def)
  then show "subtotal_key (calculateTaxTotals_subtotal (snd e)) = fst e"
    and "xmlAmount.Value (TaxableAmount (calculateTaxTotals_subtotal (snd e))) =
           f64_sum (map line_amount (lines_of_key (fst e) lines))"
    and "xmlAmount.Value (xmlTaxSubtotal.TaxAmount (calculateTaxTotals_subtotal (snd e))) =
           f64_sum (map line_tax (lines_of_key (fst e) lines))"
    and "xmlTaxCategory.Name (TaxCategory (calculateTaxTotals_subtotal (snd e))) =
           line_category_name (hd (lines_of_key (fst e) lines))"
    by (simp_all add: subtotal_fields summary_of_def)
qed

lemma range_order_set: "range_order rng \<Longrightarrow> set (rng m) = set m"
  by (auto simp: range_order_def dest: mset_eq_setD)

lemma range_order_distinct:
  assumes "range_order rng" and "distinct (map fst m)"
  shows "distinct (map fst (rng m))"
proof -
  from assms(1) have "mset (map fst (rng m)) = mset (map fst m)"
    by (simp add: range_order_def)
  with assms(2) show ?thesis
    by (metis mset_eq_imp_distinct_iff)
qed

lemma lines_of_key_cong:
  assumes "taxKey_eq k k'"
  shows "lines_of_key k ls = lines_of_key k' ls"
proof -
  have "taxKey_eq k (line_key l) = taxKey_eq k' (line_key l)" for l
    using assms taxKey_eq_trans taxKey_eq_sym by blast
  then show ?thesis by (simp add: lines_of_key_def)
qed

lemma unique_keys_emitted:
  assumes "range_order rng" and "agg_inv lines m"
  shows "unique_keys (map (\<lambda>e. calculateTaxTotals_subtotal (snd e)) (rng m))"
  unfolding unique_keys_def
proof (intro allI impI)
  fix i j
  assume i: "i < length (map (\<lambda>e. calculateTaxTotals_subtotal (snd e)) (rng m))"
    and j: "j < length (map (\<lambda>e. calculateTaxTotals_subtotal (snd e)) (rng m))"
    and ij: "i \<noteq> j"
  from i j have mem: "rng m ! i \<in> set m" "rng m ! j \<in> set m"
    using range_order_set [OF assms(1), of m] by (metis length_map nth_mem)+
  from assms(2) have d: "distinct (map fst (rng m))"
    by (intro range_order_distinct [OF assms(1)]) (simp add: agg_inv_def)
  from i j ij d have ne: "fst (rng m ! i) \<noteq> fst (rng m ! j)"
    by (auto simp: distinct_conv_nth)
  from assms(2) mem have "taxKey_eq (fst (rng m ! i)) (fst (rng m ! j)) \<longrightarrow>
      fst (rng m ! i) = fst (rng m ! j)"
    by (simp add: agg_inv_def)
  with ne i j mem show "\<not> taxKey_eq
      (subtotal_key (map (\<lambda>e. calculateTaxTotals_subtotal (snd e)) (rng m) ! i))
      (subtotal_key (map (\<lambda>e. calculateTaxTotals_subtotal (snd e)) (rng m) ! j))"
    by (simp add: agg_inv_entry [OF assms(2)])
qed

lemma single_key_entry:
  assumes inv: "agg_inv lines m" and ne: "lines \<noteq> []"
    and one: "\<forall>line \<in> set lines. taxKey_eq (line_key (hd lines)) (line_key line)"
  obtains e where "m = [e]" and "lines_of_key (fst e) lines = lines"
proof -
  have key: "taxKey_eq (fst e) (line_key l)" if "e \<in> set m" "l \<in> set lines" for e l
  proof -
    from inv that(1) have f: "lines_of_key (fst e) lines \<noteq> []"
      "fst e = line_key (hd (lines_of_key (fst e) lines))"
      by (simp_all add: agg_inv_def)
    from f(1) have "hd (lines_of_key (fst e) lines) \<in> set lines"
      using hd_in_set [of "lines_of_key (fst e) lines"] by (auto simp: lines_of_key_def)
    with one f(2) have "taxKey_eq (line_key (hd lines)) (fst e)" by metis
    with one that(2) show ?thesis
      using taxKey_eq_trans taxKey_eq_sym by blast
  qed
  have same: "fst e = fst e'" if "e \<in> set m" "e' \<in> set m" for e e'
  proof -
    from ne have "hd lines \<in> set lines" by simp
    with key that have "taxKey_eq (fst e) (fst e')"
      using taxKey_eq_trans taxKey_eq_sym by blast
    with inv that show ?thesis by (simp add: agg_inv_def)
  qed
  from inv ne obtain e0 where e0: "e0 \<in> set m"
    by (cases lines) (auto simp: agg_inv_def)
  from inv have d: "distinct (map fst m)" by (simp add: agg_inv_def)
  have "m = [e0]"
  proof (cases m)
    case Nil
    with e0 show ?thesis by simp
  next
    case (Cons a m')
    show ?thesis
    proof (cases m')
      case Nil
      with Cons e0 show ?thesis by simp
    next
      case (Cons b m'')
      with \<open>m = a # m'\<close> same [of a b] d show ?thesis by simp
    qed
  qed
  moreover have "lines_of_key (fst e0) lines = lines"
    using key [OF e0] by (simp add: lines_of_key_def)
  ultimately show thesis using that by blast
qed

lemma range_order_id: "range_order id"
  by (simp add: range_order_def)

lemma range_order_rotate1: "range_order rotate1"
proof -
  have "mset (rotate1 m) = mset m" for m :: summaries
    by (cases m) simp_all
  then show ?thesis
    by (simp add: range_order_def)
qed

lemma range_order_single:
  assumes "range_order rng"
  shows "rng [e] = [e]"
proof -
  from assms have "mset (rng [e]) = {#e#}"
    by (simp add: range_order_def)
  then show ?thesis
    by (metis mset_single_iff_right)
qed

lemma renamed_lines_not_nan: "\<forall>l \<in> set renamed_lines. \<not> nan_rate l"
  by (simp add: renamed_lines_def example_line_def nan_rate_def line_key_def
      calculateTaxTotals_line_def Let_def lit_not_NaN)

lemma renamed_line_values:
  "calculateTaxTotals_line (example_line 10 100 21 ''S'' ''Standard rated'') =
     (Finite False 1000, ''S'', ''Standard rated'', Finite False 21, Finite False 210)"
  "calculateTaxTotals_line (example_line 5 50 21 ''S'' ''Normal rate'') =
     (Finite False 250, ''S'', ''Normal rate'', Finite False 21, Finite False (105 / 2))"
  by (simp_all add: example_line_def calculateTaxTotals_line_def Let_def round_amount_def ev)

lemma renamed_output:
  "calculateTaxTotals id renamed_lines =
     Inr (Finite False 1250, Finite False (525 / 2), renamed_subtotals)"
  by (subst calculateTaxTotals_ok [OF renamed_lines_not_nan])
    (simp add: renamed_lines_def
      line_amount_def line_tax_def line_key_def line_category_name_def renamed_line_values
      taxKey_eq_def f64_sum_def f64_zero_def ev calculateTaxTotals_subtotal_def Let_def
      renamed_subtotals_def example_subtotal_def)

lemma drifting_lines_not_nan: "\<forall>l \<in> set drifting_lines. \<not> nan_rate l"
  by (simp add: drifting_lines_def example_line_def nan_rate_def line_key_def
      calculateTaxTotals_line_def Let_def lit_not_NaN)

lemma drifting_line_values:
  "calculateTaxTotals_line (example_line 1 (1 / 10) 21 ''S'' []) =
     (Finite False (3602879701896397 / 36028797018963968), ''S'', ''Standard rated'',
      Finite False 21, Finite False (5764607523034235 / 288230376151711744))"
  "calculateTaxTotals_line (example_line 1 (7 / 10) 6 ''S'' []) =
     (Finite False (3152519739159347 / 4503599627370496), ''S'', ''Standard rated'',
      Finite False 6, Finite False (5764607523034235 / 144115188075855872))"
  "calculateTaxTotals_line (example_line 1 (3 / 10) 21 ''S'' []) =
     (Finite False (5404319552844595 / 18014398509481984), ''S'', ''Standard rated'',
      Finite False 21, Finite False (1080863910568919 / 18014398509481984))"
  by (simp_all add: example_line_def calculateTaxTotals_line_def Let_def round_amount_def ev)

lemma drifting_output:
  "calculateTaxTotals id drifting_lines =
     Inr (Finite False (4953959590107545 / 4503599627370496),
          Finite False (1080863910568919 / 9007199254740992), drifting_subtotals)"
  by (subst calculateTaxTotals_ok [OF drifting_lines_not_nan])
    (simp add: drifting_lines_def
      line_amount_def line_tax_def line_key_def line_category_name_def drifting_line_values
      taxKey_eq_def f64_sum_def f64_zero_def ev calculateTaxTotals_subtotal_def Let_def
      drifting_subtotals_def example_subtotal_def)

lemma drifting_sums:
  "sum_taxable drifting_subtotals = Finite False (2476979795053773 / 2251799813685248)"
  "sum_taxable (rev drifting_subtotals) = Finite False (2476979795053773 / 2251799813685248)"
  by (simp_all add: sum_taxable_def drifting_subtotals_def example_subtotal_def f64_sum_def
      f64_zero_def ev)

text \<open>
  Three lines of 0.10, 0.70 and 0.30 at the rates 21, 6 and 21: the line-extension
  total is (0.10 + 0.70) + 0.30, which float64 rounds to 1.0999999999999999, while the
  taxable amounts of the two subtotals, 0.10 + 0.30 and 0.70, add up to 1.1 in either
  order.
\<close>

theorem subtotal_sum_drifts:
  "calculateTaxTotals id drifting_lines =
     Inr (Finite False (4953959590107545 / 4503599627370496),
          Finite False (1080863910568919 / 9007199254740992), drifting_subtotals) \<and>
   sum_taxable drifting_subtotals = Finite False (2476979795053773 / 2251799813685248) \<and>
   sum_taxable (rev drifting_subtotals) = Finite False (2476979795053773 / 2251799813685248) \<and>
   \<not> f64_eq (Finite False (2476979795053773 / 2251799813685248))
           (Finite False (4953959590107545 / 4503599627370496))"
  by (simp add: drifting_output drifting_sums)

text \<open>
  C4, as the code has it. When the aggregation returns, the line-extension total and
  the tax total are the float64 sums of the amounts and taxes of the lines, in line
  order; the taxable amount and the tax amount of every subtotal are the float64 sums
  of the amounts and taxes of the lines under its key, in line order; every line has a
  subtotal under its key and no two subtotals have one key; and when all the lines have
  one key, the amounts of the only subtotal are the two totals, exactly.
\<close>

theorem subtotal_sums:
  assumes "range_order rng"
    and "calculateTaxTotals rng lines = Inr (lineTotal, taxTotal, subtotals)"
  shows "lineTotal = f64_sum (map line_amount lines) \<and>
         taxTotal = f64_sum (map line_tax lines) \<and>
         (\<forall>st \<in> set subtotals.
            xmlAmount.Value (TaxableAmount st) =
              f64_sum (map line_amount (lines_of_key (subtotal_key st) lines)) \<and>
            xmlAmount.Value (xmlTaxSubtotal.TaxAmount st) =
              f64_sum (map line_tax (lines_of_key (subtotal_key st) lines))) \<and>
         (\<forall>line \<in> set lines. \<exists>st \<in> set subtotals. taxKey_eq (subtotal_key st) (line_key line)) \<and>
         unique_keys subtotals \<and>
         (single_key lines \<longrightarrow>
            (\<exists>st. subtotals = [st] \<and> xmlAmount.Value (TaxableAmount st) = lineTotal \<and>
                  xmlAmount.Value (xmlTaxSubtotal.TaxAmount st) = taxTotal))"
proof -
  from assms(2) obtain m where inv: "agg_inv lines m"
    and lt: "lineTotal = f64_sum (map line_amount lines)"
    and tt: "taxTotal = f64_sum (map line_tax lines)"
    and subs: "subtotals = map (\<lambda>e. calculateTaxTotals_subtotal (snd e)) (rng m)"
    by (rule calculateTaxTotals_Inr_inv)
  note set = range_order_set [OF assms(1), of m]
  have per_key: "xmlAmount.Value (TaxableAmount st) =
        f64_sum (map line_amount (lines_of_key (subtotal_key st) lines)) \<and>
      xmlAmount.Value (xmlTaxSubtotal.TaxAmount st) =
        f64_sum (map line_tax (lines_of_key (subtotal_key st) lines))"
    if "st \<in> set subtotals" for st
  proof -
    from that subs set obtain e where "e \<in> set m" "st = calculateTaxTotals_subtotal (snd e)"
      by auto
    then show ?thesis
      by (simp add: agg_inv_entry [OF inv])
  qed
  have covered: "\<exists>st \<in> set subtotals. taxKey_eq (subtotal_key st) (line_key line)"
    if "line \<in> set lines" for line
  proof -
    from inv that obtain e where e: "e \<in> set m" "taxKey_eq (fst e) (line_key line)"
      by (auto simp: agg_inv_def)
    from e(1) subs set have "calculateTaxTotals_subtotal (snd e) \<in> set subtotals"
      by auto
    with e show ?thesis
      using agg_inv_entry(1) [OF inv e(1)] by metis
  qed
  have unique: "unique_keys subtotals"
    unfolding subs by (rule unique_keys_emitted [OF assms(1) inv])
  have single: "\<exists>st. subtotals = [st] \<and> xmlAmount.Value (TaxableAmount st) = lineTotal \<and>
      xmlAmount.Value (xmlTaxSubtotal.TaxAmount st) = taxTotal"
    if "single_key lines"
  proof -
    from that have "lines \<noteq> []"
      and "\<forall>line \<in> set lines. taxKey_eq (line_key (hd lines)) (line_key line)"
      by (simp_all add: single_key_def)
    with inv obtain e where m: "m = [e]" and all: "lines_of_key (fst e) lines = lines"
      by (rule single_key_entry)
    from m have "e \<in> set m" by simp
    from agg_inv_entry(2,3) [OF inv this] all lt tt
    have "xmlAmount.Value (TaxableAmount (calculateTaxTotals_subtotal (snd e))) = lineTotal"
      and "xmlAmount.Value (xmlTaxSubtotal.TaxAmount (calculateTaxTotals_subtotal (snd e))) = taxTotal"
      by simp_all
    moreover from subs m have "subtotals = [calculateTaxTotals_subtotal (snd e)]"
      by (simp add: range_order_single [OF assms(1)])
    ultimately show ?thesis by blast
  qed
  from lt tt per_key covered unique single show ?thesis by blast
qed

lemma renamed_single_key: "single_key renamed_lines"
  by (simp add: single_key_def renamed_lines_def line_key_def renamed_line_values
      taxKey_eq_def)

theorem subtotal_sums_witness:
  "range_order id \<and>
   calculateTaxTotals id renamed_lines =
     Inr (Finite False 1250, Finite False (525 / 2), renamed_subtotals) \<and>
   single_key renamed_lines \<and>
   f64_sum (map line_amount renamed_lines) = Finite False 1250 \<and>
   f64_sum (map line_tax renamed_lines) = Finite False (525 / 2) \<and>
   unique_keys renamed_subtotals \<and>
   (\<exists>st. renamed_subtotals = [st] \<and>
         xmlAmount.Value (TaxableAmount st) = Finite False 1250 \<and>
         xmlAmount.Value (xmlTaxSubtotal.TaxAmount st) = Finite False (525 / 2))"
proof -
  note t = subtotal_sums [OF range_order_id renamed_output]
  from t have "f64_sum (map line_amount renamed_lines) = Finite False 1250"
    and "f64_sum (map line_tax renamed_lines) = Finite False (525 / 2)"
    and "unique_keys renamed_subtotals"
    by metis+
  moreover from t renamed_single_key
  have "\<exists>st. renamed_subtotals = [st] \<and>
         xmlAmount.Value (TaxableAmount st) = Finite False 1250 \<and>
         xmlAmount.Value (xmlTaxSubtotal.TaxAmount st) = Finite False (525 / 2)"
    by blast
  ultimately show ?thesis
    using range_order_id renamed_output renamed_single_key by blast
qed

lemma example_output:
  "calculateTaxTotals id example_lines =
     Inr (Finite False 2150, Finite False 225, example_subtotals)"
  "calculateTaxTotals rotate1 example_lines =
     Inr (Finite False 2150, Finite False 225, rotate1 example_subtotals)"
  by (subst calculateTaxTotals_ok [OF example_lines_not_nan],
      simp add: example_lines_def line_amount_def line_tax_def line_key_def
        line_category_name_def example_line_values taxKey_eq_def f64_sum_def f64_zero_def ev
        calculateTaxTotals_subtotal_def Let_def example_subtotals_def example_subtotal_def)+

text \<open>
  The invoice of the package's test has four keys. A run that visits the map in the
  order of insertion and a run that starts at the second entry and ends with the first
  are both runs of the program; their subtotals come out in different orders.
\<close>

theorem subtotal_order_unstable:
  "range_order id \<and> range_order rotate1 \<and>
   calculateTaxTotals id example_lines =
     Inr (Finite False 2150, Finite False 225, example_subtotals) \<and>
   calculateTaxTotals rotate1 example_lines =
     Inr (Finite False 2150, Finite False 225, rotate1 example_subtotals) \<and>
   rotate1 example_subtotals \<noteq> example_subtotals"
  by (simp add: range_order_id range_order_rotate1 example_output)
    (simp add: example_subtotals_def example_subtotal_def)

text \<open>
  C5, as the code has it. Two runs of the aggregation over the same lines, whatever the
  orders in which they visit the map, both panic in the same way or both return, with
  the same two totals and the same subtotals up to their order; and the subtotals that
  a run returns have pairwise different keys. The order of the subtotals is the order
  in which the run visits the map.
\<close>

theorem subtotals_deterministic:
  assumes "range_order rng" and "range_order rng'"
  shows "unordered (calculateTaxTotals rng lines) = unordered (calculateTaxTotals rng' lines) \<and>
         (\<forall>lineTotal taxTotal subtotals.
            calculateTaxTotals rng lines = Inr (lineTotal, taxTotal, subtotals) \<longrightarrow>
            unique_keys subtotals)"
proof
  from assms have "mset (map f (rng m)) = mset (map f (rng' m))" for m
    and f :: "taxKey \<times> taxSummary \<Rightarrow> xmlTaxSubtotal"
    by (simp add: range_order_def)
  then show "unordered (calculateTaxTotals rng lines) = unordered (calculateTaxTotals rng' lines)"
    by (simp add: unordered_def calculateTaxTotals_def split: sum.splits prod.splits)
next
  show "\<forall>lineTotal taxTotal subtotals.
      calculateTaxTotals rng lines = Inr (lineTotal, taxTotal, subtotals) \<longrightarrow>
      unique_keys subtotals"
  proof (intro allI impI)
    fix lineTotal taxTotal subtotals
    assume "calculateTaxTotals rng lines = Inr (lineTotal, taxTotal, subtotals)"
    then obtain m where "agg_inv lines m"
      and "subtotals = map (\<lambda>e. calculateTaxTotals_subtotal (snd e)) (rng m)"
      by (rule calculateTaxTotals_Inr_inv)
    with assms(1) show "unique_keys subtotals"
      by (simp add: unique_keys_emitted)
  qed
qed

theorem subtotals_deterministic_witness:
  "range_order id \<and> range_order rotate1 \<and>
   calculateTaxTotals id example_lines =
     Inr (Finite False 2150, Finite False 225, example_subtotals) \<and>
   unordered (calculateTaxTotals rotate1 example_lines) =
     Inr (Finite False 2150, Finite False 225, mset example_subtotals) \<and>
   unique_keys example_subtotals"
proof -
  note t = subtotals_deterministic [OF range_order_id range_order_rotate1, of example_lines]
  from t have "unordered (calculateTaxTotals rotate1 example_lines) =
      Inr (Finite False 2150, Finite False 225, mset example_subtotals)"
    by (simp add: example_output(1) unordered_def)
  moreover from t example_output(1) have "unique_keys example_subtotals"
    by blast
  ultimately show ?thesis
    using range_order_id range_order_rotate1 example_output(1) by blast
qed

section \<open>The line builders and the aggregator\<close>

lemma line_category_agree:
  "ClassifiedTaxCategory (xmlCreditNoteLine.Item (CreditNote_addLines_line i line)) =
     ClassifiedTaxCategory (xmlInvoiceLine.Item (Invoice_addLines_line i line))"
  by (simp add: Invoice_addLines_line_def CreditNote_addLines_line_def Let_def)

lemma line_category_rest:
  "xmlTaxCategory.TaxScheme (ClassifiedTaxCategory (xmlInvoiceLine.Item (Invoice_addLines_line i line))) =
     \<lparr>xmlTaxScheme.ID = ''VAT''\<rparr>"
  "TaxExemptionCode line = [] \<Longrightarrow>
     TaxExemptionReasonCode (ClassifiedTaxCategory (xmlInvoiceLine.Item (Invoice_addLines_line i line))) =
       (if CategoryID (line_key line) = ''K'' then ''VATEX-EU-IC'' else [])"
  "InvoiceLine.TaxExemptionReason line = [] \<Longrightarrow>
     xmlTaxCategory.TaxExemptionReason
       (ClassifiedTaxCategory (xmlInvoiceLine.Item (Invoice_addLines_line i line))) =
       (if CategoryID (line_key line) = ''K'' then ''Intra-community supply'' else [])"
  by (simp_all add: Invoice_addLines_line_def line_key_def calculateTaxTotals_line_def Let_def)

lemma subtotal_rest:
  "xmlTaxCategory.TaxScheme (TaxCategory (calculateTaxTotals_subtotal s)) =
     \<lparr>xmlTaxScheme.ID = ''VAT''\<rparr>"
  "TaxExemptionReasonCode (TaxCategory (calculateTaxTotals_subtotal s)) =
     (if CategoryID (taxSummary.key s) = ''K'' then ''VATEX-EU-IC'' else [])"
  "xmlTaxCategory.TaxExemptionReason (TaxCategory (calculateTaxTotals_subtotal s)) =
     (if CategoryID (taxSummary.key s) = ''K'' then ''Intra-community supply'' else [])"
  by (simp_all add: calculateTaxTotals_subtotal_def Let_def)

lemma intra_community_line_not_nan: "\<forall>l \<in> set [intra_community_line]. \<not> nan_rate l"
  by (simp add: nan_rate_def line_key_def intra_community_line_values)

lemma intra_community_output:
  "calculateTaxTotals id [intra_community_line] =
     Inr (Finite False 20, Finite False 0, intra_community_subtotals)"
  by (subst calculateTaxTotals_ok [OF intra_community_line_not_nan])
    (simp add: line_amount_def line_tax_def line_key_def line_category_name_def
      intra_community_line_values f64_sum_def f64_zero_def ev
      calculateTaxTotals_subtotal_def Let_def intra_community_subtotals_def)

lemma overridden_line_values:
  "calculateTaxTotals_line overridden_line =
     (Finite False 20, ''K'', ''Intra-EU supply'', Finite False 0, Finite False 0)"
  by (simp add: overridden_line_def intra_community_line_def example_line_def
      calculateTaxTotals_line_def Let_def round_amount_def lit_0 f64_zero_def ev)

lemma overridden_line_not_nan: "\<forall>l \<in> set [overridden_line]. \<not> nan_rate l"
  by (simp add: nan_rate_def line_key_def overridden_line_values)

text \<open>
  A line of category \<open>K\<close> that brings an exemption code and text of its own: its
  fragment carries them, the subtotal of its key carries the defaults.
\<close>

lemma exemption_override_dropped:
  "calculateTaxTotals id [overridden_line] =
     Inr (Finite False 20, Finite False 0, intra_community_subtotals) \<and>
   TaxExemptionReasonCode (ClassifiedTaxCategory (xmlInvoiceLine.Item
     (Invoice_addLines_line 0 overridden_line))) = ''VATEX-EU-O'' \<and>
   xmlTaxCategory.TaxExemptionReason (ClassifiedTaxCategory (xmlInvoiceLine.Item
     (Invoice_addLines_line 0 overridden_line))) = ''Not subject to VAT'' \<and>
   length intra_community_subtotals = 1 \<and>
   TaxExemptionReasonCode (TaxCategory (hd intra_community_subtotals)) = ''VATEX-EU-IC'' \<and>
   xmlTaxCategory.TaxExemptionReason (TaxCategory (hd intra_community_subtotals)) =
     ''Intra-community supply''"
proof -
  have "calculateTaxTotals id [overridden_line] =
      Inr (Finite False 20, Finite False 0, intra_community_subtotals)"
    by (subst calculateTaxTotals_ok [OF overridden_line_not_nan])
      (simp add: line_amount_def line_tax_def line_key_def line_category_name_def
        overridden_line_values f64_sum_def f64_zero_def ev
        calculateTaxTotals_subtotal_def Let_def intra_community_subtotals_def)
  then show ?thesis
    by (simp add: Invoice_addLines_line_def Let_def overridden_line_def
        intra_community_line_def example_line_def intra_community_subtotals_def)
qed

text \<open>
  Two lines at 21 per cent in category \<open>S\<close>, the first named \<open>Standard rated\<close> and the
  second \<open>Normal rate\<close>: they have one key, their only subtotal has the name of the
  first, and the fragment of the second has its own.
\<close>

theorem category_name_disagrees:
  "calculateTaxTotals id renamed_lines =
     Inr (Finite False 1250, Finite False (525 / 2), renamed_subtotals) \<and>
   length renamed_subtotals = 1 \<and>
   subtotal_key (hd renamed_subtotals) = line_key (renamed_lines ! 1) \<and>
   xmlTaxCategory.Name (TaxCategory (hd renamed_subtotals)) = ''Standard rated'' \<and>
   xmlTaxCategory.Name (ClassifiedTaxCategory (xmlInvoiceLine.Item
     (Invoice_addLines_line 1 (renamed_lines ! 1)))) = ''Normal rate'' \<and>
   xmlTaxCategory.Name (ClassifiedTaxCategory (xmlCreditNoteLine.Item
     (CreditNote_addLines_line 1 (renamed_lines ! 1)))) = ''Normal rate''"
  by (simp add: renamed_output)
    (simp add: line_resolution line_category_name_def line_key_def renamed_lines_def
      renamed_line_values renamed_subtotals_def example_subtotal_def subtotal_key_def)

text \<open>
  C2, as the code has it. For every line of a list on which the aggregation returns,
  the fragments of the invoice line and of the credit note line carry one and the same
  category, whose code, name and rate are those that the aggregator resolves for the
  line. The subtotals have one for the key of the line: it has the code of the line, a
  rate that Go holds equal to the rate of the line, the tax scheme of the line, the
  name that the aggregator resolves for the first line of that key, and, where the
  line brings no exemption code and text of its own, the exemption code and text of
  the fragment.
\<close>

theorem category_resolution:
  assumes "range_order rng"
    and "calculateTaxTotals rng lines = Inr (lineTotal, taxTotal, subtotals)"
    and "i < length lines"
  shows
    "(let line = lines ! i;
          cat = ClassifiedTaxCategory (xmlInvoiceLine.Item (Invoice_addLines_line i line));
          cat' = ClassifiedTaxCategory (xmlCreditNoteLine.Item (CreditNote_addLines_line i line))
      in cat' = cat \<and>
         xmlTaxCategory.ID cat = CategoryID (line_key line) \<and>
         xmlTaxCategory.Name cat = line_category_name line \<and>
         Percent cat = Rate (line_key line) \<and>
         (\<exists>st \<in> set subtotals.
            taxKey_eq (subtotal_key st) (line_key line) \<and>
            xmlTaxCategory.ID (TaxCategory st) = xmlTaxCategory.ID cat \<and>
            f64_eq (Percent (TaxCategory st)) (Percent cat) \<and>
            xmlTaxCategory.TaxScheme (TaxCategory st) = xmlTaxCategory.TaxScheme cat \<and>
            xmlTaxCategory.Name (TaxCategory st) =
              line_category_name (hd (lines_of_key (line_key line) lines)) \<and>
            (TaxExemptionCode line = [] \<and> InvoiceLine.TaxExemptionReason line = [] \<longrightarrow>
               TaxExemptionReasonCode (TaxCategory st) = TaxExemptionReasonCode cat \<and>
               xmlTaxCategory.TaxExemptionReason (TaxCategory st) =
                 xmlTaxCategory.TaxExemptionReason cat)))"
proof -
  define line where "line = lines ! i"
  from assms(3) have mem: "line \<in> set lines"
    by (simp add: line_def)
  from assms(2) obtain m where inv: "agg_inv lines m"
    and subs: "subtotals = map (\<lambda>e. calculateTaxTotals_subtotal (snd e)) (rng m)"
    by (rule calculateTaxTotals_Inr_inv)
  from inv mem obtain e where e: "e \<in> set m" and eq: "taxKey_eq (fst e) (line_key line)"
    by (auto simp: agg_inv_def)
  define st where "st = calculateTaxTotals_subtotal (snd e)"
  from e subs range_order_set [OF assms(1), of m] have st: "st \<in> set subtotals"
    by (auto simp: st_def)
  from inv e have k: "taxSummary.key (snd e) = fst e"
    by (simp add: agg_inv_def summary_of_def)
  from eq have r: "f64_eq (Rate (fst e)) (Rate (line_key line))"
    and c: "CategoryID (fst e) = CategoryID (line_key line)"
    by (simp_all add: taxKey_eq_def)
  have "taxKey_eq (subtotal_key st) (line_key line)"
    using eq by (simp add: st_def agg_inv_entry(1) [OF inv e])
  moreover have "xmlTaxCategory.ID (TaxCategory st) = CategoryID (line_key line)"
    using c by (simp add: st_def subtotal_fields k)
  moreover have "f64_eq (Percent (TaxCategory st)) (Rate (line_key line))"
    using r by (simp add: st_def subtotal_fields k)
  moreover have "xmlTaxCategory.TaxScheme (TaxCategory st) = \<lparr>xmlTaxScheme.ID = ''VAT''\<rparr>"
    by (simp add: st_def subtotal_rest)
  moreover have "xmlTaxCategory.Name (TaxCategory st) =
      line_category_name (hd (lines_of_key (line_key line) lines))"
    using lines_of_key_cong [OF eq, of lines] by (simp add: st_def agg_inv_entry(4) [OF inv e])
  moreover have "TaxExemptionReasonCode (TaxCategory st) =
      (if CategoryID (line_key line) = ''K'' then ''VATEX-EU-IC'' else [])"
    and "xmlTaxCategory.TaxExemptionReason (TaxCategory st) =
      (if CategoryID (line_key line) = ''K'' then ''Intra-community supply'' else [])"
    using c by (simp_all add: st_def subtotal_rest k)
  ultimately show ?thesis
    using st unfolding Let_def line_def [symmetric]
    by (auto simp: line_category_agree line_resolution line_category_rest intro!: bexI [of _ st])
qed

theorem category_resolution_witness:
  "range_order id \<and>
   calculateTaxTotals id [intra_community_line] =
     Inr (Finite False 20, Finite False 0, intra_community_subtotals) \<and>
   TaxExemptionCode intra_community_line = [] \<and>
   InvoiceLine.TaxExemptionReason intra_community_line = [] \<and>
   ClassifiedTaxCategory (xmlCreditNoteLine.Item (CreditNote_addLines_line 0 intra_community_line)) =
     ClassifiedTaxCategory (xmlInvoiceLine.Item (Invoice_addLines_line 0 intra_community_line)) \<and>
   (\<exists>st. intra_community_subtotals = [st] \<and>
      TaxCategory st =
        ClassifiedTaxCategory (xmlInvoiceLine.Item (Invoice_addLines_line 0 intra_community_line)))"
proof -
  note t = category_resolution [OF range_order_id intra_community_output, of 0]
  have e: "TaxExemptionCode intra_community_line = []"
    "InvoiceLine.TaxExemptionReason intra_community_line = []"
    by (simp_all add: intra_community_line_def example_line_def)
  from t have "ClassifiedTaxCategory (xmlCreditNoteLine.Item
      (CreditNote_addLines_line 0 intra_community_line)) =
    ClassifiedTaxCategory (xmlInvoiceLine.Item (Invoice_addLines_line 0 intra_community_line))"
    by (simp add: Let_def)
  moreover have "\<exists>st. intra_community_subtotals = [st] \<and>
      TaxCategory st =
        ClassifiedTaxCategory (xmlInvoiceLine.Item (Invoice_addLines_line 0 intra_community_line))"
    by (simp add: intra_community_subtotals_def Invoice_addLines_line_def Let_def
        intra_community_line_def example_line_def lit_0 f64_zero_def)
  ultimately show ?thesis
    using range_order_id intra_community_output e by blast
qed

section \<open>The monetary totals\<close>

text \<open>
  The tree of a generated document, read off the aggregation of its lines: the lines
  of the tree are the fragments of the loop, and the subtotals and the totals are
  those that the aggregation returns.
\<close>

lemma Generate_tree:
  assumes "Generate env invoice = Inr (x, out)"
  obtains lineTotal taxTotal where
    "calculateTaxTotals (mapRange env) (Invoice.Lines invoice) =
       Inr (lineTotal, taxTotal, TaxSubtotal (xmlInvoice.TaxTotal x))"
    "invoice_totals x =
       (lineTotal, lineTotal, taxTotal, round_amount (f64_add lineTotal taxTotal),
        round_amount (f64_add lineTotal taxTotal))"
    "InvoiceLines x = Invoice_addLines_loop 0 (Invoice.Lines invoice) []"
proof -
  from assms obtain x0 x1 where h: "Generate_head env invoice = Inr x0"
    and a: "Invoice_addLines (mapRange env) invoice x0 = Inr x1"
    and t: "(x, out) = Generate_tail env invoice x1"
    by (rule Generate_Inr)
  from h have "\<not> (length (Invoice.SupplierPeppolID invoice) < 5 \<or>
      length (Invoice.CustomerPeppolID invoice) < 5)"
    using Generate_head_short [of invoice env] by auto
  with h have l0: "InvoiceLines x0 = []"
    using Generate_head_long [of invoice env] by auto
  from t have x: "x = fst (Generate_tail env invoice x1)"
    by (metis fst_conv)
  from a obtain lineTotal taxTotal subtotals where
    "calculateTaxTotals (mapRange env) (Invoice.Lines invoice) = Inr (lineTotal, taxTotal, subtotals)"
    "invoice_totals x1 =
       (lineTotal, lineTotal, taxTotal, round_amount (f64_add lineTotal taxTotal),
        round_amount (f64_add lineTotal taxTotal))"
    "InvoiceLines x1 = Invoice_addLines_loop 0 (Invoice.Lines invoice) (InvoiceLines x0)"
    "TaxSubtotal (xmlInvoice.TaxTotal x1) = subtotals"
    by (rule Invoice_addLines_fields)
  with x l0 that show thesis
    by (simp add: Generate_tail_fields)
qed

lemma GenerateCreditNote_tree:
  assumes "GenerateCreditNote env cn = Inr (x, out)"
  obtains lineTotal taxTotal where
    "calculateTaxTotals (mapRange env) (CreditNote.Lines cn) =
       Inr (lineTotal, taxTotal, TaxSubtotal (xmlCreditNote.TaxTotal x))"
    "creditnote_totals x =
       (lineTotal, lineTotal, taxTotal, round_amount (f64_add lineTotal taxTotal),
        round_amount (f64_add lineTotal taxTotal))"
    "CreditNoteLines x = CreditNote_addLines_loop 0 (CreditNote.Lines cn) []"
proof -
  from assms obtain x0 x1 where h: "GenerateCreditNote_head env cn = Inr x0"
    and a: "CreditNote_addLines (mapRange env) cn x0 = Inr x1"
    and t: "(x, out) = GenerateCreditNote_tail env cn x1"
    by (rule GenerateCreditNote_Inr)
  from h have "\<not> (length (CreditNote.SupplierPeppolID cn) < 5 \<or>
      length (CreditNote.CustomerPeppolID cn) < 5)"
    using GenerateCreditNote_head_short [of cn env] by auto
  with h have l0: "CreditNoteLines x0 = []"
    using GenerateCreditNote_head_long [of cn env] by auto
  from t have x: "x = fst (GenerateCreditNote_tail env cn x1)"
    by (metis fst_conv)
  from a obtain lineTotal taxTotal subtotals where
    "calculateTaxTotals (mapRange env) (CreditNote.Lines cn) = Inr (lineTotal, taxTotal, subtotals)"
    "creditnote_totals x1 =
       (lineTotal, lineTotal, taxTotal, round_amount (f64_add lineTotal taxTotal),
        round_amount (f64_add lineTotal taxTotal))"
    "CreditNoteLines x1 = CreditNote_addLines_loop 0 (CreditNote.Lines cn) (CreditNoteLines x0)"
    "TaxSubtotal (xmlCreditNote.TaxTotal x1) = subtotals"
    by (rule CreditNote_addLines_fields)
  with x l0 that show thesis
    by (simp add: GenerateCreditNote_tail_fields)
qed

text \<open>
  Conversely, a document whose routing identifiers are long enough and whose lines
  aggregate is generated, with these totals, subtotals and lines.
\<close>

lemma Generate_of_lines:
  assumes "5 \<le> length (Invoice.SupplierPeppolID invoice)"
    and "5 \<le> length (Invoice.CustomerPeppolID invoice)"
    and c: "calculateTaxTotals (mapRange env) (Invoice.Lines invoice) =
              Inr (lineTotal, taxTotal, subtotals)"
  shows "map_sum id (invoice_totals \<circ> fst) (Generate env invoice) =
           Inr (lineTotal, lineTotal, taxTotal, round_amount (f64_add lineTotal taxTotal),
                round_amount (f64_add lineTotal taxTotal))"
    and "map_sum id (TaxSubtotal \<circ> xmlInvoice.TaxTotal \<circ> fst) (Generate env invoice) =
           Inr subtotals"
    and "map_sum id (InvoiceLines \<circ> fst) (Generate env invoice) =
           Inr (Invoice_addLines_loop 0 (Invoice.Lines invoice) [])"
proof -
  from c have "\<forall>l \<in> set (Invoice.Lines invoice). \<not> nan_rate l"
    by (rule calculateTaxTotals_Inr)
  with assms(1,2) obtain x1 where
    g: "Generate env invoice = Inr (Generate_tail env invoice x1)"
    by (rule Generate_returns [where env = env]) blast
  obtain x out where xo: "Generate_tail env invoice x1 = (x, out)"
    by (cases "Generate_tail env invoice x1") auto
  with g have r: "Generate env invoice = Inr (x, out)" by simp
  then obtain lineTotal' taxTotal' where
    "calculateTaxTotals (mapRange env) (Invoice.Lines invoice) =
       Inr (lineTotal', taxTotal', TaxSubtotal (xmlInvoice.TaxTotal x))"
    "invoice_totals x =
       (lineTotal', lineTotal', taxTotal', round_amount (f64_add lineTotal' taxTotal'),
        round_amount (f64_add lineTotal' taxTotal'))"
    "InvoiceLines x = Invoice_addLines_loop 0 (Invoice.Lines invoice) []"
    by (rule Generate_tree)
  with c r show "map_sum id (invoice_totals \<circ> fst) (Generate env invoice) =
           Inr (lineTotal, lineTotal, taxTotal, round_amount (f64_add lineTotal taxTotal),
                round_amount (f64_add lineTotal taxTotal))"
    and "map_sum id (TaxSubtotal \<circ> xmlInvoice.TaxTotal \<circ> fst) (Generate env invoice) =
           Inr subtotals"
    and "map_sum id (InvoiceLines \<circ> fst) (Generate env invoice) =
           Inr (Invoice_addLines_loop 0 (Invoice.Lines invoice) [])"
    by simp_all
qed

lemma GenerateCreditNote_of_lines:
  assumes "5 \<le> length (CreditNote.SupplierPeppolID cn)"
    and "5 \<le> length (CreditNote.CustomerPeppolID cn)"
    and c: "calculateTaxTotals (mapRange env) (CreditNote.Lines cn) =
              Inr (lineTotal, taxTotal, subtotals)"
  shows "map_sum id (creditnote_totals \<circ> fst) (GenerateCreditNote env cn) =
           Inr (lineTotal, lineTotal, taxTotal, round_amount (f64_add lineTotal taxTotal),
                round_amount (f64_add lineTotal taxTotal))"
    and "map_sum id (TaxSubtotal \<circ> xmlCreditNote.TaxTotal \<circ> fst) (GenerateCreditNote env cn) =
           Inr subtotals"
    and "map_sum id (CreditNoteLines \<circ> fst) (GenerateCreditNote env cn) =
           Inr (CreditNote_addLines_loop 0 (CreditNote.Lines cn) [])"
proof -
  from c have "\<forall>l \<in> set (CreditNote.Lines cn). \<not> nan_rate l"
    by (rule calculateTaxTotals_Inr)
  with assms(1,2) obtain x1 where
    g: "GenerateCreditNote env cn = Inr (GenerateCreditNote_tail env cn x1)"
    by (rule GenerateCreditNote_returns [where env = env]) blast
  obtain x out where xo: "GenerateCreditNote_tail env cn x1 = (x, out)"
    by (cases "GenerateCreditNote_tail env cn x1") auto
  with g have r: "GenerateCreditNote env cn = Inr (x, out)" by simp
  then obtain lineTotal' taxTotal' where
    "calculateTaxTotals (mapRange env) (CreditNote.Lines cn) =
       Inr (lineTotal', taxTotal', TaxSubtotal (xmlCreditNote.TaxTotal x))"
    "creditnote_totals x =
       (lineTotal', lineTotal', taxTotal', round_amount (f64_add lineTotal' taxTotal'),
        round_amount (f64_add lineTotal' taxTotal'))"
    "CreditNoteLines x = CreditNote_addLines_loop 0 (CreditNote.Lines cn) []"
    by (rule GenerateCreditNote_tree)
  with c r show "map_sum id (creditnote_totals \<circ> fst) (GenerateCreditNote env cn) =
           Inr (lineTotal, lineTotal, taxTotal, round_amount (f64_add lineTotal taxTotal),
                round_amount (f64_add lineTotal taxTotal))"
    and "map_sum id (TaxSubtotal \<circ> xmlCreditNote.TaxTotal \<circ> fst) (GenerateCreditNote env cn) =
           Inr subtotals"
    and "map_sum id (CreditNoteLines \<circ> fst) (GenerateCreditNote env cn) =
           Inr (CreditNote_addLines_loop 0 (CreditNote.Lines cn) [])"
    by simp_all
qed

lemma example_env_range: "mapRange example_env = id"
  by (simp add: example_env_def id_def)

lemma towering_lines_not_nan: "\<forall>l \<in> set towering_lines. \<not> nan_rate l"
  by (simp add: towering_lines_def example_line_def nan_rate_def line_key_def
      calculateTaxTotals_line_def Let_def lit_not_NaN)

lemma towering_line_values:
  "calculateTaxTotals_line (example_line 1 9007199254740992 100 ''Z'' []) =
     (Finite False 9007199254740992, ''Z'', ''Standard rated'', Finite False 100,
      Finite False 9007199254740992)"
  "calculateTaxTotals_line (example_line 1 1 100 ''S'' []) =
     (Finite False 1, ''S'', ''Standard rated'', Finite False 100, Finite False 1)"
  by (simp_all add: example_line_def calculateTaxTotals_line_def Let_def round_amount_def ev)

lemma towering_output:
  "calculateTaxTotals id towering_lines =
     Inr (Finite False 9007199254740992, Finite False 9007199254740992, towering_subtotals)"
  by (subst calculateTaxTotals_ok [OF towering_lines_not_nan])
    (simp add: towering_lines_def line_amount_def line_tax_def line_key_def
      line_category_name_def towering_line_values taxKey_eq_def f64_sum_def f64_zero_def ev
      calculateTaxTotals_subtotal_def Let_def towering_subtotals_def example_subtotal_def)

lemma towering_sums:
  "sum_tax towering_subtotals = Finite False 9007199254740996"
  "sum_tax (rev towering_subtotals) = Finite False 9007199254740996"
  "round_amount (f64_add (Finite False 9007199254740992) (Finite False 9007199254740992)) =
     Finite False 18014398509481984"
  "round_amount (f64_add (Finite False 9007199254740992) (Finite False 9007199254740996)) =
     Finite False 18014398509481988"
  by (simp_all add: sum_tax_def towering_subtotals_def example_subtotal_def f64_sum_def
      f64_zero_def round_amount_def ev)

lemma taxdrift_lines_not_nan: "\<forall>l \<in> set taxdrift_lines. \<not> nan_rate l"
  by (simp add: taxdrift_lines_def example_line_def nan_rate_def line_key_def
      calculateTaxTotals_line_def Let_def lit_not_NaN)

lemma taxdrift_line_values:
  "calculateTaxTotals_line (example_line 1 1 10 ''S'' []) =
     (Finite False 1, ''S'', ''Standard rated'', Finite False 10,
      Finite False (3602879701896397 / 36028797018963968))"
  "calculateTaxTotals_line (example_line 1 10 7 ''S'' []) =
     (Finite False 10, ''S'', ''Standard rated'', Finite False 7,
      Finite False (3152519739159347 / 4503599627370496))"
  "calculateTaxTotals_line (example_line 1 3 10 ''S'' []) =
     (Finite False 3, ''S'', ''Standard rated'', Finite False 10,
      Finite False (5404319552844595 / 18014398509481984))"
  by (simp_all add: example_line_def calculateTaxTotals_line_def Let_def round_amount_def ev)

text \<open>
  At everyday magnitudes the tax total and the sum of the tax amounts of the subtotals
  already differ, in the last bit: taxes of 0.10, 0.70 and 0.30 under the rates 10, 7
  and 10 give a tax total of 1.0999999999999999 and subtotals of 0.4 and 0.7, which add
  up to 1.1. Rounded to cents with the line total of 14, both give 15.1.
\<close>

lemma tax_total_drifts:
  "calculateTaxTotals id taxdrift_lines =
     Inr (Finite False 14, Finite False (4953959590107545 / 4503599627370496),
          taxdrift_subtotals) \<and>
   sum_tax taxdrift_subtotals = Finite False (2476979795053773 / 2251799813685248) \<and>
   sum_tax (rev taxdrift_subtotals) = Finite False (2476979795053773 / 2251799813685248)"
proof -
  have "calculateTaxTotals id taxdrift_lines =
     Inr (Finite False 14, Finite False (4953959590107545 / 4503599627370496),
          taxdrift_subtotals)"
    by (subst calculateTaxTotals_ok [OF taxdrift_lines_not_nan])
      (simp add: taxdrift_lines_def line_amount_def line_tax_def line_key_def
        line_category_name_def taxdrift_line_values taxKey_eq_def f64_sum_def f64_zero_def ev
        calculateTaxTotals_subtotal_def Let_def taxdrift_subtotals_def example_subtotal_def)
  moreover have "sum_tax taxdrift_subtotals = Finite False (2476979795053773 / 2251799813685248)"
    and "sum_tax (rev taxdrift_subtotals) = Finite False (2476979795053773 / 2251799813685248)"
    by (simp_all add: sum_tax_def taxdrift_subtotals_def example_subtotal_def f64_sum_def
        f64_zero_def ev)
  ultimately show ?thesis by simp
qed

text \<open>
  An invoice with a line of \<open>2 ^ 53\<close> in category \<open>Z\<close> and four lines of 1 in category
  \<open>S\<close>, all at 100 per cent. The tax total is \<open>2 ^ 53\<close>, since each of the four taxes
  of 1 is lost when it is added to \<open>2 ^ 53\<close>, and the payable amount is \<open>2 ^ 54\<close>. The tax
  amounts of the two subtotals are \<open>2 ^ 53\<close> and 4 and add up to \<open>2 ^ 53 + 4\<close> in either
  order; the payable amount computed from them would be \<open>2 ^ 54 + 4\<close>.
\<close>

theorem payable_not_from_subtotals:
  "map_sum id (invoice_totals \<circ> fst)
     (Generate example_env (example_invoice\<lparr>Invoice.Lines := towering_lines\<rparr>)) =
     Inr (Finite False 9007199254740992, Finite False 9007199254740992,
          Finite False 9007199254740992, Finite False 18014398509481984,
          Finite False 18014398509481984) \<and>
   map_sum id (TaxSubtotal \<circ> xmlInvoice.TaxTotal \<circ> fst)
     (Generate example_env (example_invoice\<lparr>Invoice.Lines := towering_lines\<rparr>)) =
     Inr towering_subtotals \<and>
   sum_tax towering_subtotals = Finite False 9007199254740996 \<and>
   sum_tax (rev towering_subtotals) = Finite False 9007199254740996 \<and>
   round_amount (f64_add (Finite False 9007199254740992) (Finite False 9007199254740996)) =
     Finite False 18014398509481988 \<and>
   \<not> f64_eq (Finite False 9007199254740996) (Finite False 9007199254740992) \<and>
   \<not> f64_eq (Finite False 18014398509481988) (Finite False 18014398509481984)"
proof -
  let ?inv = "example_invoice\<lparr>Invoice.Lines := towering_lines\<rparr>"
  have l: "5 \<le> length (Invoice.SupplierPeppolID ?inv)" "5 \<le> length (Invoice.CustomerPeppolID ?inv)"
    by (simp_all add: example_invoice_def)
  have c: "calculateTaxTotals (mapRange example_env) (Invoice.Lines ?inv) =
      Inr (Finite False 9007199254740992, Finite False 9007199254740992, towering_subtotals)"
    by (simp add: example_env_range towering_output)
  note g = Generate_of_lines(1,2) [OF l c]
  from g(1) have "map_sum id (invoice_totals \<circ> fst) (Generate example_env ?inv) =
     Inr (Finite False 9007199254740992, Finite False 9007199254740992,
          Finite False 9007199254740992, Finite False 18014398509481984,
          Finite False 18014398509481984)"
    by (simp only: towering_sums)
  with g(2) show ?thesis
    by (simp add: towering_sums)
qed

text \<open>
  C3, as the code has it. In every generated invoice and credit note the payable amount
  is the rounded sum of the line-extension total and the tax total, the tax-exclusive
  amount is the line-extension total and the tax-inclusive amount is the payable
  amount, where the line-extension total and the tax total are the float64 sums, in
  line order, of the amounts and of the taxes of the lines.
\<close>

theorem monetary_totals:
  "(Generate env invoice = Inr (x, out) \<longrightarrow>
      invoice_totals x =
        (let lineTotal = f64_sum (map line_amount (Invoice.Lines invoice));
             taxTotal = f64_sum (map line_tax (Invoice.Lines invoice));
             total = round_amount (f64_add lineTotal taxTotal)
         in (lineTotal, lineTotal, taxTotal, total, total))) \<and>
   (GenerateCreditNote env cn = Inr (x', out') \<longrightarrow>
      creditnote_totals x' =
        (let lineTotal = f64_sum (map line_amount (CreditNote.Lines cn));
             taxTotal = f64_sum (map line_tax (CreditNote.Lines cn));
             total = round_amount (f64_add lineTotal taxTotal)
         in (lineTotal, lineTotal, taxTotal, total, total)))"
proof (intro conjI impI)
  assume g: "Generate env invoice = Inr (x, out)"
  then obtain x0 x1 where a: "Invoice_addLines (mapRange env) invoice x0 = Inr x1"
    and t: "(x, out) = Generate_tail env invoice x1"
    by (rule Generate_Inr)
  from a obtain lineTotal taxTotal subtotals where
    c: "calculateTaxTotals (mapRange env) (Invoice.Lines invoice) = Inr (lineTotal, taxTotal, subtotals)"
    and s: "invoice_totals x1 =
       (lineTotal, lineTotal, taxTotal, round_amount (f64_add lineTotal taxTotal),
        round_amount (f64_add lineTotal taxTotal))"
    by (rule Invoice_addLines_fields)
  from c calculateTaxTotals_ok [OF calculateTaxTotals_Inr [OF c], of "mapRange env"]
  have "lineTotal = f64_sum (map line_amount (Invoice.Lines invoice))"
    and "taxTotal = f64_sum (map line_tax (Invoice.Lines invoice))"
    by simp_all
  moreover from t have "x = fst (Generate_tail env invoice x1)"
    by (metis fst_conv)
  ultimately show "invoice_totals x =
        (let lineTotal = f64_sum (map line_amount (Invoice.Lines invoice));
             taxTotal = f64_sum (map line_tax (Invoice.Lines invoice));
             total = round_amount (f64_add lineTotal taxTotal)
         in (lineTotal, lineTotal, taxTotal, total, total))"
    using s by (simp add: Generate_tail_fields Let_def)
next
  assume g: "GenerateCreditNote env cn = Inr (x', out')"
  then obtain x0 x1 where a: "CreditNote_addLines (mapRange env) cn x0 = Inr x1"
    and t: "(x', out') = GenerateCreditNote_tail env cn x1"
    by (rule GenerateCreditNote_Inr)
  from a obtain lineTotal taxTotal subtotals where
    c: "calculateTaxTotals (mapRange env) (CreditNote.Lines cn) = Inr (lineTotal, taxTotal, subtotals)"
    and s: "creditnote_totals x1 =
       (lineTotal, lineTotal, taxTotal, round_amount (f64_add lineTotal taxTotal),
        round_amount (f64_add lineTotal taxTotal))"
    by (rule CreditNote_addLines_fields)
  from c calculateTaxTotals_ok [OF calculateTaxTotals_Inr [OF c], of "mapRange env"]
  have "lineTotal = f64_sum (map line_amount (CreditNote.Lines cn))"
    and "taxTotal = f64_sum (map line_tax (CreditNote.Lines cn))"
    by simp_all
  moreover from t have "x' = fst (GenerateCreditNote_tail env cn x1)"
    by (metis fst_conv)
  ultimately show "creditnote_totals x' =
        (let lineTotal = f64_sum (map line_amount (CreditNote.Lines cn));
             taxTotal = f64_sum (map line_tax (CreditNote.Lines cn));
             total = round_amount (f64_add lineTotal taxTotal)
         in (lineTotal, lineTotal, taxTotal, total, total))"
    using s by (simp add: GenerateCreditNote_tail_fields Let_def)
qed

lemma drifting_line_sums:
  "f64_sum (map line_amount drifting_lines) = Finite False (4953959590107545 / 4503599627370496)"
  "f64_sum (map line_tax drifting_lines) = Finite False (1080863910568919 / 9007199254740992)"
  "f64_add (Finite False (4953959590107545 / 4503599627370496))
     (Finite False (1080863910568919 / 9007199254740992)) =
     Finite False (1373597886348001 / 1125899906842624)"
  "round_amount (Finite False (1373597886348001 / 1125899906842624)) =
     Finite False (5494391545392005 / 4503599627370496)"
  by (simp_all add: drifting_lines_def line_amount_def line_tax_def drifting_line_values
      f64_sum_def f64_zero_def round_amount_def ev)

theorem monetary_totals_witness:
  "(\<exists>x out. Generate example_env (example_invoice\<lparr>Invoice.Lines := drifting_lines\<rparr>) =
        Inr (x, out) \<and>
      invoice_totals x =
        (Finite False (4953959590107545 / 4503599627370496),
         Finite False (4953959590107545 / 4503599627370496),
         Finite False (1080863910568919 / 9007199254740992),
         Finite False (5494391545392005 / 4503599627370496),
         Finite False (5494391545392005 / 4503599627370496))) \<and>
   (\<exists>x out. GenerateCreditNote example_env
        (example_creditnote\<lparr>CreditNote.Lines := drifting_lines\<rparr>) = Inr (x, out) \<and>
      creditnote_totals x =
        (Finite False (4953959590107545 / 4503599627370496),
         Finite False (4953959590107545 / 4503599627370496),
         Finite False (1080863910568919 / 9007199254740992),
         Finite False (5494391545392005 / 4503599627370496),
         Finite False (5494391545392005 / 4503599627370496))) \<and>
   f64_add (Finite False (4953959590107545 / 4503599627370496))
     (Finite False (1080863910568919 / 9007199254740992)) =
     Finite False (1373597886348001 / 1125899906842624)"
proof (intro conjI)
  let ?inv = "example_invoice\<lparr>Invoice.Lines := drifting_lines\<rparr>"
  have "\<forall>l \<in> set (Invoice.Lines ?inv). \<not> nan_rate l"
    by (simp add: drifting_lines_not_nan)
  then obtain x1 where
    g: "Generate example_env ?inv = Inr (Generate_tail example_env ?inv x1)"
    by (rule Generate_returns [rotated 2]) (simp_all add: example_invoice_def)
  obtain x out where xo: "Generate_tail example_env ?inv x1 = (x, out)"
    by (cases "Generate_tail example_env ?inv x1") auto
  with g have "Generate example_env ?inv = Inr (x, out)" by simp
  moreover from this monetary_totals [where env = example_env and invoice = ?inv and x = x and out = out]
  have "invoice_totals x =
        (Finite False (4953959590107545 / 4503599627370496),
         Finite False (4953959590107545 / 4503599627370496),
         Finite False (1080863910568919 / 9007199254740992),
         Finite False (5494391545392005 / 4503599627370496),
         Finite False (5494391545392005 / 4503599627370496))"
    by (simp add: drifting_line_sums Let_def)
  ultimately show "\<exists>x out. Generate example_env ?inv = Inr (x, out) \<and>
      invoice_totals x =
        (Finite False (4953959590107545 / 4503599627370496),
         Finite False (4953959590107545 / 4503599627370496),
         Finite False (1080863910568919 / 9007199254740992),
         Finite False (5494391545392005 / 4503599627370496),
         Finite False (5494391545392005 / 4503599627370496))"
    by blast
next
  let ?cn = "example_creditnote\<lparr>CreditNote.Lines := drifting_lines\<rparr>"
  have "\<forall>l \<in> set (CreditNote.Lines ?cn). \<not> nan_rate l"
    by (simp add: drifting_lines_not_nan)
  then obtain x1 where
    g: "GenerateCreditNote example_env ?cn = Inr (GenerateCreditNote_tail example_env ?cn x1)"
    by (rule GenerateCreditNote_returns [rotated 2]) (simp_all add: example_creditnote_def)
  obtain x out where xo: "GenerateCreditNote_tail example_env ?cn x1 = (x, out)"
    by (cases "GenerateCreditNote_tail example_env ?cn x1") auto
  with g have "GenerateCreditNote example_env ?cn = Inr (x, out)" by simp
  moreover from this monetary_totals [where env = example_env and cn = ?cn and x' = x and out' = out]
  have "creditnote_totals x =
        (Finite False (4953959590107545 / 4503599627370496),
         Finite False (4953959590107545 / 4503599627370496),
         Finite False (1080863910568919 / 9007199254740992),
         Finite False (5494391545392005 / 4503599627370496),
         Finite False (5494391545392005 / 4503599627370496))"
    by (simp add: drifting_line_sums Let_def)
  ultimately show "\<exists>x out. GenerateCreditNote example_env ?cn = Inr (x, out) \<and>
      creditnote_totals x =
        (Finite False (4953959590107545 / 4503599627370496),
         Finite False (4953959590107545 / 4503599627370496),
         Finite False (1080863910568919 / 9007199254740992),
         Finite False (5494391545392005 / 4503599627370496),
         Finite False (5494391545392005 / 4503599627370496))"
    by blast
next
  show "f64_add (Finite False (4953959590107545 / 4503599627370496))
     (Finite False (1080863910568919 / 9007199254740992)) =
     Finite False (1373597886348001 / 1125899906842624)"
    by (rule drifting_line_sums)
qed

section \<open>Lines of intra-community supply\<close>

text \<open>The loops of the line builders append one fragment per line, numbered from \<open>i\<close>.\<close>

lemma Invoice_addLines_loop_eq:
  "Invoice_addLines_loop i lines out =
     out @ map2 Invoice_addLines_line [i..<i + length lines] lines"
  by (induction lines arbitrary: i out) (simp_all del: upt_Suc add: upt_conv_Cons)

lemma CreditNote_addLines_loop_eq:
  "CreditNote_addLines_loop i lines out =
     out @ map2 CreditNote_addLines_line [i..<i + length lines] lines"
  by (induction lines arbitrary: i out) (simp_all del: upt_Suc add: upt_conv_Cons)

lemma Invoice_addLines_loop_nth:
  "length (Invoice_addLines_loop 0 lines []) = length lines"
  "i < length lines \<Longrightarrow>
     Invoice_addLines_loop 0 lines [] ! i = Invoice_addLines_line i (lines ! i)"
  by (simp_all add: Invoice_addLines_loop_eq)

lemma CreditNote_addLines_loop_nth:
  "length (CreditNote_addLines_loop 0 lines []) = length lines"
  "i < length lines \<Longrightarrow>
     CreditNote_addLines_loop 0 lines [] ! i = CreditNote_addLines_line i (lines ! i)"
  by (simp_all add: CreditNote_addLines_loop_eq)

text \<open>A float64 sum of zeros is a zero.\<close>

lemma f64_sum_zeros:
  assumes "\<forall>v \<in> set vs. \<exists>s. v = Finite s 0"
  shows "\<exists>s. f64_sum vs = Finite s 0"
  using assms
proof (induction vs rule: rev_induct)
  case Nil
  have "f64_sum [] = Finite False 0" by (simp add: f64_sum_def f64_zero_def)
  then show ?case by blast
next
  case (snoc v vs)
  then obtain s t where "f64_sum vs = Finite s 0" "v = Finite t 0" by auto
  then have "f64_sum (vs @ [v]) = Finite (s \<and> t) 0"
    by (simp add: f64_sum_snoc f64_add.simps signed_def)
  then show ?case by blast
qed

text \<open>
  The subtotal under which the aggregation files the lines of category \<open>K\<close>, when
  there is one.
\<close>

lemma intra_community_subtotal_emitted:
  assumes "range_order rng"
    and "calculateTaxTotals rng lines = Inr (lineTotal, taxTotal, subtotals)"
    and "line \<in> set lines" and "CategoryID (line_key line) = ''K''"
  shows "\<exists>st \<in> set subtotals. intra_community_subtotal lines st"
proof -
  from assms(2) obtain m where inv: "agg_inv lines m"
    and subs: "subtotals = map (\<lambda>e. calculateTaxTotals_subtotal (snd e)) (rng m)"
    by (rule calculateTaxTotals_Inr_inv)
  from inv assms(3) obtain e where e: "e \<in> set m" and eq: "taxKey_eq (fst e) (line_key line)"
    by (auto simp: agg_inv_def)
  define st where "st = calculateTaxTotals_subtotal (snd e)"
  from e subs range_order_set [OF assms(1), of m] have st: "st \<in> set subtotals"
    by (auto simp: st_def)
  from inv e have ne: "lines_of_key (fst e) lines \<noteq> []"
    and first: "fst e = line_key (hd (lines_of_key (fst e) lines))"
    and k: "taxSummary.key (snd e) = fst e"
    by (simp_all add: agg_inv_def summary_of_def)
  from eq assms(4) have c: "CategoryID (fst e) = ''K''"
    by (simp add: taxKey_eq_def)
  with first have "Rate (fst e) = f64_zero"
    using intra_community_rate [of "hd (lines_of_key (fst e) lines)"] by simp
  with c have key: "fst e = \<lparr>Rate = f64_zero, CategoryID = ''K''\<rparr>"
    by simp
  have tax: "f64_eq (xmlAmount.Value (xmlTaxSubtotal.TaxAmount st)) f64_zero"
    if fin: "\<forall>l \<in> set lines. CategoryID (line_key l) = ''K'' \<longrightarrow> is_finite (line_amount l)"
  proof -
    have "\<exists>s. line_tax l = Finite s 0" if "l \<in> set (lines_of_key (fst e) lines)" for l
    proof -
      from that have l: "l \<in> set lines" and "taxKey_eq (fst e) (line_key l)"
        by (simp_all add: lines_of_key_def)
      with c have lk: "CategoryID (line_key l) = ''K''"
        by (simp add: taxKey_eq_def)
      with fin l have "is_finite (line_amount l)" by blast
      then obtain s m where "line_amount l = Finite s m"
        by (cases "line_amount l") simp_all
      with lk show ?thesis
        using intra_community_tax by blast
    qed
    then have "\<exists>s. f64_sum (map line_tax (lines_of_key (fst e) lines)) = Finite s 0"
      by (intro f64_sum_zeros) auto
    then show ?thesis
      by (auto simp: st_def agg_inv_entry(3) [OF inv e] f64_zero_def)
  qed
  have "subtotal_key st = \<lparr>Rate = f64_zero, CategoryID = ''K''\<rparr>"
    using key by (simp add: st_def agg_inv_entry(1) [OF inv e])
  moreover have "TaxExemptionReasonCode (TaxCategory st) \<noteq> []"
    and "xmlTaxCategory.TaxExemptionReason (TaxCategory st) \<noteq> []"
    using c by (simp_all add: st_def subtotal_rest k)
  ultimately have "intra_community_subtotal lines st"
    using tax by (simp add: intra_community_subtotal_def)
  with st show ?thesis by blast
qed

text \<open>Overflow: a magnitude of \<open>2 ^ 1024\<close> or more rounds to an infinity.\<close>

lemma to_binary64_overflow:
  assumes "pow2 1024 \<le> m"
  shows "to_binary64 s m = Infinite s"
proof -
  from assms pow2_pos [of 1024] have m: "0 < m" by linarith
  define e where "e = floor_log2 m"
  from floor_log2_bounds [OF m] have lo: "pow2 e \<le> m" and hi: "m < pow2 (e + 1)"
    by (simp_all add: e_def)
  have e: "1024 \<le> e"
  proof (rule ccontr)
    assume "\<not> 1024 \<le> e"
    then have "e + 1 \<le> 1024" by simp
    then have "pow2 (e + 1) \<le> pow2 1024" by (rule pow2_mono)
    with hi assms show False by linarith
  qed
  have u: "0 < pow2 (e - 52)" by (rule pow2_pos)
  have split: "pow2 e = pow2 52 * pow2 (e - 52)"
    using pow2_add [of 52 "e - 52"] by simp
  with lo u have "pow2 52 \<le> m / pow2 (e - 52)"
    by (simp add: pos_le_divide_eq)
  moreover have "pow2 52 = of_int (2 ^ 52)" by (simp add: pow2_def)
  ultimately have "of_int (2 ^ 52) \<le> m / pow2 (e - 52)" by simp
  then have "2 ^ 52 \<le> \<lfloor>m / pow2 (e - 52)\<rfloor>" by (simp only: le_floor_iff)
  moreover have "\<lfloor>q\<rfloor> \<le> round_half_even q" for q
    by (simp add: round_half_even_def Let_def)
  ultimately have "2 ^ 52 \<le> round_half_even (m / pow2 (e - 52))"
    by (rule order_trans)
  then have "(of_int (2 ^ 52) :: rat) \<le> of_int (round_half_even (m / pow2 (e - 52)))"
    by (simp only: of_int_le_iff)
  then have "pow2 52 \<le> of_int (round_half_even (m / pow2 (e - 52)))"
    by (simp add: pow2_def)
  then have "pow2 52 * pow2 (e - 52) \<le>
      of_int (round_half_even (m / pow2 (e - 52))) * pow2 (e - 52)"
    using u by (simp add: mult_right_mono)
  moreover from e have "pow2 1024 \<le> pow2 e" by (rule pow2_mono)
  ultimately have "pow2 1024 \<le> of_int (round_half_even (m / pow2 (e - 52))) * pow2 (e - 52)"
    using split by linarith
  with m e show ?thesis
    by (simp add: to_binary64_def Let_def max_def e_def [symmetric])
qed

lemma overflow_line_values:
  "calculateTaxTotals_line overflow_line =
     (Infinite False, ''K'', ''Intra-EU supply'', Finite False 0, NaN)"
proof -
  have "f64_mul (lit (10 ^ 200)) (lit (10 ^ 200)) = Infinite False"
    unfolding lit_1e200 by (simp add: f64_mul.simps to_binary64_overflow pow2_def)
  then show ?thesis
    by (simp add: overflow_line_def example_line_def calculateTaxTotals_line_def Let_def
        round_amount_def lit_0 f64_zero_def lit_100 f64_mul.simps f64_div.simps
        math_Round.simps)
qed

lemma overflow_line_not_nan: "\<forall>l \<in> set [overflow_line]. \<not> nan_rate l"
  by (simp add: nan_rate_def line_key_def overflow_line_values)

lemma overflow_output:
  "calculateTaxTotals id [overflow_line] =
     Inr (Infinite False, NaN,
          [calculateTaxTotals_subtotal
             \<lparr>key = \<lparr>Rate = Finite False 0, CategoryID = ''K''\<rparr>, taxable = Infinite False,
              tax = NaN, catName = ''Intra-EU supply''\<rparr>])"
  by (subst calculateTaxTotals_ok [OF overflow_line_not_nan])
    (simp add: line_amount_def line_tax_def line_key_def line_category_name_def
      overflow_line_values f64_sum_def f64_zero_def f64_add.simps)

lemma round_amount_NaN: "round_amount NaN = NaN"
  by (simp add: round_amount_def f64_mul.simps f64_div.simps math_Round.simps)

text \<open>
  A line of category \<open>K\<close> with the quantity and the price \<^verbatim>\<open>1e200\<close>: its amount overflows
  to \<open>+Inf\<close>, and the aggregator, which multiplies the amount by the rate 0, computes
  the tax NaN for it. The fragment of the line shows the tax amount 0; the subtotal of
  category \<open>K\<close> and the tax total of the document show NaN.
\<close>

theorem intra_community_overflow:
  "CategoryID (line_key overflow_line) = ''K'' \<and>
   line_amount overflow_line = Infinite False \<and>
   line_tax overflow_line = NaN \<and>
   map_sum id
     (map (xmlAmount.Value \<circ> xmlTaxTotal.TaxAmount \<circ> xmlInvoiceLine.TaxTotal) \<circ> InvoiceLines \<circ> fst)
     (Generate example_env (example_invoice\<lparr>Invoice.Lines := [overflow_line]\<rparr>)) =
     Inr [Finite False 0] \<and>
   map_sum id
     (map (xmlAmount.Value \<circ> xmlTaxSubtotal.TaxAmount) \<circ> TaxSubtotal \<circ> xmlInvoice.TaxTotal \<circ> fst)
     (Generate example_env (example_invoice\<lparr>Invoice.Lines := [overflow_line]\<rparr>)) =
     Inr [NaN] \<and>
   map_sum id (invoice_totals \<circ> fst)
     (Generate example_env (example_invoice\<lparr>Invoice.Lines := [overflow_line]\<rparr>)) =
     Inr (Infinite False, Infinite False, NaN, NaN, NaN)"
proof -
  let ?inv = "example_invoice\<lparr>Invoice.Lines := [overflow_line]\<rparr>"
  have l: "5 \<le> length (Invoice.SupplierPeppolID ?inv)" "5 \<le> length (Invoice.CustomerPeppolID ?inv)"
    by (simp_all add: example_invoice_def)
  have c: "calculateTaxTotals (mapRange example_env) (Invoice.Lines ?inv) =
      Inr (Infinite False, NaN,
          [calculateTaxTotals_subtotal
             \<lparr>key = \<lparr>Rate = Finite False 0, CategoryID = ''K''\<rparr>, taxable = Infinite False,
              tax = NaN, catName = ''Intra-EU supply''\<rparr>])"
    by (simp add: example_env_range overflow_output)
  note g = Generate_of_lines [OF l c]
  have k: "CategoryID (line_key overflow_line) = ''K''"
    by (simp add: line_key_def overflow_line_values)
  have "Generate example_env ?inv \<noteq> Inl p" for p
    using g(2) by (cases "Generate example_env ?inv") auto
  then obtain x out where r: "Generate example_env ?inv = Inr (x, out)"
    by (cases "Generate example_env ?inv") auto
  from g(3) r have "InvoiceLines x = [Invoice_addLines_line 0 overflow_line]"
    by (simp add: Invoice_addLines_loop_eq)
  with r have "map_sum id
     (map (xmlAmount.Value \<circ> xmlTaxTotal.TaxAmount \<circ> xmlInvoiceLine.TaxTotal) \<circ> InvoiceLines \<circ> fst)
     (Generate example_env ?inv) = Inr [Finite False 0]"
    using intra_community_fragments(3) [OF k, of 0] by (simp add: f64_zero_def)
  moreover from g(2) r have "map_sum id
     (map (xmlAmount.Value \<circ> xmlTaxSubtotal.TaxAmount) \<circ> TaxSubtotal \<circ> xmlInvoice.TaxTotal \<circ> fst)
     (Generate example_env ?inv) = Inr [NaN]"
    by (simp add: subtotal_fields)
  moreover from g(1) have "map_sum id (invoice_totals \<circ> fst) (Generate example_env ?inv) =
     Inr (Infinite False, Infinite False, NaN, NaN, NaN)"
    by (simp add: f64_add.simps round_amount_NaN)
  ultimately show ?thesis
    using k by (simp add: line_amount_def line_tax_def overflow_line_values)
qed

text \<open>
  C1, as the code has it. In every generated invoice and credit note, the fragment of
  a line whose resolved category code is \<open>K\<close> stands at the place of the line; its
  category has the code \<open>K\<close>, the rate 0 whatever \<^verbatim>\<open>TaxPercentage\<close> says, and the exemption
  code and text of the line, or \<open>VATEX-EU-IC\<close> and \<open>Intra-community supply\<close> where the line
  leaves them empty; and the tax amount of the fragment of an invoice line is 0. When
  the amount of the line is finite, the tax that the aggregator computes for it is a
  zero. The subtotals of the document have one of the key (0, \<open>K\<close>), with an exemption
  code and an exemption text, whose tax amount is a zero when the amounts of all the
  lines of category \<open>K\<close> are finite.
\<close>

theorem intra_community_line_output:
  assumes "range_order (mapRange env)"
  shows
    "(Generate env invoice = Inr (x, out) \<and> i < length (Invoice.Lines invoice) \<and>
      CategoryID (line_key (Invoice.Lines invoice ! i)) = ''K'' \<longrightarrow>
        length (InvoiceLines x) = length (Invoice.Lines invoice) \<and>
        intra_community_category (Invoice.Lines invoice ! i)
          (ClassifiedTaxCategory (xmlInvoiceLine.Item (InvoiceLines x ! i))) \<and>
        xmlAmount.Value (xmlTaxTotal.TaxAmount (xmlInvoiceLine.TaxTotal (InvoiceLines x ! i))) =
          f64_zero \<and>
        (is_finite (line_amount (Invoice.Lines invoice ! i)) \<longrightarrow>
           f64_eq (line_tax (Invoice.Lines invoice ! i)) f64_zero) \<and>
        (\<exists>st \<in> set (TaxSubtotal (xmlInvoice.TaxTotal x)).
           intra_community_subtotal (Invoice.Lines invoice) st)) \<and>
     (GenerateCreditNote env cn = Inr (x', out') \<and> j < length (CreditNote.Lines cn) \<and>
      CategoryID (line_key (CreditNote.Lines cn ! j)) = ''K'' \<longrightarrow>
        length (CreditNoteLines x') = length (CreditNote.Lines cn) \<and>
        intra_community_category (CreditNote.Lines cn ! j)
          (ClassifiedTaxCategory (xmlCreditNoteLine.Item (CreditNoteLines x' ! j))) \<and>
        (is_finite (line_amount (CreditNote.Lines cn ! j)) \<longrightarrow>
           f64_eq (line_tax (CreditNote.Lines cn ! j)) f64_zero) \<and>
        (\<exists>st \<in> set (TaxSubtotal (xmlCreditNote.TaxTotal x')).
           intra_community_subtotal (CreditNote.Lines cn) st))"
proof -
  have tax: "f64_eq (line_tax line) f64_zero"
    if "CategoryID (line_key line) = ''K''" "is_finite (line_amount line)" for line
  proof -
    from that(2) obtain s m where "line_amount line = Finite s m"
      by (cases "line_amount line") simp_all
    with that(1) have "line_tax line = Finite s 0"
      by (rule intra_community_tax)
    then show ?thesis by (simp add: f64_zero_def)
  qed
  have inv: "length (InvoiceLines x) = length (Invoice.Lines invoice) \<and>
        intra_community_category (Invoice.Lines invoice ! i)
          (ClassifiedTaxCategory (xmlInvoiceLine.Item (InvoiceLines x ! i))) \<and>
        xmlAmount.Value (xmlTaxTotal.TaxAmount (xmlInvoiceLine.TaxTotal (InvoiceLines x ! i))) =
          f64_zero \<and>
        (is_finite (line_amount (Invoice.Lines invoice ! i)) \<longrightarrow>
           f64_eq (line_tax (Invoice.Lines invoice ! i)) f64_zero) \<and>
        (\<exists>st \<in> set (TaxSubtotal (xmlInvoice.TaxTotal x)).
           intra_community_subtotal (Invoice.Lines invoice) st)"
    if g: "Generate env invoice = Inr (x, out)" and i: "i < length (Invoice.Lines invoice)"
      and k: "CategoryID (line_key (Invoice.Lines invoice ! i)) = ''K''"
  proof -
    from g obtain lineTotal taxTotal where
      c: "calculateTaxTotals (mapRange env) (Invoice.Lines invoice) =
            Inr (lineTotal, taxTotal, TaxSubtotal (xmlInvoice.TaxTotal x))"
      and ls: "InvoiceLines x = Invoice_addLines_loop 0 (Invoice.Lines invoice) []"
      by (rule Generate_tree)
    from i have mem: "Invoice.Lines invoice ! i \<in> set (Invoice.Lines invoice)" by simp
    from ls i have "length (InvoiceLines x) = length (Invoice.Lines invoice)"
      and "InvoiceLines x ! i = Invoice_addLines_line i (Invoice.Lines invoice ! i)"
      by (simp_all add: Invoice_addLines_loop_nth)
    with intra_community_fragments(1,3) [OF k, of i] tax [OF k]
      intra_community_subtotal_emitted [OF assms c mem k]
    show ?thesis by simp
  qed
  have cn: "length (CreditNoteLines x') = length (CreditNote.Lines cn) \<and>
        intra_community_category (CreditNote.Lines cn ! j)
          (ClassifiedTaxCategory (xmlCreditNoteLine.Item (CreditNoteLines x' ! j))) \<and>
        (is_finite (line_amount (CreditNote.Lines cn ! j)) \<longrightarrow>
           f64_eq (line_tax (CreditNote.Lines cn ! j)) f64_zero) \<and>
        (\<exists>st \<in> set (TaxSubtotal (xmlCreditNote.TaxTotal x')).
           intra_community_subtotal (CreditNote.Lines cn) st)"
    if g: "GenerateCreditNote env cn = Inr (x', out')" and j: "j < length (CreditNote.Lines cn)"
      and k: "CategoryID (line_key (CreditNote.Lines cn ! j)) = ''K''"
  proof -
    from g obtain lineTotal taxTotal where
      c: "calculateTaxTotals (mapRange env) (CreditNote.Lines cn) =
            Inr (lineTotal, taxTotal, TaxSubtotal (xmlCreditNote.TaxTotal x'))"
      and ls: "CreditNoteLines x' = CreditNote_addLines_loop 0 (CreditNote.Lines cn) []"
      by (rule GenerateCreditNote_tree)
    from j have mem: "CreditNote.Lines cn ! j \<in> set (CreditNote.Lines cn)" by simp
    from ls j have "length (CreditNoteLines x') = length (CreditNote.Lines cn)"
      and "CreditNoteLines x' ! j = CreditNote_addLines_line j (CreditNote.Lines cn ! j)"
      by (simp_all add: CreditNote_addLines_loop_nth)
    with intra_community_fragments(2) [OF k, of j] tax [OF k]
      intra_community_subtotal_emitted [OF assms c mem k]
    show ?thesis by simp
  qed
  from inv cn show ?thesis by blast
qed

theorem intra_community_line_output_witness:
  "range_order (mapRange example_env) \<and>
   TaxPercentage intra_community_line = Finite False 19 \<and>
   CategoryID (line_key intra_community_line) = ''K'' \<and>
   is_finite (line_amount intra_community_line) \<and>
   f64_eq (line_tax intra_community_line) f64_zero \<and>
   (\<exists>x out. Generate example_env (example_invoice\<lparr>Invoice.Lines := [intra_community_line]\<rparr>) =
        Inr (x, out) \<and>
      length (InvoiceLines x) = 1 \<and>
      xmlTaxCategory.ID (ClassifiedTaxCategory (xmlInvoiceLine.Item (InvoiceLines x ! 0))) = ''K'' \<and>
      Percent (ClassifiedTaxCategory (xmlInvoiceLine.Item (InvoiceLines x ! 0))) = Finite False 0 \<and>
      TaxExemptionReasonCode (ClassifiedTaxCategory (xmlInvoiceLine.Item (InvoiceLines x ! 0))) =
        ''VATEX-EU-IC'' \<and>
      xmlTaxCategory.TaxExemptionReason
        (ClassifiedTaxCategory (xmlInvoiceLine.Item (InvoiceLines x ! 0))) =
        ''Intra-community supply'' \<and>
      xmlAmount.Value (xmlTaxTotal.TaxAmount (xmlInvoiceLine.TaxTotal (InvoiceLines x ! 0))) =
        Finite False 0 \<and>
      TaxSubtotal (xmlInvoice.TaxTotal x) = intra_community_subtotals) \<and>
   (\<exists>x out. GenerateCreditNote example_env
        (example_creditnote\<lparr>CreditNote.Lines := [intra_community_line]\<rparr>) = Inr (x, out) \<and>
      length (CreditNoteLines x) = 1 \<and>
      xmlTaxCategory.ID (ClassifiedTaxCategory (xmlCreditNoteLine.Item (CreditNoteLines x ! 0))) =
        ''K'' \<and>
      Percent (ClassifiedTaxCategory (xmlCreditNoteLine.Item (CreditNoteLines x ! 0))) =
        Finite False 0 \<and>
      TaxExemptionReasonCode
        (ClassifiedTaxCategory (xmlCreditNoteLine.Item (CreditNoteLines x ! 0))) =
        ''VATEX-EU-IC'' \<and>
      xmlTaxCategory.TaxExemptionReason
        (ClassifiedTaxCategory (xmlCreditNoteLine.Item (CreditNoteLines x ! 0))) =
        ''Intra-community supply'' \<and>
      TaxSubtotal (xmlCreditNote.TaxTotal x) = intra_community_subtotals)"
proof -
  let ?inv = "example_invoice\<lparr>Invoice.Lines := [intra_community_line]\<rparr>"
  let ?cn = "example_creditnote\<lparr>CreditNote.Lines := [intra_community_line]\<rparr>"
  have ro: "range_order (mapRange example_env)"
    by (simp add: example_env_range range_order_id)
  have p: "TaxPercentage intra_community_line = Finite False 19"
    by (simp add: intra_community_line_def example_line_def ev)
  have e: "TaxExemptionCode intra_community_line = []"
    "InvoiceLine.TaxExemptionReason intra_community_line = []"
    by (simp_all add: intra_community_line_def example_line_def)
  have k: "CategoryID (line_key intra_community_line) = ''K''"
    by (simp add: line_key_def intra_community_line_values)
  have f: "is_finite (line_amount intra_community_line)"
    by (simp add: line_amount_def intra_community_line_values)
  have c: "calculateTaxTotals (mapRange example_env) [intra_community_line] =
      Inr (Finite False 20, Finite False 0, intra_community_subtotals)"
    by (simp add: example_env_range intra_community_output)
  have "Generate example_env ?inv \<noteq> Inl q" for q
    using Generate_of_lines(2) [of ?inv example_env] c
    by (cases "Generate example_env ?inv") (auto simp: example_invoice_def)
  then obtain x out where g: "Generate example_env ?inv = Inr (x, out)"
    by (cases "Generate example_env ?inv") auto
  have "GenerateCreditNote example_env ?cn \<noteq> Inl q" for q
    using GenerateCreditNote_of_lines(2) [of ?cn example_env] c
    by (cases "GenerateCreditNote example_env ?cn") (auto simp: example_creditnote_def)
  then obtain x' out' where g': "GenerateCreditNote example_env ?cn = Inr (x', out')"
    by (cases "GenerateCreditNote example_env ?cn") auto
  note t = intra_community_line_output [OF ro, where invoice = ?inv and x = x and out = out
      and i = 0 and cn = ?cn and x' = x' and out' = out' and j = 0]
  from t g k have a: "length (InvoiceLines x) = 1"
    and b: "intra_community_category intra_community_line
          (ClassifiedTaxCategory (xmlInvoiceLine.Item (InvoiceLines x ! 0)))"
    and d: "xmlAmount.Value (xmlTaxTotal.TaxAmount (xmlInvoiceLine.TaxTotal (InvoiceLines x ! 0))) =
          f64_zero"
    and z: "is_finite (line_amount intra_community_line) \<longrightarrow>
          f64_eq (line_tax intra_community_line) f64_zero"
    by simp_all
  from t g' k have a': "length (CreditNoteLines x') = 1"
    and b': "intra_community_category intra_community_line
          (ClassifiedTaxCategory (xmlCreditNoteLine.Item (CreditNoteLines x' ! 0)))"
    by simp_all
  from g c have s: "TaxSubtotal (xmlInvoice.TaxTotal x) = intra_community_subtotals"
    by (auto elim!: Generate_tree)
  from g' c have s': "TaxSubtotal (xmlCreditNote.TaxTotal x') = intra_community_subtotals"
    by (auto elim!: GenerateCreditNote_tree)
  from z f have "f64_eq (line_tax intra_community_line) f64_zero" by simp
  moreover from g a b d s e have "\<exists>x out. Generate example_env ?inv = Inr (x, out) \<and>
      length (InvoiceLines x) = 1 \<and>
      xmlTaxCategory.ID (ClassifiedTaxCategory (xmlInvoiceLine.Item (InvoiceLines x ! 0))) = ''K'' \<and>
      Percent (ClassifiedTaxCategory (xmlInvoiceLine.Item (InvoiceLines x ! 0))) = Finite False 0 \<and>
      TaxExemptionReasonCode (ClassifiedTaxCategory (xmlInvoiceLine.Item (InvoiceLines x ! 0))) =
        ''VATEX-EU-IC'' \<and>
      xmlTaxCategory.TaxExemptionReason
        (ClassifiedTaxCategory (xmlInvoiceLine.Item (InvoiceLines x ! 0))) =
        ''Intra-community supply'' \<and>
      xmlAmount.Value (xmlTaxTotal.TaxAmount (xmlInvoiceLine.TaxTotal (InvoiceLines x ! 0))) =
        Finite False 0 \<and>
      TaxSubtotal (xmlInvoice.TaxTotal x) = intra_community_subtotals"
    by (simp add: intra_community_category_def f64_zero_def)
  moreover from g' a' b' s' e have "\<exists>x out. GenerateCreditNote example_env ?cn = Inr (x, out) \<and>
      length (CreditNoteLines x) = 1 \<and>
      xmlTaxCategory.ID (ClassifiedTaxCategory (xmlCreditNoteLine.Item (CreditNoteLines x ! 0))) =
        ''K'' \<and>
      Percent (ClassifiedTaxCategory (xmlCreditNoteLine.Item (CreditNoteLines x ! 0))) =
        Finite False 0 \<and>
      TaxExemptionReasonCode
        (ClassifiedTaxCategory (xmlCreditNoteLine.Item (CreditNoteLines x ! 0))) =
        ''VATEX-EU-IC'' \<and>
      xmlTaxCategory.TaxExemptionReason
        (ClassifiedTaxCategory (xmlCreditNoteLine.Item (CreditNoteLines x ! 0))) =
        ''Intra-community supply'' \<and>
      TaxSubtotal (xmlCreditNote.TaxTotal x) = intra_community_subtotals"
    by (simp add: intra_community_category_def f64_zero_def)
  ultimately show ?thesis
    using ro p k f by blast
qed

end
